theory Spec2Isabelle
  imports Main "HOL-Library.Char_ord"
begin

section \<open>Strings\<close>

text \<open>
  A Go string is a sequence of bytes, and \<open>len\<close>, indexing and slicing count bytes:
  it is modelled as \<^typ>\<open>string\<close>, a list of 8-bit characters.
\<close>

definition ReplaceAll :: "char \<Rightarrow> char \<Rightarrow> string \<Rightarrow> string" where
  \<comment> \<open>\<open>strings.ReplaceAll(s, old, new)\<close> for one-byte \<open>old\<close> and \<open>new\<close>, the only use in the source.\<close>
  "ReplaceAll old new s = map (\<lambda>c. if c = old then new else c) s"

section \<open>The data model of the Notion client (internal/notion)\<close>

text \<open>
  Each Go struct is a record; a field \<open>F\<close> of struct \<open>S\<close> is the selector \<open>S_F\<close>, since
  several structs share field names. A pointer field that may be \<open>nil\<close> is an option.
\<close>

record Link =
  Link_URL :: string

record TextContent =
  TextContent_Content :: string
  TextContent_Link :: "Link option"

record Annotations =
  Annotations_Bold :: bool
  Annotations_Italic :: bool
  Annotations_Strikethrough :: bool
  Annotations_Underline :: bool
  Annotations_Code :: bool
  Annotations_Color :: string

record RichText =
  RichText_Type :: string
  RichText_Text :: "TextContent option"
  RichText_Annotations :: "Annotations option"
  RichText_PlainText :: string
  RichText_Href :: "string option"

record Property =
  Property_ID :: string
  Property_Type :: string
  Property_Title :: "RichText list"

text \<open>
  \<open>Parent\<close> is a \<open>map[string]interface{}\<close>: the type \<open>'any\<close> stands for \<open>interface{}\<close>.
  \<open>Properties\<close> is a Go map, which \<open>GetPageTitle\<close> ranges over in an order Go does not
  fix: the association list gives the properties in the order the range visits them.
\<close>

record 'any Page =
  Page_Object :: string
  Page_ID :: string
  Page_CreatedTime :: string
  Page_LastEditedTime :: string
  Page_Parent :: "string \<rightharpoonup> 'any"
  Page_Properties :: "(string \<times> Property) list"
  Page_URL :: string

record 'any SearchResponse =
  SearchResponse_Object :: string
  SearchResponse_Results :: "'any Page list"
  SearchResponse_NextCursor :: "string option"
  SearchResponse_HasMore :: bool

record ParagraphBlock =
  ParagraphBlock_RichText :: "RichText list"
  ParagraphBlock_Color :: string

record HeadingBlock =
  HeadingBlock_RichText :: "RichText list"
  HeadingBlock_Color :: string

record ListBlock =
  ListBlock_RichText :: "RichText list"
  ListBlock_Color :: string

record ToDoBlock =
  ToDoBlock_RichText :: "RichText list"
  ToDoBlock_Checked :: bool
  ToDoBlock_Color :: string

record CodeBlock =
  CodeBlock_RichText :: "RichText list"
  CodeBlock_Language :: string

record Block =
  Block_Object :: string
  Block_ID :: string
  Block_Type :: string
  Block_CreatedTime :: string
  Block_LastEditedTime :: string
  Block_HasChildren :: bool
  Block_Paragraph :: "ParagraphBlock option"
  Block_Heading1 :: "HeadingBlock option"
  Block_Heading2 :: "HeadingBlock option"
  Block_Heading3 :: "HeadingBlock option"
  Block_BulletedList :: "ListBlock option"
  Block_NumberedList :: "ListBlock option"
  Block_ToDo :: "ToDoBlock option"
  Block_Code :: "CodeBlock option"

record BlockResponse =
  BlockResponse_Object :: string
  BlockResponse_Results :: "Block list"
  BlockResponse_NextCursor :: "string option"
  BlockResponse_HasMore :: bool

section \<open>Titles: \<open>GetPageTitle\<close>\<close>

fun GetPageTitle_loop :: "(string \<times> Property) list \<Rightarrow> string" where
  "GetPageTitle_loop [] = ''Untitled''"
| "GetPageTitle_loop ((name, prop) # props) =
     (if Property_Type prop = ''title'' \<and> length (Property_Title prop) > 0
      then RichText_PlainText (hd (Property_Title prop))
      else GetPageTitle_loop props)"

definition GetPageTitle :: "'any Page \<Rightarrow> string" where
  "GetPageTitle p = GetPageTitle_loop (Page_Properties p)"

section \<open>Rendering: \<open>blockToMarkdown\<close> and \<open>richTextToMarkdown\<close>\<close>

definition annotate :: "Annotations \<Rightarrow> string \<Rightarrow> string" where
  \<comment> \<open>The four tests under \<open>rt.Annotations != nil\<close>, in the source's order.\<close>
  "annotate a text =
     (let text = (if Annotations_Code a then ''`'' @ text @ ''`'' else text);
          text = (if Annotations_Bold a then ''**'' @ text @ ''**'' else text);
          text = (if Annotations_Italic a then ''*'' @ text @ ''*'' else text);
          text = (if Annotations_Strikethrough a then ''~~'' @ text @ ''~~'' else text)
      in text)"

definition linkTo :: "string \<Rightarrow> string \<Rightarrow> string" where
  \<comment> \<open>\<open>fmt.Sprintf("[%s](%s)", text, url)\<close>\<close>
  "linkTo text url = ''['' @ text @ ''](''  @ url @ '')''"

definition richTextPiece :: "RichText \<Rightarrow> string" where
  \<comment> \<open>One round of the loop of \<open>richTextToMarkdown\<close>: what it writes to the builder.\<close>
  "richTextPiece rt =
     (let text = RichText_PlainText rt in
      if text = [] then []
      else
        let text = (case RichText_Annotations rt of None \<Rightarrow> text | Some a \<Rightarrow> annotate a text) in
        (case RichText_Href rt of
           Some href \<Rightarrow>
             if href \<noteq> [] then linkTo text href
             else (case RichText_Text rt of
                     None \<Rightarrow> text
                   | Some t \<Rightarrow> (case TextContent_Link t of None \<Rightarrow> text | Some l \<Rightarrow> linkTo text (Link_URL l)))
         | None \<Rightarrow>
             (case RichText_Text rt of
                None \<Rightarrow> text
              | Some t \<Rightarrow> (case TextContent_Link t of None \<Rightarrow> text | Some l \<Rightarrow> linkTo text (Link_URL l)))))"

definition richTextToMarkdown :: "RichText list \<Rightarrow> string" where
  "richTextToMarkdown richTexts = concat (map richTextPiece richTexts)"

definition richTextToPlainText :: "RichText list \<Rightarrow> string" where
  "richTextToPlainText richTexts = concat (map RichText_PlainText richTexts)"

definition blockToMarkdown :: "Block \<Rightarrow> string" where
  "blockToMarkdown block =
     (if Block_Type block = ''paragraph'' then
        (case Block_Paragraph block of
           Some b \<Rightarrow> (let text = richTextToMarkdown (ParagraphBlock_RichText b)
                      in if text \<noteq> [] then text @ ''\<newline>'' else [])
         | None \<Rightarrow> [])
      else if Block_Type block = ''heading_1'' then
        (case Block_Heading1 block of
           Some b \<Rightarrow> ''## '' @ richTextToMarkdown (HeadingBlock_RichText b) @ ''\<newline>''
         | None \<Rightarrow> [])
      else if Block_Type block = ''heading_2'' then
        (case Block_Heading2 block of
           Some b \<Rightarrow> ''### '' @ richTextToMarkdown (HeadingBlock_RichText b) @ ''\<newline>''
         | None \<Rightarrow> [])
      else if Block_Type block = ''heading_3'' then
        (case Block_Heading3 block of
           Some b \<Rightarrow> ''#### '' @ richTextToMarkdown (HeadingBlock_RichText b) @ ''\<newline>''
         | None \<Rightarrow> [])
      else if Block_Type block = ''bulleted_list_item'' then
        (case Block_BulletedList block of
           Some b \<Rightarrow> ''- '' @ richTextToMarkdown (ListBlock_RichText b) @ ''\<newline>''
         | None \<Rightarrow> [])
      else if Block_Type block = ''numbered_list_item'' then
        (case Block_NumberedList block of
           Some b \<Rightarrow> ''1. '' @ richTextToMarkdown (ListBlock_RichText b) @ ''\<newline>''
         | None \<Rightarrow> [])
      else if Block_Type block = ''to_do'' then
        (case Block_ToDo block of
           Some b \<Rightarrow>
             (let text = richTextToMarkdown (ToDoBlock_RichText b);
                  checkbox = (if ToDoBlock_Checked b then ''- [x]'' else ''- [ ]'')
              in checkbox @ '' '' @ text @ ''\<newline>'')
         | None \<Rightarrow> [])
      else if Block_Type block = ''code'' then
        (case Block_Code block of
           Some b \<Rightarrow>
             (let text = richTextToPlainText (CodeBlock_RichText b);
                  lang = (if CodeBlock_Language b = [] then ''text'' else CodeBlock_Language b)
              in ''```'' @ lang @ ''\<newline>'' @ text @ ''\<newline>'' @ ''```'' @ ''\<newline>'')
         | None \<Rightarrow> [])
      else [])"

section \<open>Tags: \<open>sanitizeTag\<close> (internal/notion)\<close>

definition keptRune :: "char \<Rightarrow> bool" where
  \<comment> \<open>The test of the loop in \<open>sanitizeTag\<close>.\<close>
  "keptRune r \<longleftrightarrow>
     (CHR ''a'' \<le> r \<and> r \<le> CHR ''z'') \<or> (CHR ''A'' \<le> r \<and> r \<le> CHR ''Z'') \<or>
     (CHR ''0'' \<le> r \<and> r \<le> CHR ''9'') \<or> r = CHR ''_'' \<or> r = CHR ''-''"

text \<open>
  The source ranges over the runes of the tag. Every rune it keeps is ASCII, and a rune
  beyond ASCII (or an invalid byte, read as U+FFFD) consists of bytes from 0x80 on, none
  of which passes the test: filtering the bytes gives the same string.
\<close>

definition sanitizeTag :: "string \<Rightarrow> string" where
  "sanitizeTag tag =
     filter keptRune (ReplaceAll (CHR ''.'') (CHR ''_'') (ReplaceAll (CHR '' '') (CHR ''_'') tag))"

definition sanitizeRune :: "char \<Rightarrow> string" where
  \<comment> \<open>What one byte of a tag becomes.\<close>
  "sanitizeRune c =
     (if c = CHR '' '' \<or> c = CHR ''.'' then ''_''
      else if keptRune c then [c] else [])"

section \<open>Errors, time and the collaborators\<close>

text \<open>
  A Go \<open>error\<close> is its message. \<open>fmt.Errorf("prefix: %w", err)\<close> puts the prefix before the
  message of the wrapped error.
\<close>

datatype error = Error string

fun msg :: "error \<Rightarrow> string" where
  "msg (Error m) = m"

definition wrap :: "string \<Rightarrow> error \<Rightarrow> error" where
  "wrap prefix err = Error (prefix @ msg err)"

text \<open>
  A \<open>time.Time\<close> is modelled by its instant, in nanoseconds since the epoch, as an unbounded
  integer; a \<open>time.Duration\<close> is a number of nanoseconds.
\<close>

type_synonym Time = int

definition Second :: int where
  "Second = 1000000000"

definition Add :: "Time \<Rightarrow> int \<Rightarrow> Time" where
  "Add t d = t + d"

text \<open>
  The collaborators of the pipeline are parameters of the model, collected in one record.
  The remote services and the file system have a state of type \<open>'w\<close>, which every call
  reads and may change: the same request may be answered differently each time.
  \<^item> \<open>httpSearch query cursor\<close> is one round of \<open>SearchPages\<close>: the POST to \<open>/search\<close> through
    \<open>doRequest\<close> (rate limiter, transport, status check) and the decoding of the response;
    \<open>httpBlockChildren blockID cursor\<close> is one round of \<open>RetrieveBlocks\<close> in the same way;
    \<open>httpGetPage\<close> and \<open>httpGetDatabase\<close> are the requests of \<open>RetrievePage\<close> and
    \<open>RetrieveDatabase\<close>; \<open>httpCreateMemo content createdTime dryRun\<close> is what \<open>CreateMemo\<close>
    does with the target service (or, in a dry run, with the output directory).
  \<^item> \<open>readStateFile\<close> says whether \<open>LoadState\<close> succeeds in locating, reading and decoding
    the state file, and \<open>writeStateFile\<close> whether \<open>SaveState\<close> succeeds in writing it.
  \<^item> \<open>GetParentDatabaseID\<close>, \<open>GetParentPageID\<close>, \<open>GetDatabaseTitle\<close> and the type \<open>'db\<close> of
    \<open>notion.Database\<close> are used by the migrator; the client sources modelled here do not
    declare them, so the model fixes nothing about them.
  \<^item> \<open>ParseRFC3339\<close> is \<open>time.Parse(time.RFC3339, _)\<close>, \<open>FormatTime\<close> is
    \<open>Format("2006-01-02 15:04:05")\<close>, \<open>TrimSpace\<close> is \<open>strings.TrimSpace\<close> and \<open>Now\<close> is
    \<open>time.Now()\<close>, of Go's standard library.
\<close>

record ('w, 'db, 'any) Env =
  httpSearch :: "string \<Rightarrow> string option \<Rightarrow> 'w \<Rightarrow> (error + 'any SearchResponse) \<times> 'w"
  httpBlockChildren :: "string \<Rightarrow> string option \<Rightarrow> 'w \<Rightarrow> (error + BlockResponse) \<times> 'w"
  httpGetPage :: "string \<Rightarrow> 'w \<Rightarrow> (error + 'any Page) \<times> 'w"
  httpGetDatabase :: "string \<Rightarrow> 'w \<Rightarrow> (error + 'db) \<times> 'w"
  httpCreateMemo :: "string \<Rightarrow> Time \<Rightarrow> bool \<Rightarrow> 'w \<Rightarrow> error option \<times> 'w"
  readStateFile :: "'w \<Rightarrow> error option \<times> 'w"
  writeStateFile :: "'w \<Rightarrow> error option \<times> 'w"
  GetParentDatabaseID :: "'any Page \<Rightarrow> string"
  GetParentPageID :: "'any Page \<Rightarrow> string"
  GetDatabaseTitle :: "'db \<Rightarrow> string"
  ParseRFC3339 :: "string \<Rightarrow> Time option"
  FormatTime :: "Time \<Rightarrow> string"
  TrimSpace :: "string \<Rightarrow> string"
  Now :: "'w \<Rightarrow> Time"

section \<open>Paginated retrieval: \<open>SearchPages\<close>, \<open>RetrieveBlocks\<close>, \<open>RetrievePage\<close>\<close>

text \<open>
  Both loops run until the source answers \<open>has_more = false\<close>, which it may never do: the
  functions are partial, and \<open>None\<close> is a loop that does not end.
\<close>

partial_function (option) SearchPages_loop ::
  "('w, 'db, 'any) Env \<Rightarrow> string \<Rightarrow> 'any Page list \<Rightarrow> string option \<Rightarrow> 'w
    \<Rightarrow> ((error + 'any Page list) \<times> 'w) option" where
  "SearchPages_loop env query allPages cursor w =
     (case httpSearch env query cursor w of
        (Inl err, w') \<Rightarrow> Some (Inl err, w')
      | (Inr searchResp, w') \<Rightarrow>
          (let allPages = allPages @ SearchResponse_Results searchResp in
           if \<not> SearchResponse_HasMore searchResp then Some (Inr allPages, w')
           else SearchPages_loop env query allPages (SearchResponse_NextCursor searchResp) w'))"

definition SearchPages ::
  "('w, 'db, 'any) Env \<Rightarrow> string \<Rightarrow> 'w \<Rightarrow> ((error + 'any Page list) \<times> 'w) option" where
  "SearchPages env query w = SearchPages_loop env query [] None w"

partial_function (option) RetrieveBlocks_loop ::
  "('w, 'db, 'any) Env \<Rightarrow> string \<Rightarrow> Block list \<Rightarrow> string option \<Rightarrow> 'w
    \<Rightarrow> ((error + Block list) \<times> 'w) option" where
  "RetrieveBlocks_loop env blockID allBlocks cursor w =
     (case httpBlockChildren env blockID cursor w of
        (Inl err, w') \<Rightarrow> Some (Inl err, w')
      | (Inr blockResp, w') \<Rightarrow>
          (let allBlocks = allBlocks @ BlockResponse_Results blockResp in
           if \<not> BlockResponse_HasMore blockResp then Some (Inr allBlocks, w')
           else RetrieveBlocks_loop env blockID allBlocks (BlockResponse_NextCursor blockResp) w'))"

definition RetrieveBlocks ::
  "('w, 'db, 'any) Env \<Rightarrow> string \<Rightarrow> 'w \<Rightarrow> ((error + Block list) \<times> 'w) option" where
  "RetrieveBlocks env blockID w = RetrieveBlocks_loop env blockID [] None w"

definition RetrievePage ::
  "('w, 'db, 'any) Env \<Rightarrow> string \<Rightarrow> 'w \<Rightarrow> (error + 'any Page) \<times> 'w" where
  "RetrievePage env pageID w = httpGetPage env pageID w"

definition RetrieveDatabase ::
  "('w, 'db, 'any) Env \<Rightarrow> string \<Rightarrow> 'w \<Rightarrow> (error + 'db) \<times> 'w" where
  "RetrieveDatabase env databaseID w = httpGetDatabase env databaseID w"

section \<open>Rendering a page: \<open>BlocksToMarkdown\<close>\<close>

definition tagLine :: "string list \<Rightarrow> string" where
  \<comment> \<open>The loop over the tags: \<open>"#" + sanitizeTag(tag) + " "\<close> for each.\<close>
  "tagLine tags = concat (map (\<lambda>tag. ''#'' @ sanitizeTag tag @ '' '') tags)"

definition blockLines :: "Block list \<Rightarrow> string" where
  \<comment> \<open>The loop over the blocks: a block that renders to the empty string writes nothing.\<close>
  "blockLines blocks =
     concat (map (\<lambda>block. let blockMd = blockToMarkdown block
                          in if blockMd \<noteq> [] then blockMd @ ''\<newline>'' else []) blocks)"

text \<open>The error that \<open>BlocksToMarkdown\<close> returns is \<open>nil\<close> on every path.\<close>

definition BlocksToMarkdown ::
  "('w, 'db, 'any) Env \<Rightarrow> Block list \<Rightarrow> string \<Rightarrow> string \<Rightarrow> string list \<Rightarrow> error + string" where
  "BlocksToMarkdown env blocks createdTime pageTitle tags =
     (let md = (if pageTitle \<noteq> [] then ''# '' @ pageTitle @ ''\<newline>\<newline>'' else []);
          md = (if length tags > 0 then md @ tagLine tags @ ''\<newline>\<newline>'' else md);
          md = (if createdTime \<noteq> [] then
                  (case ParseRFC3339 env createdTime of
                     Some parsedTime \<Rightarrow>
                       md @ ''<!-- Created: '' @ FormatTime env parsedTime @ '' -->\<newline>\<newline>''
                   | None \<Rightarrow> md)
                else md);
          md = md @ blockLines blocks
      in Inr (TrimSpace env md))"

section \<open>Filtering by title: \<open>filterPagesByTitle\<close> (internal/migrate)\<close>

fun titleSet_of :: "string list \<Rightarrow> (string \<rightharpoonup> bool) \<Rightarrow> (string \<rightharpoonup> bool)" where
  \<comment> \<open>The loop that fills \<open>titleSet\<close>.\<close>
  "titleSet_of [] titleSet = titleSet"
| "titleSet_of (title # titles) titleSet = titleSet_of titles (titleSet(title \<mapsto> True))"

definition lookupBool :: "(string \<rightharpoonup> bool) \<Rightarrow> string \<Rightarrow> bool" where
  \<comment> \<open>Reading a \<open>map[string]bool\<close>: a missing key reads as \<open>false\<close>.\<close>
  "lookupBool m k = (case m k of Some b \<Rightarrow> b | None \<Rightarrow> False)"

definition filterPagesByTitle :: "'any Page list \<Rightarrow> string list \<Rightarrow> 'any Page list" where
  "filterPagesByTitle pages titles =
     (if length titles = 0 then pages
      else let titleSet = titleSet_of titles Map.empty
           in filter (\<lambda>page. lookupBool titleSet (GetPageTitle page)) pages)"

section \<open>The state tracker (internal/config)\<close>

text \<open>
  Beyond the fields of the Go struct (\<open>state\<close> is the \<open>ProcessedPages\<close> map of the
  \<open>config.State\<close> it points to), the record of a migrator carries what the run acts on:
  the state of the collaborators, the decoded content of the state file (\<open>None\<close> when
  the file does not exist) and the memos handed to \<open>CreateMemo\<close> so far, in order.
\<close>

record ('w, 'db, 'any) Migrator =
  Migrator_world :: 'w
  Migrator_stateFile :: "(string \<rightharpoonup> bool) option"
  Migrator_created :: "(string \<times> Time) list"
  Migrator_state :: "string \<rightharpoonup> bool"
  Migrator_dryRun :: bool
  Migrator_pageCache :: "string \<rightharpoonup> 'any Page"
  Migrator_databaseCache :: "string \<rightharpoonup> 'db"

definition LoadState ::
  "('w, 'db, 'any) Env \<Rightarrow> 'w \<Rightarrow> (string \<rightharpoonup> bool) option \<Rightarrow> (error + (string \<rightharpoonup> bool)) \<times> 'w" where
  \<comment> \<open>No file gives the empty state; so does a file without the map.\<close>
  "LoadState env w file =
     (case readStateFile env w of
        (Some err, w') \<Rightarrow> (Inl err, w')
      | (None, w') \<Rightarrow>
          (case file of
             None \<Rightarrow> (Inr Map.empty, w')
           | Some processedPages \<Rightarrow> (Inr processedPages, w')))"

definition SaveState ::
  "('w, 'db, 'any) Env \<Rightarrow> ('w, 'db, 'any) Migrator \<Rightarrow> error option \<times> ('w, 'db, 'any) Migrator" where
  \<comment> \<open>A write that fails is taken to leave the file as it was.\<close>
  "SaveState env m =
     (case writeStateFile env (Migrator_world m) of
        (Some err, w') \<Rightarrow> (Some err, m\<lparr>Migrator_world := w'\<rparr>)
      | (None, w') \<Rightarrow> (None, m\<lparr>Migrator_world := w', Migrator_stateFile := Some (Migrator_state m)\<rparr>))"

definition MarkProcessed :: "string \<Rightarrow> ('w, 'db, 'any) Migrator \<Rightarrow> ('w, 'db, 'any) Migrator" where
  "MarkProcessed pageID m = m\<lparr>Migrator_state := (Migrator_state m)(pageID \<mapsto> True)\<rparr>"

definition IsProcessed :: "('w, 'db, 'any) Migrator \<Rightarrow> string \<Rightarrow> bool" where
  "IsProcessed m pageID = lookupBool (Migrator_state m) pageID"

section \<open>The target service: \<open>CreateMemo\<close> (internal/memos)\<close>

definition CreateMemo ::
  "('w, 'db, 'any) Env \<Rightarrow> string \<Rightarrow> Time \<Rightarrow> bool \<Rightarrow> ('w, 'db, 'any) Migrator
    \<Rightarrow> error option \<times> ('w, 'db, 'any) Migrator" where
  "CreateMemo env content createdTime dryRun m =
     (case httpCreateMemo env content createdTime dryRun (Migrator_world m) of
        (r, w') \<Rightarrow>
          (r, m\<lparr>Migrator_world := w', Migrator_created := Migrator_created m @ [(content, createdTime)]\<rparr>))"

section \<open>Tag resolution: \<open>getParentTagsCached\<close> (internal/migrate)\<close>

definition getPageCached ::
  "('w, 'db, 'any) Env \<Rightarrow> string \<Rightarrow> ('w, 'db, 'any) Migrator
    \<Rightarrow> (error + 'any Page) \<times> ('w, 'db, 'any) Migrator" where
  "getPageCached env pageID m =
     (case Migrator_pageCache m pageID of
        Some cached \<Rightarrow> (Inr cached, m)
      | None \<Rightarrow>
          (case RetrievePage env pageID (Migrator_world m) of
             (Inl err, w') \<Rightarrow> (Inl err, m\<lparr>Migrator_world := w'\<rparr>)
           | (Inr page, w') \<Rightarrow>
               (Inr page, m\<lparr>Migrator_world := w',
                             Migrator_pageCache := (Migrator_pageCache m)(pageID \<mapsto> page)\<rparr>)))"

definition getDatabaseCached ::
  "('w, 'db, 'any) Env \<Rightarrow> string \<Rightarrow> ('w, 'db, 'any) Migrator
    \<Rightarrow> (error + 'db) \<times> ('w, 'db, 'any) Migrator" where
  "getDatabaseCached env databaseID m =
     (case Migrator_databaseCache m databaseID of
        Some cached \<Rightarrow> (Inr cached, m)
      | None \<Rightarrow>
          (case RetrieveDatabase env databaseID (Migrator_world m) of
             (Inl err, w') \<Rightarrow> (Inl err, m\<lparr>Migrator_world := w'\<rparr>)
           | (Inr database, w') \<Rightarrow>
               (Inr database, m\<lparr>Migrator_world := w',
                                 Migrator_databaseCache := (Migrator_databaseCache m)(databaseID \<mapsto> database)\<rparr>)))"

text \<open>
  The loop \<open>for i := 0; i < 10 && currentPageID != ""; i++\<close>: a parent that cannot be
  retrieved ends it with the tags found so far.
\<close>

function walkParents ::
  "('w, 'db, 'any) Env \<Rightarrow> nat \<Rightarrow> string \<Rightarrow> string list \<Rightarrow> ('w, 'db, 'any) Migrator
    \<Rightarrow> string list \<times> ('w, 'db, 'any) Migrator" where
  "walkParents env i currentPageID tags m =
     (if i < 10 \<and> currentPageID \<noteq> [] then
        (case getPageCached env currentPageID m of
           (Inl err, m') \<Rightarrow> (tags, m')
         | (Inr parentPage, m') \<Rightarrow>
             walkParents env (Suc i) (GetParentPageID env parentPage) (GetPageTitle parentPage # tags) m')
      else (tags, m))"
  by pat_completeness auto
termination
  by (relation "measure (\<lambda>(env, i, currentPageID, tags, m). 10 - i)") auto

declare walkParents.simps [simp del]

text \<open>The error that \<open>getParentTagsCached\<close> returns is \<open>nil\<close> on every path.\<close>

definition getParentTagsCached ::
  "('w, 'db, 'any) Env \<Rightarrow> 'any Page \<Rightarrow> ('w, 'db, 'any) Migrator
    \<Rightarrow> string list \<times> ('w, 'db, 'any) Migrator" where
  "getParentTagsCached env page m =
     (let dbID = GetParentDatabaseID env page;
          (tags, m) =
            (if dbID \<noteq> [] then
               (case getDatabaseCached env dbID m of
                  (Inr database, m') \<Rightarrow> ([GetDatabaseTitle env database], m')
                | (Inl err, m') \<Rightarrow> ([], m'))
             else ([], m))
      in walkParents env 0 (GetParentPageID env page) tags m)"

section \<open>Splitting: \<open>createSplitMemos\<close> (internal/migrate)\<close>

definition memosMaxLength :: nat where
  "memosMaxLength = 8192"

definition safeChunkSize :: nat where
  "safeChunkSize = memosMaxLength - 200"

definition splitMarker :: string where
  "splitMarker = ''\<newline>\<newline>...''"

definition continuationMarker :: string where
  "continuationMarker = ''...\<newline>\<newline>''"

text \<open>
  The inner loop \<open>for breakPoint > 0 && remaining[breakPoint] != '\n'\<close>, from
  \<open>breakPoint\<close> down. It runs only where \<open>len(remaining) > safeChunkSize\<close>, so every index
  it reads is in range.
\<close>

fun findBreakPoint :: "string \<Rightarrow> nat \<Rightarrow> nat" where
  "findBreakPoint remaining 0 = 0"
| "findBreakPoint remaining (Suc n) =
     (if remaining ! Suc n \<noteq> CHR 0x0A then findBreakPoint remaining n else Suc n)"

definition trimLeading :: "string \<Rightarrow> string" where
  \<comment> \<open>The loop that drops leading newlines and spaces from \<open>remaining\<close>.\<close>
  "trimLeading remaining = dropWhile (\<lambda>c. c = CHR 0x0A \<or> c = CHR '' '') remaining"

function splitChunks :: "string list \<Rightarrow> string \<Rightarrow> string list" where
  "splitChunks parts remaining =
     (if length remaining > safeChunkSize then
        (let breakPoint = findBreakPoint remaining safeChunkSize;
             breakPoint = (if breakPoint = 0 then safeChunkSize else breakPoint)
         in splitChunks (parts @ [take breakPoint remaining]) (trimLeading (drop breakPoint remaining)))
      else if length remaining > 0 then parts @ [remaining]
      else parts)"
  by pat_completeness auto
termination
proof (relation "measure (\<lambda>(parts, remaining). length remaining)")
  show "wf (measure (\<lambda>(parts, remaining). length remaining))"
    by simp
next
  fix parts :: "string list" and remaining :: string and x xa
  assume "safeChunkSize < length remaining"
    and "xa = (if x = 0 then safeChunkSize else x)"
  moreover have "0 < safeChunkSize"
    by (simp add: safeChunkSize_def memosMaxLength_def)
  moreover have "length (trimLeading (drop xa remaining)) \<le> length (drop xa remaining)"
    unfolding trimLeading_def by (rule length_dropWhile_le)
  ultimately show "((parts @ [take xa remaining], trimLeading (drop xa remaining)), (parts, remaining))
      \<in> measure (\<lambda>(parts, remaining). length remaining)"
    by (auto split: if_splits)
qed

declare splitChunks.simps [simp del]

definition cutPoint :: "string \<Rightarrow> nat" where
  \<comment> \<open>Where one round of the loop of \<open>splitChunks\<close> cuts.\<close>
  "cutPoint remaining =
     (let breakPoint = findBreakPoint remaining safeChunkSize
      in if breakPoint = 0 then safeChunkSize else breakPoint)"

text \<open>\<open>%d\<close> of a number that is not negative: its decimal digits.\<close>

definition digit :: "nat \<Rightarrow> char" where
  "digit d = ''0123456789'' ! d"

function itoa :: "nat \<Rightarrow> string" where
  "itoa n = (if n < 10 then [digit n] else itoa (n div 10) @ [digit (n mod 10)])"
  by pat_completeness auto
termination
  by (relation "measure id") auto

declare itoa.simps [simp del]

fun Split :: "string \<Rightarrow> string list" where
  \<comment> \<open>\<open>strings.Split(s, "\n")\<close>: the lines of \<open>s\<close>, at least one.\<close>
  "Split [] = [[]]"
| "Split (c # cs) =
     (if c = CHR 0x0A then [] # Split cs
      else (case Split cs of [] \<Rightarrow> [[c]] | l # ls \<Rightarrow> (c # l) # ls))"

fun Join :: "string list \<Rightarrow> string" where
  \<comment> \<open>\<open>strings.Join(lines, "\n")\<close>\<close>
  "Join [] = []"
| "Join [l] = l"
| "Join (l # ls) = l @ ''\<newline>'' @ Join ls"

definition HasPrefix :: "string \<Rightarrow> string \<Rightarrow> bool" where
  "HasPrefix s p \<longleftrightarrow> take (length p) s = p"

definition partTitle :: "string \<Rightarrow> nat \<Rightarrow> nat \<Rightarrow> string" where
  \<comment> \<open>\<open>fmt.Sprintf("%s (%d/%d)", pageTitle, partNumber, len(parts))\<close>\<close>
  "partTitle pageTitle partNumber n = pageTitle @ '' ('' @ itoa partNumber @ ''/'' @ itoa n @ '')''"

definition contentWithoutTitle :: "string \<Rightarrow> string" where
  "contentWithoutTitle part =
     (let lines = Split part;
          startIndex = (if length lines > 0 \<and> HasPrefix (hd lines) ''# '' then 1 else 0)
      in Join (drop startIndex lines))"

definition memoContent :: "string \<Rightarrow> nat \<Rightarrow> nat \<Rightarrow> string \<Rightarrow> string" where
  \<comment> \<open>The content of part \<open>i\<close> (counted from 0) of \<open>n\<close>.\<close>
  "memoContent pageTitle i n part =
     (if i = 0 then
        ''# '' @ partTitle pageTitle (i + 1) n @ ''\<newline>\<newline>'' @ contentWithoutTitle part @ splitMarker
      else if int i = int n - 1 then
        ''# '' @ partTitle pageTitle (i + 1) n @ ''\<newline>\<newline>'' @ continuationMarker @ contentWithoutTitle part
      else
        ''# '' @ partTitle pageTitle (i + 1) n @ ''\<newline>\<newline>'' @ continuationMarker
          @ contentWithoutTitle part @ splitMarker)"

definition partCreatedTime :: "Time \<Rightarrow> nat \<Rightarrow> Time" where
  \<comment> \<open>\<open>createdTime.Add(time.Duration(i*5) * time.Second)\<close>\<close>
  "partCreatedTime createdTime i = Add createdTime (int (i * 5) * Second)"

text \<open>The loop over the parts: the first part that cannot be created ends it.\<close>

fun createParts ::
  "('w, 'db, 'any) Env \<Rightarrow> string \<Rightarrow> Time \<Rightarrow> nat \<Rightarrow> nat \<Rightarrow> string list \<Rightarrow> ('w, 'db, 'any) Migrator
    \<Rightarrow> error option \<times> ('w, 'db, 'any) Migrator" where
  "createParts env pageTitle createdTime n i [] m = (None, m)"
| "createParts env pageTitle createdTime n i (part # parts) m =
     (case CreateMemo env (memoContent pageTitle i n part) (partCreatedTime createdTime i)
             (Migrator_dryRun m) m of
        (Some err, m') \<Rightarrow> (Some (wrap (''failed to create memo part '' @ itoa (i + 1) @ '': '') err), m')
      | (None, m') \<Rightarrow> createParts env pageTitle createdTime n (Suc i) parts m')"

definition createSplitMemos ::
  "('w, 'db, 'any) Env \<Rightarrow> string \<Rightarrow> string \<Rightarrow> Time \<Rightarrow> ('w, 'db, 'any) Migrator
    \<Rightarrow> error option \<times> ('w, 'db, 'any) Migrator" where
  "createSplitMemos env content pageTitle createdTime m =
     (let parts = splitChunks [] content
      in createParts env pageTitle createdTime (length parts) 0 parts m)"

section \<open>The orchestrator: \<open>migratePage\<close> and \<open>Migrate\<close> (internal/migrate)\<close>

fun replaceTagebuch :: "string list \<Rightarrow> string list" where
  \<comment> \<open>The loop that replaces the first tag \<open>Tagebuch\<close> by \<open>tagebuch\<close>.\<close>
  "replaceTagebuch [] = []"
| "replaceTagebuch (tag # tags) =
     (if tag = ''Tagebuch'' then ''tagebuch'' # tags else tag # replaceTagebuch tags)"

definition dispatch ::
  "('w, 'db, 'any) Env \<Rightarrow> string \<Rightarrow> string \<Rightarrow> Time \<Rightarrow> ('w, 'db, 'any) Migrator
    \<Rightarrow> error option \<times> ('w, 'db, 'any) Migrator" where
  \<comment> \<open>The end of \<open>migratePage\<close>: one memo, or the parts of a text beyond the limit.\<close>
  "dispatch env markdown pageTitle createdTime m =
     (if length markdown > memosMaxLength then
        (case createSplitMemos env markdown pageTitle createdTime m of
           (Some err, m') \<Rightarrow> (Some (wrap ''failed to create split memos: '' err), m')
         | (None, m') \<Rightarrow> (None, m'))
      else
        (case CreateMemo env markdown createdTime (Migrator_dryRun m) m of
           (Some err, m') \<Rightarrow> (Some (wrap ''failed to create memo: '' err), m')
         | (None, m') \<Rightarrow> (None, m')))"

definition migratePage ::
  "('w, 'db, 'any) Env \<Rightarrow> 'any Page \<Rightarrow> ('w, 'db, 'any) Migrator
    \<Rightarrow> (error option \<times> ('w, 'db, 'any) Migrator) option" where
  "migratePage env page m =
     (case RetrieveBlocks env (Page_ID page) (Migrator_world m) of
        None \<Rightarrow> None
      | Some (Inl err, w') \<Rightarrow>
          Some (Some (wrap ''failed to retrieve blocks: '' err), m\<lparr>Migrator_world := w'\<rparr>)
      | Some (Inr blocks, w') \<Rightarrow>
          (let m = m\<lparr>Migrator_world := w'\<rparr>;
               pageTitle = GetPageTitle page
           in if length blocks = 0 then Some (None, m)
              else
                (let (tags, m) = getParentTagsCached env page m;
                     tags = replaceTagebuch tags
                 in case BlocksToMarkdown env blocks (Page_CreatedTime page) pageTitle tags of
                      Inl err \<Rightarrow> Some (Some (wrap ''failed to convert to markdown: '' err), m)
                    | Inr markdown \<Rightarrow>
                        if markdown = [] then Some (None, m)
                        else
                          (let createdTime =
                                 (case ParseRFC3339 env (Page_CreatedTime page) of
                                    Some t \<Rightarrow> t
                                  | None \<Rightarrow> Now env (Migrator_world m))
                           in Some (dispatch env markdown pageTitle createdTime m)))))"

definition filterProcessedPages :: "('w, 'db, 'any) Migrator \<Rightarrow> 'any Page list \<Rightarrow> 'any Page list" where
  "filterProcessedPages m pages = filter (\<lambda>page. \<not> IsProcessed m (Page_ID page)) pages"

record MigrateOptions =
  MigrateOptions_Resume :: bool
  MigrateOptions_FilterTitles :: "string list"

definition migrateStep ::
  "('w, 'db, 'any) Env \<Rightarrow> 'any Page \<Rightarrow> ('w, 'db, 'any) Migrator
    \<Rightarrow> (error option \<times> ('w, 'db, 'any) Migrator) option" where
  \<comment> \<open>The body of the loop of \<open>Migrate\<close>, for one page.\<close>
  "migrateStep env page m =
     (case migratePage env page m of
        None \<Rightarrow> None
      | Some (Some err, m') \<Rightarrow>
          Some (Some (wrap (''failed to migrate page '' @ GetPageTitle page @ '' ('' @ Page_ID page @ ''): '') err), m')
      | Some (None, m') \<Rightarrow>
          (let m' = MarkProcessed (Page_ID page) m' in
           case SaveState env m' of
             (Some err, m'') \<Rightarrow> Some (Some (wrap ''failed to save state: '' err), m'')
           | (None, m'') \<Rightarrow> Some (None, m'')))"

fun migratePages ::
  "('w, 'db, 'any) Env \<Rightarrow> 'any Page list \<Rightarrow> ('w, 'db, 'any) Migrator
    \<Rightarrow> (error option \<times> ('w, 'db, 'any) Migrator) option" where
  \<comment> \<open>The loop of \<open>Migrate\<close>: the first error ends the run.\<close>
  "migratePages env [] m = Some (None, m)"
| "migratePages env (page # pages) m =
     (case migrateStep env page m of
        None \<Rightarrow> None
      | Some (Some err, m') \<Rightarrow> Some (Some err, m')
      | Some (None, m') \<Rightarrow> migratePages env pages m')"

definition selectPages ::
  "MigrateOptions \<Rightarrow> ('w, 'db, 'any) Migrator \<Rightarrow> 'any Page list \<Rightarrow> 'any Page list" where
  \<comment> \<open>The two filters of \<open>Migrate\<close>, in its order.\<close>
  "selectPages opts m pages =
     (let pages = (if length (MigrateOptions_FilterTitles opts) > 0
                   then filterPagesByTitle pages (MigrateOptions_FilterTitles opts) else pages);
          pages = (if MigrateOptions_Resume opts then filterProcessedPages m pages else pages)
      in pages)"

definition Migrate ::
  "('w, 'db, 'any) Env \<Rightarrow> MigrateOptions \<Rightarrow> ('w, 'db, 'any) Migrator
    \<Rightarrow> (error option \<times> ('w, 'db, 'any) Migrator) option" where
  "Migrate env opts m =
     (case SearchPages env [] (Migrator_world m) of
        None \<Rightarrow> None
      | Some (Inl err, w') \<Rightarrow> Some (Some (wrap ''failed to search pages: '' err), m\<lparr>Migrator_world := w'\<rparr>)
      | Some (Inr pages, w') \<Rightarrow>
          (let m = m\<lparr>Migrator_world := w'\<rparr>;
               pages = selectPages opts m pages
           in if length pages = 0 then Some (None, m)
              else migratePages env pages m))"

definition NewMigrator ::
  "('w, 'db, 'any) Env \<Rightarrow> bool \<Rightarrow> 'w \<Rightarrow> (string \<rightharpoonup> bool) option \<Rightarrow> (string \<times> Time) list
    \<Rightarrow> error + ('w, 'db, 'any) Migrator" where
  \<comment> \<open>A migrator for a new run, in a world with the given state file and memos.\<close>
  "NewMigrator env dryRun w file created =
     (case LoadState env w file of
        (Inl err, w') \<Rightarrow> Inl (wrap ''failed to load state: '' err)
      | (Inr state, w') \<Rightarrow>
          Inr \<lparr>Migrator_world = w', Migrator_stateFile = file, Migrator_created = created,
               Migrator_state = state, Migrator_dryRun = dryRun,
               Migrator_pageCache = Map.empty, Migrator_databaseCache = Map.empty\<rparr>)"

section \<open>Sources that paginate\<close>

text \<open>
  A source serves the pages \<open>p\<^sub>1, \<dots>, p\<^sub>k\<close> (\<open>k \<ge> 1\<close>) from a cursor when its answer to that
  cursor carries \<open>p\<^sub>1\<close>, says \<open>has_more\<close> exactly when more pages follow, and then serves
  the rest from the cursor it returned. The pages may have any size and the cursors any
  value.
\<close>

fun servesSearch ::
  "('w, 'db, 'any) Env \<Rightarrow> string \<Rightarrow> string option \<Rightarrow> 'w \<Rightarrow> 'any Page list list \<Rightarrow> bool" where
  "servesSearch env query cursor w [] = False"
| "servesSearch env query cursor w (p # ps) =
     (case httpSearch env query cursor w of
        (Inl err, w') \<Rightarrow> False
      | (Inr resp, w') \<Rightarrow>
          SearchResponse_Results resp = p \<and>
          (if ps = [] then \<not> SearchResponse_HasMore resp
           else SearchResponse_HasMore resp \<and>
                servesSearch env query (SearchResponse_NextCursor resp) w' ps))"

fun servesBlocks ::
  "('w, 'db, 'any) Env \<Rightarrow> string \<Rightarrow> string option \<Rightarrow> 'w \<Rightarrow> Block list list \<Rightarrow> bool" where
  "servesBlocks env blockID cursor w [] = False"
| "servesBlocks env blockID cursor w (p # ps) =
     (case httpBlockChildren env blockID cursor w of
        (Inl err, w') \<Rightarrow> False
      | (Inr resp, w') \<Rightarrow>
          BlockResponse_Results resp = p \<and>
          (if ps = [] then \<not> BlockResponse_HasMore resp
           else BlockResponse_HasMore resp \<and>
                servesBlocks env blockID (BlockResponse_NextCursor resp) w' ps))"

section \<open>What a split is expected to be\<close>

text \<open>
  The chunks \<open>c\<^sub>1, \<dots>, c\<^sub>n\<close> rejoin to a text when the text is \<open>c\<^sub>1\<close>, then a run of
  newlines and spaces, then \<open>c\<^sub>2\<close> (which starts with neither), another such run, and
  so on to \<open>c\<^sub>n\<close>: nothing but newlines and spaces between two chunks (and after the
  last) is missing from the chunks.
\<close>

fun rejoinsFrom :: "string list \<Rightarrow> string \<Rightarrow> bool" where
  "rejoinsFrom [] text = (text = [])"
| "rejoinsFrom (c # cs) text =
     (take (length c) text = c \<and> rejoinsFrom cs (trimLeading (drop (length c) text)))"

text \<open>
  Part \<open>i\<close> (counted from 0) of \<open>n\<close>, as the specification words it: the title with the
  suffix \<open>(i+1/n)\<close>, a leading marker on every part but the first, the body, a trailing
  marker on every part but the last, and the time \<open>5 \<times> i\<close> seconds after the original.
\<close>

definition specPart :: "string \<Rightarrow> Time \<Rightarrow> nat \<Rightarrow> nat \<Rightarrow> string \<Rightarrow> string \<times> Time" where
  "specPart pageTitle createdTime n i body =
     (''# '' @ pageTitle @ '' ('' @ itoa (i + 1) @ ''/'' @ itoa n @ '')'' @ ''\<newline>\<newline>''
        @ (if i = 0 then [] else ''...\<newline>\<newline>'')
        @ body
        @ (if i + 1 = n then [] else ''\<newline>\<newline>...''),
      createdTime + 5 * int i * 1000000000)"

definition longHead :: string where
  \<comment> \<open>A title line, an empty line and a paragraph: 7992 bytes.\<close>
  "longHead = ''# T\<newline>\<newline>'' @ replicate 7987 (CHR ''a'')"

definition longTail :: string where
  "longTail = replicate 300 (CHR ''b'')"

definition longText :: string where
  \<comment> \<open>A rendered text of 8294 bytes: a title and two paragraphs.\<close>
  "longText = longHead @ ''\<newline>\<newline>'' @ longTail"

section \<open>What tag resolution is expected to return\<close>

text \<open>
  The ancestors of a document as the specification walks them: starting from the direct
  parent reference, at most \<open>n\<close> times, the parent document and then that document's own
  parent, stopping at an empty reference or at a document that cannot be fetched. The
  nearest ancestor comes first. \<open>docs\<close> maps an identifier to the document the source
  holds under it.
\<close>

fun ancestors ::
  "('w, 'db, 'any) Env \<Rightarrow> (string \<rightharpoonup> 'any Page) \<Rightarrow> nat \<Rightarrow> string \<Rightarrow> 'any Page list" where
  "ancestors env docs 0 pageID = []"
| "ancestors env docs (Suc n) pageID =
     (if pageID = [] then []
      else case docs pageID of
             None \<Rightarrow> []
           | Some parent \<Rightarrow> parent # ancestors env docs n (GetParentPageID env parent))"

definition servesDocs :: "('w, 'db, 'any) Env \<Rightarrow> (string \<rightharpoonup> 'any Page) \<Rightarrow> bool" where
  \<comment> \<open>The source answers a request for a page from \<open>docs\<close>, whatever its state.\<close>
  "servesDocs env docs \<longleftrightarrow>
     (\<forall>pageID w. case docs pageID of
                   Some page \<Rightarrow> fst (httpGetPage env pageID w) = Inr page
                 | None \<Rightarrow> isl (fst (httpGetPage env pageID w)))"

definition cacheWithin :: "('w, 'db, 'any) Migrator \<Rightarrow> (string \<rightharpoonup> 'any Page) \<Rightarrow> bool" where
  \<comment> \<open>Every cached page is the one the source holds.\<close>
  "cacheWithin m docs \<longleftrightarrow> (\<forall>pageID page. Migrator_pageCache m pageID = Some page \<longrightarrow> docs pageID = Some page)"

definition collectionTags ::
  "('w, 'db, 'any) Env \<Rightarrow> 'any Page \<Rightarrow> ('w, 'db, 'any) Migrator \<Rightarrow> string list" where
  \<comment> \<open>The title of the owning collection, when the parent is a collection that can be resolved.\<close>
  "collectionTags env page m =
     (if GetParentDatabaseID env page = [] then []
      else case fst (getDatabaseCached env (GetParentDatabaseID env page) m) of
             Inr database \<Rightarrow> [GetDatabaseTitle env database]
           | Inl err \<Rightarrow> [])"

section \<open>Documents skipped as empty\<close>

definition rendersEmpty ::
  "('w, 'db, 'any) Env \<Rightarrow> 'any Page \<Rightarrow> ('w, 'db, 'any) Migrator \<Rightarrow> bool" where
  \<comment> \<open>The blocks of the page are retrieved, and there is none or they render to the empty text.\<close>
  "rendersEmpty env page m =
     (case RetrieveBlocks env (Page_ID page) (Migrator_world m) of
        Some (Inr blocks, w') \<Rightarrow>
          blocks = [] \<or>
          BlocksToMarkdown env blocks (Page_CreatedTime page) (GetPageTitle page)
              (replaceTagebuch (fst (getParentTagsCached env page (m\<lparr>Migrator_world := w'\<rparr>))))
            = Inr []
      | _ \<Rightarrow> False)"

section \<open>What a run does with a document\<close>

definition pageError :: "'any Page \<Rightarrow> string \<Rightarrow> error" where
  \<comment> \<open>The error of a run that fails at a document, for the message of the failing step.\<close>
  "pageError page reason =
     Error (''failed to migrate page '' @ GetPageTitle page @ '' ('' @ Page_ID page @ ''): '' @ reason)"

text \<open>
  A document is ready to be dispatched when its blocks are retrieved, there is one at
  least, and they render to a text that is not empty: the text, the creation time and
  the migrator after the resolution of the tags are what the dispatch starts from.
\<close>

definition readyToDispatch ::
  "('w, 'db, 'any) Env \<Rightarrow> 'any Page \<Rightarrow> ('w, 'db, 'any) Migrator
    \<Rightarrow> (string \<times> Time \<times> ('w, 'db, 'any) Migrator) option" where
  "readyToDispatch env page m =
     (case RetrieveBlocks env (Page_ID page) (Migrator_world m) of
        Some (Inr blocks, w') \<Rightarrow>
          if blocks = [] then None
          else
            (case getParentTagsCached env page (m\<lparr>Migrator_world := w'\<rparr>) of
               (tags, m') \<Rightarrow>
                 (case BlocksToMarkdown env blocks (Page_CreatedTime page) (GetPageTitle page)
                         (replaceTagebuch tags) of
                    Inr markdown \<Rightarrow>
                      if markdown = [] then None
                      else Some (markdown,
                                 (case ParseRFC3339 env (Page_CreatedTime page) of
                                    Some t \<Rightarrow> t
                                  | None \<Rightarrow> Now env (Migrator_world m')),
                                 m')
                  | Inl err \<Rightarrow> None))
      | _ \<Rightarrow> None)"

section \<open>Concrete values\<close>

text \<open>Small documents and blocks, on which the theorems below are instantiated.\<close>

definition plainText :: "string \<Rightarrow> RichText" where
  "plainText s =
     \<lparr>RichText_Type = ''text'', RichText_Text = None, RichText_Annotations = None,
      RichText_PlainText = s, RichText_Href = None\<rparr>"

definition bareBlock :: "string \<Rightarrow> Block" where
  \<comment> \<open>A block of the given type with no payload.\<close>
  "bareBlock ty =
     \<lparr>Block_Object = ''block'', Block_ID = ''b'', Block_Type = ty, Block_CreatedTime = [],
      Block_LastEditedTime = [], Block_HasChildren = False, Block_Paragraph = None,
      Block_Heading1 = None, Block_Heading2 = None, Block_Heading3 = None,
      Block_BulletedList = None, Block_NumberedList = None, Block_ToDo = None, Block_Code = None\<rparr>"

definition heading :: "string \<Rightarrow> HeadingBlock" where
  "heading s = \<lparr>HeadingBlock_RichText = [plainText s], HeadingBlock_Color = ''default''\<rparr>"

definition paragraphBlock :: "string \<Rightarrow> Block" where
  "paragraphBlock s =
     (bareBlock ''paragraph'')
       \<lparr>Block_Paragraph := Some \<lparr>ParagraphBlock_RichText = [plainText s], ParagraphBlock_Color = ''default''\<rparr>\<rparr>"

definition titled :: "string \<Rightarrow> string \<Rightarrow> (string \<rightharpoonup> string) \<Rightarrow> string Page" where
  \<comment> \<open>A page with the given id, title and parent reference.\<close>
  "titled pageID title parent =
     \<lparr>Page_Object = ''page'', Page_ID = pageID, Page_CreatedTime = [], Page_LastEditedTime = [],
      Page_Parent = parent,
      Page_Properties =
        [(''Name'', \<lparr>Property_ID = ''title'', Property_Type = ''title'', Property_Title = [plainText title]\<rparr>)],
      Page_URL = []\<rparr>"

definition searchResponse :: "string Page list \<Rightarrow> string option \<Rightarrow> bool \<Rightarrow> string SearchResponse" where
  "searchResponse results cursor hasMore =
     \<lparr>SearchResponse_Object = ''list'', SearchResponse_Results = results,
      SearchResponse_NextCursor = cursor, SearchResponse_HasMore = hasMore\<rparr>"

definition blockResponse :: "Block list \<Rightarrow> string option \<Rightarrow> bool \<Rightarrow> BlockResponse" where
  "blockResponse results cursor hasMore =
     \<lparr>BlockResponse_Object = ''list'', BlockResponse_Results = results,
      BlockResponse_NextCursor = cursor, BlockResponse_HasMore = hasMore\<rparr>"

definition parentRef :: "string \<Rightarrow> string Page \<Rightarrow> string" where
  \<comment> \<open>The string under a key of the parent reference, or the empty string.\<close>
  "parentRef key page = (case Page_Parent page key of Some ref \<Rightarrow> ref | None \<Rightarrow> [])"

definition asciiSpace :: "char \<Rightarrow> bool" where
  "asciiSpace c \<longleftrightarrow> c \<in> set [CHR '' '', CHR 0x09, CHR 0x0A, CHR 0x0B, CHR 0x0C, CHR 0x0D]"

definition asciiTrimSpace :: "string \<Rightarrow> string" where
  "asciiTrimSpace s = rev (dropWhile asciiSpace (rev (dropWhile asciiSpace s)))"

definition pageGroceries :: "string Page" where
  "pageGroceries = (titled ''A'' ''Groceries'' Map.empty)\<lparr>Page_CreatedTime := ''2024-03-01T10:00:00Z''\<rparr>"

definition pageEmpty :: "string Page" where
  "pageEmpty = titled ''E'' ''Empty'' Map.empty"

definition pageBlank :: "string Page" where
  \<comment> \<open>A page with an empty title; its only block is an empty paragraph.\<close>
  "pageBlank = titled ''N'' [] Map.empty"

definition pageBroken :: "string Page" where
  "pageBroken = titled ''B'' ''Broken'' Map.empty"

definition pageRoot :: "string Page" where
  "pageRoot = titled ''p0'' ''Root'' Map.empty"

definition pageParent :: "string Page" where
  "pageParent = titled ''p1'' ''Parent'' [''page_id'' \<mapsto> ''p0'']"

definition pageChild :: "string Page" where
  "pageChild = titled ''C'' ''Child'' [''database_id'' \<mapsto> ''db1'', ''page_id'' \<mapsto> ''p1'']"

text \<open>
  A source that finds three documents, served in two pages: the blocks of \<open>A\<close> come in
  two pages, \<open>E\<close> has no block and the blocks of \<open>B\<close> cannot be retrieved; it also holds
  the blocks of \<open>N\<close>. The state of the services counts the requests.
\<close>

definition exampleEnv :: "(nat, string, string) Env" where
  "exampleEnv =
     \<lparr>httpSearch = (\<lambda>query cursor w.
        if cursor = None then (Inr (searchResponse [pageGroceries, pageEmpty] (Some ''c1'') True), Suc w)
        else if cursor = Some ''c1'' then (Inr (searchResponse [pageBroken] None False), Suc w)
        else (Inl (Error ''API request failed with status 400: ''), Suc w)),
      httpBlockChildren = (\<lambda>blockID cursor w.
        if blockID = ''A'' \<and> cursor = None
          then (Inr (blockResponse [paragraphBlock ''Milk''] (Some ''b1'') True), Suc w)
        else if blockID = ''A'' \<and> cursor = Some ''b1''
          then (Inr (blockResponse [paragraphBlock ''Eggs''] None False), Suc w)
        else if blockID = ''E'' then (Inr (blockResponse [] None False), Suc w)
        else if blockID = ''N'' then (Inr (blockResponse [paragraphBlock []] None False), Suc w)
        else (Inl (Error ''API request failed with status 429: ''), Suc w)),
      httpGetPage = (\<lambda>pageID w.
        if pageID = ''p1'' then (Inr pageParent, Suc w)
        else if pageID = ''p0'' then (Inr pageRoot, Suc w)
        else (Inl (Error ''API request failed with status 404: ''), Suc w)),
      httpGetDatabase = (\<lambda>databaseID w.
        if databaseID = ''db1'' then (Inr ''Journal'', Suc w)
        else (Inl (Error ''API request failed with status 404: ''), Suc w)),
      httpCreateMemo = (\<lambda>content createdTime dryRun w. (None, Suc w)),
      readStateFile = (\<lambda>w. (None, w)),
      writeStateFile = (\<lambda>w. (None, w)),
      GetParentDatabaseID = parentRef ''database_id'',
      GetParentPageID = parentRef ''page_id'',
      GetDatabaseTitle = (\<lambda>database. database),
      ParseRFC3339 = (\<lambda>s. if s = ''2024-03-01T10:00:00Z'' then Some 1709287200000000000 else None),
      FormatTime = (\<lambda>t. ''2024-03-01 10:00:00''),
      TrimSpace = asciiTrimSpace,
      Now = (\<lambda>w. 0)\<rparr>"

definition refuse :: "string \<Rightarrow> Time \<Rightarrow> bool \<Rightarrow> nat \<Rightarrow> error option \<times> nat" where
  \<comment> \<open>A target service that refuses a memo.\<close>
  "refuse content createdTime dryRun w = (Some (Error ''API request failed with status 500: ''), Suc w)"

definition refusingEnv :: "(nat, string, string) Env" where
  \<comment> \<open>The example source, with a target service that refuses every memo.\<close>
  "refusingEnv = exampleEnv\<lparr>httpCreateMemo := refuse\<rparr>"

definition pageLong :: "string Page" where
  "pageLong = titled ''L'' ''T'' Map.empty"

text \<open>
  A source with one document, which renders to \<open>longText\<close>, and a target service that
  accepts the memos created at time 0 and refuses the others: of the two parts of the
  document, created when the clock \<open>Now\<close> shows 0, it refuses the second.
\<close>

definition longEnv :: "(nat, string, string) Env" where
  "longEnv =
     exampleEnv
       \<lparr>httpSearch := (\<lambda>query cursor w. (Inr (searchResponse [pageLong] None False), Suc w)),
        httpBlockChildren := (\<lambda>blockID cursor w.
          (Inr (blockResponse [paragraphBlock (replicate 7987 (CHR ''a'')), paragraphBlock longTail]
                  None False), Suc w)),
        httpCreateMemo := (\<lambda>content createdTime dryRun w.
          if createdTime = 0 then (None, Suc w) else refuse content createdTime dryRun w)\<rparr>"

definition freshMigrator :: "(nat, string, string) Migrator" where
  \<comment> \<open>A migrator at the start of a first run: no state file, nothing created.\<close>
  "freshMigrator =
     \<lparr>Migrator_world = 0, Migrator_stateFile = None, Migrator_created = [],
      Migrator_state = Map.empty, Migrator_dryRun = False,
      Migrator_pageCache = Map.empty, Migrator_databaseCache = Map.empty\<rparr>"

definition exampleDocs :: "string \<rightharpoonup> string Page" where
  "exampleDocs = [''p1'' \<mapsto> pageParent, ''p0'' \<mapsto> pageRoot]"

section \<open>Properties of \<open>sanitizeTag\<close>\<close>

lemma keptRune_underscore: "keptRune (CHR ''_'')"
  by (simp add: keptRune_def)

lemma keptRune_not_space_dot: "keptRune c \<Longrightarrow> c \<noteq> CHR '' '' \<and> c \<noteq> CHR ''.''"
  by (auto simp: keptRune_def less_eq_char_def)

lemma sanitizeTag_Nil: "sanitizeTag [] = []"
  by (simp add: sanitizeTag_def ReplaceAll_def)

lemma sanitizeTag_Cons: "sanitizeTag (c # cs) = sanitizeRune c @ sanitizeTag cs"
  by (simp add: sanitizeTag_def ReplaceAll_def sanitizeRune_def keptRune_underscore)

lemma sanitizeTag_concat: "sanitizeTag x = concat (map sanitizeRune x)"
  by (induction x) (simp_all add: sanitizeTag_Nil sanitizeTag_Cons)

lemma sanitizeTag_kept: "c \<in> set (sanitizeTag x) \<Longrightarrow> keptRune c"
  by (simp add: sanitizeTag_def)

lemma sanitizeTag_fixed: "list_all keptRune y \<Longrightarrow> sanitizeTag y = y"
proof (induction y)
  case Nil
  show ?case by (simp add: sanitizeTag_Nil)
next
  case (Cons c cs)
  then have "keptRune c" and "sanitizeTag cs = cs" by simp_all
  moreover from \<open>keptRune c\<close> have "sanitizeRune c = [c]"
    using keptRune_not_space_dot [of c] by (simp add: sanitizeRune_def)
  ultimately show ?case by (simp add: sanitizeTag_Cons)
qed

lemma sanitizeTag_idem: "sanitizeTag (sanitizeTag x) = sanitizeTag x"
  by (rule sanitizeTag_fixed) (simp add: list_all_iff sanitizeTag_kept)

text \<open>
  C6 (as amended). \<open>sanitizeTag\<close> works byte by byte: a space (0x20) and a \<open>.\<close> become
  \<open>_\<close>; an ASCII letter, a digit, \<open>_\<close> and \<open>-\<close> stay; every other byte, a tab, a
  newline and any other white space among them, is dropped. It is idempotent.
\<close>

theorem sanitizeTag_spec:
  "sanitizeTag x = concat (map sanitizeRune x) \<and>
   sanitizeRune (CHR '' '') = ''_'' \<and> sanitizeRune (CHR ''.'') = ''_'' \<and>
   list_all keptRune (sanitizeTag x) \<and>
   sanitizeTag (sanitizeTag x) = sanitizeTag x"
  using sanitizeTag_kept [of _ x]
  by (simp add: sanitizeTag_concat [symmetric] sanitizeTag_idem sanitizeRune_def list_all_iff)

theorem sanitizeTag_spec_witness:
  "sanitizeTag ''My Tag.'' = ''My_Tag_'' \<and> sanitizeTag (sanitizeTag ''My Tag.'') = ''My_Tag_''"
proof -
  note spec = sanitizeTag_spec [of "''My Tag.''"]
  have a: "sanitizeTag ''My Tag.'' = ''My_Tag_''"
    using spec by (simp add: sanitizeRune_def keptRune_def less_eq_char_def)
  have b: "sanitizeTag (sanitizeTag ''My Tag.'') = sanitizeTag ''My Tag.''"
    using spec by blast
  from b show ?thesis unfolding a by simp
qed

text \<open>
  C6 as stated fails: a tab is white space, and it is dropped, not mapped to \<open>_\<close>.
\<close>

theorem sanitizeTag_tab_counterexample:
  "sanitizeTag [CHR ''a'', CHR 0x09, CHR ''b''] = ''ab'' \<and>
   sanitizeTag [CHR ''a'', CHR 0x09, CHR ''b''] \<noteq> ''a_b''"
  by (simp add: sanitizeTag_def ReplaceAll_def keptRune_def less_eq_char_def)

section \<open>Properties of the renderer\<close>

lemma richTextToMarkdown_plainText: "s \<noteq> [] \<Longrightarrow> richTextToMarkdown [plainText s] = s"
  by (simp add: richTextToMarkdown_def richTextPiece_def plainText_def)

text \<open>
  C8. A heading block of level 1, 2 or 3 (with its payload, as every block the source
  service sends has) renders one level deeper: as \<open>## \<close>, \<open>### \<close> and \<open>#### \<close> followed by
  its text and a newline.
\<close>

theorem blockToMarkdown_heading_shift:
  "(Block_Type block = ''heading_1'' \<and> Block_Heading1 block = Some h \<longrightarrow>
      blockToMarkdown block = ''## '' @ richTextToMarkdown (HeadingBlock_RichText h) @ ''\<newline>'') \<and>
   (Block_Type block = ''heading_2'' \<and> Block_Heading2 block = Some h \<longrightarrow>
      blockToMarkdown block = ''### '' @ richTextToMarkdown (HeadingBlock_RichText h) @ ''\<newline>'') \<and>
   (Block_Type block = ''heading_3'' \<and> Block_Heading3 block = Some h \<longrightarrow>
      blockToMarkdown block = ''#### '' @ richTextToMarkdown (HeadingBlock_RichText h) @ ''\<newline>'')"
  by (simp add: blockToMarkdown_def)

theorem blockToMarkdown_heading_shift_witness:
  "blockToMarkdown ((bareBlock ''heading_1'')\<lparr>Block_Heading1 := Some (heading ''Intro'')\<rparr>) = ''## Intro\<newline>'' \<and>
   blockToMarkdown ((bareBlock ''heading_2'')\<lparr>Block_Heading2 := Some (heading ''Intro'')\<rparr>) = ''### Intro\<newline>'' \<and>
   blockToMarkdown ((bareBlock ''heading_3'')\<lparr>Block_Heading3 := Some (heading ''Intro'')\<rparr>) = ''#### Intro\<newline>''"
  using blockToMarkdown_heading_shift [of "(bareBlock ''heading_1'')\<lparr>Block_Heading1 := Some (heading ''Intro'')\<rparr>" "heading ''Intro''"]
    blockToMarkdown_heading_shift [of "(bareBlock ''heading_2'')\<lparr>Block_Heading2 := Some (heading ''Intro'')\<rparr>" "heading ''Intro''"]
    blockToMarkdown_heading_shift [of "(bareBlock ''heading_3'')\<lparr>Block_Heading3 := Some (heading ''Intro'')\<rparr>" "heading ''Intro''"]
  by (simp add: bareBlock_def heading_def richTextToMarkdown_plainText)

section \<open>Properties of the title filter\<close>

lemma lookupBool_titleSet_of:
  "lookupBool (titleSet_of titles titleSet) k \<longleftrightarrow> k \<in> set titles \<or> lookupBool titleSet k"
  by (induction titles arbitrary: titleSet) (auto simp: lookupBool_def)

lemma GetPageTitle_titled: "GetPageTitle (titled i t p) = t"
  by (simp add: GetPageTitle_def titled_def plainText_def)

text \<open>
  C9. For a non-empty list of titles, \<open>filterPagesByTitle\<close> keeps, in their order, exactly
  the pages whose title (as \<open>GetPageTitle\<close> reads it) is equal, byte for byte, to one of
  the titles: a title that differs in case or is only a part of one does not match.
\<close>

theorem filterPagesByTitle_exact:
  "titles \<noteq> [] \<Longrightarrow>
   filterPagesByTitle pages titles = filter (\<lambda>page. GetPageTitle page \<in> set titles) pages"
proof -
  assume "titles \<noteq> []"
  moreover have "lookupBool (titleSet_of titles Map.empty) k \<longleftrightarrow> k \<in> set titles" for k
    by (simp add: lookupBool_titleSet_of) (simp add: lookupBool_def)
  ultimately show ?thesis
    by (simp add: filterPagesByTitle_def)
qed

theorem filterPagesByTitle_exact_witness:
  "filterPagesByTitle
     [titled ''1'' ''Note'' Map.empty, titled ''2'' ''note'' Map.empty, titled ''3'' ''Notes'' Map.empty,
      titled ''4'' ''Other'' Map.empty, titled ''5'' ''Note'' Map.empty] [''Note'', ''Other'']
   = [titled ''1'' ''Note'' Map.empty, titled ''4'' ''Other'' Map.empty, titled ''5'' ''Note'' Map.empty]"
  using filterPagesByTitle_exact [of "[''Note'', ''Other'']"
     "[titled ''1'' ''Note'' Map.empty, titled ''2'' ''note'' Map.empty, titled ''3'' ''Notes'' Map.empty,
      titled ''4'' ''Other'' Map.empty, titled ''5'' ''Note'' Map.empty]"]
  by (simp add: GetPageTitle_titled)

section \<open>Properties of the paginated retrieval\<close>

lemma SearchPages_loop_serves:
  "servesSearch env query cursor w ps \<Longrightarrow>
   \<exists>w'. SearchPages_loop env query acc cursor w = Some (Inr (acc @ concat ps), w')"
proof (induction ps arbitrary: acc cursor w)
  case Nil
  then show ?case by simp
next
  case (Cons p ps)
  from Cons.prems obtain resp w1 where
    req: "httpSearch env query cursor w = (Inr resp, w1)"
    and res: "SearchResponse_Results resp = p"
    and rest_served: "if ps = [] then \<not> SearchResponse_HasMore resp
               else SearchResponse_HasMore resp \<and>
                    servesSearch env query (SearchResponse_NextCursor resp) w1 ps"
    by (auto split: prod.splits sum.splits)
  show ?case
  proof (cases "ps = []")
    case True
    with req res rest_served show ?thesis
      by (subst SearchPages_loop.simps) simp
  next
    case False
    with rest_served have hm: "SearchResponse_HasMore resp"
      and rest: "servesSearch env query (SearchResponse_NextCursor resp) w1 ps"
      by simp_all
    from Cons.IH [OF rest, of "acc @ p"] obtain w' where
      "SearchPages_loop env query (acc @ p) (SearchResponse_NextCursor resp) w1
         = Some (Inr ((acc @ p) @ concat ps), w')" ..
    with req res hm show ?thesis
      by (subst SearchPages_loop.simps) simp
  qed
qed

lemma RetrieveBlocks_loop_serves:
  "servesBlocks env blockID cursor w ps \<Longrightarrow>
   \<exists>w'. RetrieveBlocks_loop env blockID acc cursor w = Some (Inr (acc @ concat ps), w')"
proof (induction ps arbitrary: acc cursor w)
  case Nil
  then show ?case by simp
next
  case (Cons p ps)
  from Cons.prems obtain resp w1 where
    req: "httpBlockChildren env blockID cursor w = (Inr resp, w1)"
    and res: "BlockResponse_Results resp = p"
    and rest_served: "if ps = [] then \<not> BlockResponse_HasMore resp
               else BlockResponse_HasMore resp \<and>
                    servesBlocks env blockID (BlockResponse_NextCursor resp) w1 ps"
    by (auto split: prod.splits sum.splits)
  show ?case
  proof (cases "ps = []")
    case True
    with req res rest_served show ?thesis
      by (subst RetrieveBlocks_loop.simps) simp
  next
    case False
    with rest_served have hm: "BlockResponse_HasMore resp"
      and rest: "servesBlocks env blockID (BlockResponse_NextCursor resp) w1 ps"
      by simp_all
    from Cons.IH [OF rest, of "acc @ p"] obtain w' where
      "RetrieveBlocks_loop env blockID (acc @ p) (BlockResponse_NextCursor resp) w1
         = Some (Inr ((acc @ p) @ concat ps), w')" ..
    with req res hm show ?thesis
      by (subst RetrieveBlocks_loop.simps) simp
  qed
qed

text \<open>
  C7. When the source serves its items in pages (of any number and size, under any
  cursors), \<open>SearchPages\<close> and \<open>RetrieveBlocks\<close> return: the loop ends, without an error,
  and the result is the concatenation of the pages, that is every item once, in the
  order served.
\<close>

theorem paginated_fetch_complete:
  "(servesSearch env query None w pages \<longrightarrow>
      (\<exists>w'. SearchPages env query w = Some (Inr (concat pages), w'))) \<and>
   (servesBlocks env blockID None w blockPages \<longrightarrow>
      (\<exists>w'. RetrieveBlocks env blockID w = Some (Inr (concat blockPages), w')))"
  using SearchPages_loop_serves [of env query None w pages "[]"]
    RetrieveBlocks_loop_serves [of env blockID None w blockPages "[]"]
  by (simp add: SearchPages_def RetrieveBlocks_def)

lemma exampleEnv_servesSearch:
  "servesSearch exampleEnv [] None w [[pageGroceries, pageEmpty], [pageBroken]]"
  by (simp add: exampleEnv_def searchResponse_def)

lemma exampleEnv_servesBlocks:
  "servesBlocks exampleEnv ''A'' None w [[paragraphBlock ''Milk''], [paragraphBlock ''Eggs'']]"
  by (simp add: exampleEnv_def blockResponse_def)

theorem paginated_fetch_complete_witness:
  "(\<exists>w'. SearchPages exampleEnv [] (0::nat) = Some (Inr [pageGroceries, pageEmpty, pageBroken], w')) \<and>
   (\<exists>w'. RetrieveBlocks exampleEnv ''A'' (0::nat)
            = Some (Inr [paragraphBlock ''Milk'', paragraphBlock ''Eggs''], w'))"
  using paginated_fetch_complete [of exampleEnv "[]" 0 "[[pageGroceries, pageEmpty], [pageBroken]]"
      "''A''" "[[paragraphBlock ''Milk''], [paragraphBlock ''Eggs'']]"]
    exampleEnv_servesSearch [of 0] exampleEnv_servesBlocks [of 0]
  by simp

section \<open>Properties of the splitter\<close>

lemma safeChunkSize_val: "safeChunkSize = 7992"
  by (simp add: safeChunkSize_def memosMaxLength_def)

lemma findBreakPoint_le: "findBreakPoint r n \<le> n"
  by (induction n) auto

lemma findBreakPoint_hit: "0 < n \<Longrightarrow> r ! n = CHR 0x0A \<Longrightarrow> findBreakPoint r n = n"
  by (cases n) auto

lemma cutPoint_bounds: "0 < cutPoint r \<and> cutPoint r \<le> safeChunkSize"
  using findBreakPoint_le [of r safeChunkSize]
  by (auto simp: cutPoint_def Let_def safeChunkSize_val)

lemma splitChunks_step:
  "safeChunkSize < length r \<Longrightarrow>
   splitChunks parts r = splitChunks (parts @ [take (cutPoint r) r]) (trimLeading (drop (cutPoint r) r))"
  by (subst splitChunks.simps) (simp add: cutPoint_def Let_def)

lemma splitChunks_last:
  "\<not> safeChunkSize < length r \<Longrightarrow> splitChunks parts r = (if r \<noteq> [] then parts @ [r] else parts)"
  by (subst splitChunks.simps) simp

lemma length_rest: "safeChunkSize < length r \<Longrightarrow> length (trimLeading (drop (cutPoint r) r)) < length r"
proof -
  assume "safeChunkSize < length r"
  moreover have "length (trimLeading (drop (cutPoint r) r)) \<le> length (drop (cutPoint r) r)"
    unfolding trimLeading_def by (rule length_dropWhile_le)
  moreover have "length (drop (cutPoint r) r) = length r - cutPoint r"
    by simp
  ultimately show ?thesis
    using cutPoint_bounds [of r] by arith
qed

lemma splitChunks_acc: "splitChunks parts r = parts @ splitChunks [] r"
proof (induction "length r" arbitrary: r parts rule: less_induct)
  case less
  show ?case
  proof (cases "safeChunkSize < length r")
    case True
    let ?c = "take (cutPoint r) r" and ?r = "trimLeading (drop (cutPoint r) r)"
    have "splitChunks parts r = (parts @ [?c]) @ splitChunks [] ?r"
      using less [OF length_rest [OF True], of "parts @ [?c]"] splitChunks_step [OF True, of parts] by simp
    moreover have "splitChunks [] r = [?c] @ splitChunks [] ?r"
      using less [OF length_rest [OF True], of "[?c]"] splitChunks_step [OF True, of "[]"] by simp
    ultimately show ?thesis by simp
  next
    case False
    then show ?thesis by (simp add: splitChunks_last)
  qed
qed

lemma splitChunks_unfold:
  "splitChunks [] r =
     (if safeChunkSize < length r then take (cutPoint r) r # splitChunks [] (trimLeading (drop (cutPoint r) r))
      else if r \<noteq> [] then [r] else [])"
  using splitChunks_step [of r "[]"] splitChunks_acc [of "[take (cutPoint r) r]"] splitChunks_last [of r "[]"]
  by simp

lemma splitChunks_bounds:
  "part \<in> set (splitChunks [] r) \<Longrightarrow> 0 < length part \<and> length part \<le> safeChunkSize"
proof (induction "length r" arbitrary: r rule: less_induct)
  case less
  show ?case
  proof (cases "safeChunkSize < length r")
    case True
    from less.prems True
    consider "part = take (cutPoint r) r" | "part \<in> set (splitChunks [] (trimLeading (drop (cutPoint r) r)))"
      by (subst (asm) splitChunks_unfold) auto
    then show ?thesis
    proof cases
      case 1
      with True cutPoint_bounds [of r] show ?thesis by simp
    next
      case 2
      from less.hyps [OF length_rest [OF True] 2] show ?thesis .
    qed
  next
    case False
    with less.prems show ?thesis
      by (subst (asm) splitChunks_unfold) (auto split: if_splits)
  qed
qed

lemma trimLeading_idem: "trimLeading (trimLeading r) = trimLeading r"
  by (simp add: trimLeading_def dropWhile_idem)

lemma splitChunks_rejoins: "rejoinsFrom (splitChunks [] r) r"
proof (induction "length r" arbitrary: r rule: less_induct)
  case less
  show ?case
  proof (cases "safeChunkSize < length r")
    case True
    let ?c = "take (cutPoint r) r" and ?r = "trimLeading (drop (cutPoint r) r)"
    have len: "length ?c = cutPoint r"
      using True cutPoint_bounds [of r] by simp
    have "rejoinsFrom (splitChunks [] ?r) ?r"
      by (rule less [OF length_rest [OF True]])
    with len True show ?thesis
      by (subst splitChunks_unfold) simp
  next
    case False
    then show ?thesis
      by (subst splitChunks_unfold) (simp add: trimLeading_def)
  qed
qed


lemma Split_not_Nil: "Split s \<noteq> []"
  by (induction s) (auto split: list.splits)

lemma Join_Cons: "ls \<noteq> [] \<Longrightarrow> Join (l # ls) = l @ CHR 0x0A # Join ls"
  by (cases ls) simp_all

lemma Join_Split: "Join (Split s) = s"
proof (induction s)
  case Nil
  show ?case by simp
next
  case (Cons c cs)
  obtain l ls where sp: "Split cs = l # ls"
    using Split_not_Nil [of cs] by (cases "Split cs") auto
  show ?case
  proof (cases "c = CHR 0x0A")
    case True
    with Cons show ?thesis by (simp add: Join_Cons Split_not_Nil)
  next
    case False
    with Cons sp show ?thesis by (cases ls) simp_all
  qed
qed

lemma Split_line:
  "CHR 0x0A \<notin> set l \<Longrightarrow> Split (l @ CHR 0x0A # rest) = l # Split rest"
  by (induction l) auto

lemma Split_no_newline: "CHR 0x0A \<notin> set l \<Longrightarrow> Split l = [l]"
  by (induction l) auto

lemma hd_Split: "hd (Split s) = takeWhile (\<lambda>c. c \<noteq> CHR 0x0A) s"
proof (induction s)
  case Nil
  show ?case by simp
next
  case (Cons c cs)
  then show ?case
    using Split_not_Nil [of cs] by (cases "Split cs") auto
qed

lemma HasPrefix_first_line:
  "HasPrefix (takeWhile (\<lambda>c. c \<noteq> CHR 0x0A) s) ''# '' \<longleftrightarrow> HasPrefix s ''# ''"
proof (cases s)
  case Nil
  then show ?thesis by (simp add: HasPrefix_def)
next
  case (Cons c cs)
  then show ?thesis by (cases cs) (auto simp: HasPrefix_def)
qed

lemma contentWithoutTitle_plain: "\<not> HasPrefix part ''# '' \<Longrightarrow> contentWithoutTitle part = part"
  by (simp add: contentWithoutTitle_def Let_def hd_Split HasPrefix_first_line Join_Split)

lemma contentWithoutTitle_title:
  assumes "CHR 0x0A \<notin> set t"
  shows "contentWithoutTitle (''# '' @ t @ CHR 0x0A # rest) = rest"
proof -
  have "Split (''# '' @ t @ CHR 0x0A # rest) = (''# '' @ t) # Split rest"
    using Split_line [of "''# '' @ t" rest] assms by simp
  then show ?thesis
    by (simp add: contentWithoutTitle_def Let_def HasPrefix_def Join_Split)
qed

lemma itoa_small: "n < 10 \<Longrightarrow> itoa n = [digit n]"
  by (subst itoa.simps) simp

lemma itoa_large: "\<not> n < 10 \<Longrightarrow> itoa n = itoa (n div 10) @ [digit (n mod 10)]"
  by (subst itoa.simps) simp

lemma itoa_1: "itoa 1 = ''1''" and itoa_2: "itoa 2 = ''2''" and itoa_12: "itoa 12 = ''12''"
  by (simp_all add: itoa_small itoa_large digit_def)

lemma memoContent_specPart:
  "i < n \<Longrightarrow> 2 \<le> n \<Longrightarrow>
   (memoContent pageTitle i n part, partCreatedTime createdTime i)
     = specPart pageTitle createdTime n i (contentWithoutTitle part)"
  by (auto simp: memoContent_def specPart_def partCreatedTime_def Add_def Second_def partTitle_def
      splitMarker_def continuationMarker_def)


lemma CreateMemo_created:
  "CreateMemo env content t d m = (r, m') \<Longrightarrow>
   Migrator_created m' = Migrator_created m @ [(content, t)] \<and>
   Migrator_state m' = Migrator_state m \<and> Migrator_stateFile m' = Migrator_stateFile m \<and>
   Migrator_dryRun m' = Migrator_dryRun m"
  by (auto simp: CreateMemo_def split: prod.splits)

lemma createParts_created:
  "createParts env pageTitle createdTime n i parts m = (r, m') \<Longrightarrow>
   \<exists>k \<le> length parts.
     Migrator_created m' = Migrator_created m
        @ map (\<lambda>j. (memoContent pageTitle (i + j) n (parts ! j), partCreatedTime createdTime (i + j))) [0..<k] \<and>
     (r = None \<longrightarrow> k = length parts)"
proof (induction parts arbitrary: i m)
  case Nil
  then show ?case by simp
next
  case (Cons part parts)
  obtain r1 m1 where cm: "CreateMemo env (memoContent pageTitle i n part) (partCreatedTime createdTime i)
       (Migrator_dryRun m) m = (r1, m1)"
    by (cases "CreateMemo env (memoContent pageTitle i n part) (partCreatedTime createdTime i)
       (Migrator_dryRun m) m")
  note c1 = CreateMemo_created [OF cm]
  let ?f = "\<lambda>i parts j. (memoContent pageTitle (i + j) n (parts ! j), partCreatedTime createdTime (i + j))"
  show ?case
  proof (cases r1)
    case (Some e)
    with Cons.prems cm have "m' = m1" "r \<noteq> None" by auto
    with c1 have "Migrator_created m' = Migrator_created m @ map (?f i (part # parts)) [0..<1]"
      by simp
    with \<open>r \<noteq> None\<close> show ?thesis
      by (intro exI [of _ 1]) auto
  next
    case None
    with Cons.prems cm have "createParts env pageTitle createdTime n (Suc i) parts m1 = (r, m')"
      by simp
    from Cons.IH [OF this] obtain k where k: "k \<le> length parts"
      "Migrator_created m' = Migrator_created m1 @ map (?f (Suc i) parts) [0..<k]"
      "r = None \<longrightarrow> k = length parts"
      by blast
    have "map (?f i (part # parts)) [0..<Suc k] = ?f i (part # parts) 0 # map (?f (Suc i) parts) [0..<k]"
      by (simp add: upt_conv_Cons map_Suc_upt [symmetric] del: upt_Suc)
    with k c1 have "Migrator_created m' = Migrator_created m @ map (?f i (part # parts)) [0..<Suc k]"
      by simp
    with k show ?thesis
      by (intro exI [of _ "Suc k"]) simp
  qed
qed

lemma partCreatedTime_strict: "i < j \<Longrightarrow> partCreatedTime t i < partCreatedTime t j"
  by (simp add: partCreatedTime_def Add_def Second_def)

lemma specPart_times_increasing:
  "sorted_wrt (<) (map (\<lambda>i. snd (specPart pageTitle createdTime n i (body i))) [0..<k])"
  by (simp add: sorted_wrt_map sorted_wrt_iff_nth_less specPart_def)

lemma length_longHead: "length longHead = 7992"
  by (simp add: longHead_def)

lemma length_longTail: "length longTail = 300"
  by (simp add: longTail_def)

lemma length_longText: "length longText = 8294"
  by (simp add: longText_def length_longHead length_longTail)

lemma cutPoint_longText: "cutPoint longText = 7992"
proof -
  have "longText ! 7992 = CHR 0x0A"
    by (simp add: longText_def nth_append length_longHead)
  then have "findBreakPoint longText 7992 = 7992"
    by (intro findBreakPoint_hit) simp_all
  then show ?thesis
    by (simp add: cutPoint_def safeChunkSize_val)
qed

lemma trimLeading_longTail: "trimLeading (CHR 0x0A # CHR 0x0A # longTail) = longTail"
  by (simp add: trimLeading_def longTail_def)

lemma splitChunks_longText: "splitChunks [] longText = [longHead, longTail]"
proof -
  have a: "take 7992 longText = longHead"
    by (simp add: longText_def length_longHead)
  have b: "trimLeading (drop 7992 longText) = longTail"
    by (simp add: longText_def length_longHead trimLeading_longTail)
  have c: "splitChunks [] longTail = [longTail]"
    using length_longTail by (subst splitChunks_unfold) (auto simp: safeChunkSize_val)
  show ?thesis
    by (subst splitChunks_unfold) (simp add: length_longText safeChunkSize_val cutPoint_longText a b c)
qed

lemma contentWithoutTitle_longHead:
  "contentWithoutTitle longHead = CHR 0x0A # replicate 7987 (CHR ''a'')"
  using contentWithoutTitle_title [of "''T''" "CHR 0x0A # replicate 7987 (CHR ''a'')"]
  by (simp add: longHead_def)

lemma contentWithoutTitle_longTail: "contentWithoutTitle longTail = longTail"
  by (rule contentWithoutTitle_plain) (simp add: HasPrefix_def longTail_def numeral_2_eq_2)

lemma contentWithoutTitle_longText:
  "contentWithoutTitle longText = CHR 0x0A # replicate 7987 (CHR ''a'') @ CHR 0x0A # CHR 0x0A # longTail"
  using contentWithoutTitle_title [of "''T''"
        "CHR 0x0A # replicate 7987 (CHR ''a'') @ CHR 0x0A # CHR 0x0A # longTail"]
  by (simp add: longText_def longHead_def)

lemma createParts_no_failure:
  "(\<And>c t d w. fst (httpCreateMemo env c t d w) = None) \<Longrightarrow>
   fst (createParts env pageTitle createdTime n i parts m) = None"
proof (induction parts arbitrary: i m)
  case Nil
  show ?case by simp
next
  case (Cons part parts)
  obtain w' where "httpCreateMemo env (memoContent pageTitle i n part) (partCreatedTime createdTime i)
      (Migrator_dryRun m) (Migrator_world m) = (None, w')"
    using Cons.prems [of "memoContent pageTitle i n part" "partCreatedTime createdTime i"
        "Migrator_dryRun m" "Migrator_world m"]
    by (cases "httpCreateMemo env (memoContent pageTitle i n part) (partCreatedTime createdTime i)
      (Migrator_dryRun m) (Migrator_world m)") simp
  then show ?case
    using Cons.IH [OF Cons.prems] by (simp add: CreateMemo_def)
qed

lemma itoa_Suc_0: "itoa (Suc 0) = ''1''" and itoa_Suc_Suc_0: "itoa (Suc (Suc 0)) = ''2''"
  by (simp_all add: itoa_small digit_def)

lemma upt_0_2: "[0..<2] = [0, Suc 0]"
  by (simp add: upt_conv_Cons)

text \<open>
  C5. When a text is split into \<open>n \<ge> 2\<close> parts, the memos that \<open>createSplitMemos\<close> hands to
  \<open>CreateMemo\<close> are, in order, the parts \<open>0, 1, \<dots>\<close> as the specification words them (all
  \<open>n\<close> of them when no creation fails, and those up to the failing one otherwise): part
  \<open>i\<close> has the title with the suffix \<open>(i+1/n)\<close>, a leading marker unless it is the first,
  a trailing marker unless it is the last, and the time \<open>5 \<times> i\<close> seconds after the original
  one, so that the times increase strictly. Times are unbounded integers here: the
  64-bit product \<open>i*5\<close> seconds is exact for every \<open>i\<close> below \<open>1.8 \<times> 10\<^sup>9\<close>.
\<close>

theorem createSplitMemos_parts:
  assumes "createSplitMemos env content pageTitle createdTime m = (r, m')"
    and "parts = splitChunks [] content" and "n = length parts" and "2 \<le> n"
  shows "\<exists>k \<le> n.
     Migrator_created m' = Migrator_created m
        @ map (\<lambda>i. specPart pageTitle createdTime n i (contentWithoutTitle (parts ! i))) [0..<k] \<and>
     (r = None \<longrightarrow> k = n) \<and>
     sorted_wrt (<) (map (\<lambda>i. snd (specPart pageTitle createdTime n i (contentWithoutTitle (parts ! i)))) [0..<k])"
proof -
  from assms have "createParts env pageTitle createdTime n 0 parts m = (r, m')"
    by (simp add: createSplitMemos_def Let_def)
  from createParts_created [OF this] obtain k where k: "k \<le> length parts"
    "Migrator_created m' = Migrator_created m
        @ map (\<lambda>j. (memoContent pageTitle (0 + j) n (parts ! j), partCreatedTime createdTime (0 + j))) [0..<k]"
    "r = None \<longrightarrow> k = length parts"
    by blast
  have "map (\<lambda>j. (memoContent pageTitle (0 + j) n (parts ! j), partCreatedTime createdTime (0 + j))) [0..<k]
      = map (\<lambda>i. specPart pageTitle createdTime n i (contentWithoutTitle (parts ! i))) [0..<k]"
    using k(1) assms(3,4) by (intro map_cong refl) (simp add: memoContent_specPart)
  with k assms(3) specPart_times_increasing [of pageTitle createdTime n "\<lambda>i. contentWithoutTitle (parts ! i)" k]
  show ?thesis
    by (intro exI [of _ k]) simp
qed


theorem createSplitMemos_parts_witness:
  "Migrator_created (snd (createSplitMemos exampleEnv longText ''T'' 0 freshMigrator))
     = [(''# T (1/2)\<newline>\<newline>\<newline>'' @ replicate 7987 (CHR ''a'') @ ''\<newline>\<newline>...'', 0),
        (''# T (2/2)\<newline>\<newline>...\<newline>\<newline>'' @ longTail, 5000000000)]"
proof -
  let ?res = "createSplitMemos exampleEnv longText ''T'' 0 freshMigrator"
  let ?parts = "splitChunks [] longText"
  have ok: "fst ?res = None"
    unfolding createSplitMemos_def Let_def
    by (rule createParts_no_failure) (simp add: exampleEnv_def)
  have n: "2 = length ?parts"
    by (simp add: splitChunks_longText)
  from createSplitMemos_parts [of exampleEnv longText "''T''" 0 freshMigrator "fst ?res" "snd ?res" ?parts 2]
  obtain k where "k \<le> 2"
    "Migrator_created (snd ?res) = Migrator_created freshMigrator
        @ map (\<lambda>i. specPart ''T'' 0 2 i (contentWithoutTitle (?parts ! i))) [0..<k]"
    "fst ?res = None \<longrightarrow> k = 2"
    using n by auto
  with ok have "Migrator_created (snd ?res) = Migrator_created freshMigrator
        @ map (\<lambda>i. specPart ''T'' 0 2 i (contentWithoutTitle (?parts ! i))) [0..<2]"
    by simp
  then show ?thesis
    unfolding upt_0_2
    by (simp add: freshMigrator_def specPart_def splitChunks_longText contentWithoutTitle_longHead
        contentWithoutTitle_longTail itoa_Suc_0 itoa_Suc_Suc_0 itoa_2)
qed


text \<open>
  C2 (as amended). For every rendered text (those longer than 8192 bytes among them),
  the splitter cuts it into chunks, one for each part and in the order of the parts,
  that are each non-empty and at most 7992 bytes long, which is the limit of 8192 less
  the 200 bytes reserved for the title and the markers of a part; and the chunks rejoin
  to the text: the text is the chunks in order with, after each chunk, the run of
  newlines and spaces that the splitter dropped at that cut, and nothing else.
\<close>

theorem createSplitMemos_bounded_rejoin:
  assumes "createSplitMemos env content pageTitle createdTime m = (r, m')"
    and "parts = splitChunks [] content"
  shows "(\<forall>part \<in> set parts. 0 < length part \<and> length part \<le> safeChunkSize) \<and>
     safeChunkSize = memosMaxLength - 200 \<and>
     rejoinsFrom parts content \<and>
     (\<exists>k \<le> length parts.
        Migrator_created m' = Migrator_created m
          @ map (\<lambda>i. (memoContent pageTitle i (length parts) (parts ! i), partCreatedTime createdTime i)) [0..<k] \<and>
        (r = None \<longrightarrow> k = length parts))"
proof -
  let ?n = "length parts"
  have bounds: "\<forall>part \<in> set parts. 0 < length part \<and> length part \<le> safeChunkSize"
    using splitChunks_bounds [of _ content] assms(2) by blast
  have rejoin: "rejoinsFrom parts content"
    using splitChunks_rejoins [of content] assms(2) by simp
  from assms have "createParts env pageTitle createdTime ?n 0 parts m = (r, m')"
    by (simp add: createSplitMemos_def Let_def)
  from createParts_created [OF this]
  have sent: "\<exists>k \<le> ?n.
        Migrator_created m' = Migrator_created m
          @ map (\<lambda>i. (memoContent pageTitle i ?n (parts ! i), partCreatedTime createdTime i)) [0..<k] \<and>
        (r = None \<longrightarrow> k = ?n)"
    by simp
  from bounds rejoin sent safeChunkSize_def show ?thesis by blast
qed

theorem createSplitMemos_bounded_rejoin_witness:
  "memosMaxLength < length longText \<and>
   0 < length longHead \<and> length longHead \<le> safeChunkSize \<and>
   0 < length longTail \<and> length longTail \<le> safeChunkSize \<and>
   rejoinsFrom [longHead, longTail] longText \<and>
   longText = longHead @ ''\<newline>\<newline>'' @ longTail \<and>
   Migrator_created (snd (createSplitMemos exampleEnv longText ''T'' 0 freshMigrator))
     = [(memoContent ''T'' 0 2 longHead, partCreatedTime 0 0),
        (memoContent ''T'' 1 2 longTail, partCreatedTime 0 1)]"
proof -
  let ?res = "createSplitMemos exampleEnv longText ''T'' 0 freshMigrator"
  have parts: "[longHead, longTail] = splitChunks [] longText"
    by (simp add: splitChunks_longText)
  note spec = createSplitMemos_bounded_rejoin [of exampleEnv longText "''T''" 0 freshMigrator
      "fst ?res" "snd ?res" "[longHead, longTail]", OF _ parts]
  have ok: "fst ?res = None"
    unfolding createSplitMemos_def Let_def
    by (rule createParts_no_failure) (simp add: exampleEnv_def)
  from spec have b: "\<forall>part \<in> set [longHead, longTail]. 0 < length part \<and> length part \<le> safeChunkSize"
    by simp
  from spec have j: "rejoinsFrom [longHead, longTail] longText"
    by simp
  from spec obtain k where "k \<le> length [longHead, longTail]"
    and sent: "Migrator_created (snd ?res) = Migrator_created freshMigrator
        @ map (\<lambda>i. (memoContent ''T'' i (length [longHead, longTail]) ([longHead, longTail] ! i),
                  partCreatedTime 0 i)) [0..<k]"
    and "fst ?res = None \<longrightarrow> k = length [longHead, longTail]"
    by auto
  with ok have k: "k = 2" by simp
  have c: "Migrator_created (snd ?res)
     = [(memoContent ''T'' 0 2 longHead, partCreatedTime 0 0),
        (memoContent ''T'' 1 2 longTail, partCreatedTime 0 1)]"
    using sent unfolding k upt_0_2 by (simp add: freshMigrator_def numeral_2_eq_2)
  have l: "memosMaxLength < length longText"
    by (simp add: length_longText memosMaxLength_def)
  have t: "longText = longHead @ ''\<newline>\<newline>'' @ longTail"
    by (simp add: longText_def)
  from b have "0 < length longHead \<and> length longHead \<le> safeChunkSize"
    and "0 < length longTail \<and> length longTail \<le> safeChunkSize"
    by simp_all
  with l j t c show ?thesis by blast
qed

text \<open>
  C2 as stated fails: the newlines at a cut are dropped, so the parts of this text of 8294
  bytes, without their numbered title lines and markers, concatenate to 8288 bytes, which
  is neither the text nor the text without its title line.
\<close>

theorem split_rejoin_counterexample:
  "memosMaxLength < length longText \<and>
   splitChunks [] longText = [longHead, longTail] \<and>
   concat (map contentWithoutTitle (splitChunks [] longText))
     = CHR 0x0A # replicate 7987 (CHR ''a'') @ longTail \<and>
   concat (map contentWithoutTitle (splitChunks [] longText)) \<noteq> contentWithoutTitle longText \<and>
   concat (map contentWithoutTitle (splitChunks [] longText)) \<noteq> longText"
proof -
  let ?joined = "concat (map contentWithoutTitle (splitChunks [] longText))"
  have j: "?joined = CHR 0x0A # replicate 7987 (CHR ''a'') @ longTail"
    by (simp add: splitChunks_longText contentWithoutTitle_longHead contentWithoutTitle_longTail)
  have "length ?joined = 8288"
    unfolding j by (simp add: length_longTail)
  moreover have "length (contentWithoutTitle longText) = 8290"
    by (simp add: contentWithoutTitle_longText length_longTail)
  ultimately have "length ?joined \<noteq> length (contentWithoutTitle longText)"
    and "length ?joined \<noteq> length longText"
    by (simp_all add: length_longText)
  then have "?joined \<noteq> contentWithoutTitle longText" and "?joined \<noteq> longText"
    by auto
  with j show ?thesis
    by (simp add: length_longText memosMaxLength_def splitChunks_longText)
qed

text \<open>
  With a title of 200 bytes the first part of the same text has 8203 bytes: the 200
  bytes that \<open>safeChunkSize\<close> reserves do not bound the title.
\<close>

lemma long_title_overflow:
  "length (memoContent (replicate 200 (CHR ''T'')) 0 2 longHead) = 8203 \<and>
   memosMaxLength < length (memoContent (replicate 200 (CHR ''T'')) 0 2 longHead)"
  by (simp add: memoContent_def partTitle_def splitMarker_def contentWithoutTitle_longHead
      itoa_Suc_0 itoa_2 memosMaxLength_def)

text \<open>
  A chunk after the first whose first line starts with \<open># \<close> loses that line, which is
  not the title line.
\<close>

lemma later_line_removed:
  "memoContent ''T'' 1 2 ''# note\<newline>rest'' = ''# T (2/2)\<newline>\<newline>...\<newline>\<newline>rest''"
  using contentWithoutTitle_title [of "''note''" "''rest''"]
  by (simp add: memoContent_def partTitle_def continuationMarker_def itoa_2 itoa_Suc_Suc_0)

section \<open>Properties of tag resolution\<close>

lemma getPageCached_served:
  assumes "servesDocs env docs" and "cacheWithin m docs"
    and "getPageCached env pageID m = (r, m')"
  shows "(case docs pageID of Some page \<Rightarrow> r = Inr page | None \<Rightarrow> isl r) \<and> cacheWithin m' docs"
proof (cases "Migrator_pageCache m pageID")
  case (Some cached)
  with assms(2) have "docs pageID = Some cached" by (simp add: cacheWithin_def)
  with Some assms(2,3) show ?thesis by (auto simp: getPageCached_def)
next
  case None
  obtain r1 w1 where req: "httpGetPage env pageID (Migrator_world m) = (r1, w1)"
    by (cases "httpGetPage env pageID (Migrator_world m)")
  from assms(1) have served: "case docs pageID of Some page \<Rightarrow> fst (httpGetPage env pageID (Migrator_world m)) = Inr page
      | None \<Rightarrow> isl (fst (httpGetPage env pageID (Migrator_world m)))"
    unfolding servesDocs_def by blast
  show ?thesis
  proof (cases "docs pageID")
    case d: None
    with served req obtain e where "r1 = Inl e" by (cases r1) auto
    with None req assms(2,3) d show ?thesis
      by (auto simp: getPageCached_def RetrievePage_def cacheWithin_def)
  next
    case d: (Some page)
    with served req have "r1 = Inr page" by simp
    with None req assms(2,3) d show ?thesis
      by (auto simp: getPageCached_def RetrievePage_def cacheWithin_def split: if_splits)
  qed
qed

lemma walkParents_ancestors:
  "servesDocs env docs \<Longrightarrow> cacheWithin m docs \<Longrightarrow> i \<le> 10 \<Longrightarrow>
     fst (walkParents env i currentPageID tags m)
       = map GetPageTitle (rev (ancestors env docs (10 - i) currentPageID)) @ tags"
proof (induction env i currentPageID tags m rule: walkParents.induct)
  case (1 env i currentPageID tags m)
  show ?case
  proof (cases "i < 10 \<and> currentPageID \<noteq> []")
    case False
    then have "ancestors env docs (10 - i) currentPageID = []"
      by (cases "10 - i") auto
    with False show ?thesis
      by (subst walkParents.simps) auto
  next
    case True
    then obtain n where n: "10 - i = Suc n" "10 - Suc i = n"
      by (cases "10 - i") auto
    obtain r m' where get: "getPageCached env currentPageID m = (r, m')"
      by (cases "getPageCached env currentPageID m")
    note served = getPageCached_served [OF "1.prems"(1,2) get]
    show ?thesis
    proof (cases "docs currentPageID")
      case None
      with served obtain e where "r = Inl e" by (cases r) auto
      with True get None n show ?thesis
        by (subst walkParents.simps) simp
    next
      case (Some parent)
      with served have r: "r = Inr parent" and c: "cacheWithin m' docs" by simp_all
      from True have "Suc i \<le> 10" by simp
      from "1.IH" [OF True get [symmetric] r "1.prems"(1) c this]
      have "fst (walkParents env (Suc i) (GetParentPageID env parent) (GetPageTitle parent # tags) m')
          = map GetPageTitle (rev (ancestors env docs (10 - Suc i) (GetParentPageID env parent)))
            @ GetPageTitle parent # tags" .
      with True get r Some n show ?thesis
        by (subst walkParents.simps) simp
    qed
  qed
qed

lemma getDatabaseCached_pageCache:
  "Migrator_pageCache (snd (getDatabaseCached env databaseID m)) = Migrator_pageCache m"
  by (auto simp: getDatabaseCached_def split: option.splits prod.splits sum.splits)

text \<open>
  C1 (as amended). When the source holds a fixed set of documents during the resolution
  and the cache holds only documents of the source, the tags of a document are the titles
  of its ancestors (at most 10, as far as they can be fetched) with the outermost first
  and the nearest last, followed by the title of the owning collection when the parent is
  a collection that can be resolved: the collection's title is the last tag, not the first.
\<close>

theorem getParentTagsCached_order:
  assumes "servesDocs env docs" and "cacheWithin m docs"
  shows "fst (getParentTagsCached env page m)
      = map GetPageTitle (rev (ancestors env docs 10 (GetParentPageID env page))) @ collectionTags env page m"
proof -
  let ?db = "getDatabaseCached env (GetParentDatabaseID env page) m"
  have c: "cacheWithin (snd ?db) docs"
    using assms(2) getDatabaseCached_pageCache [of env "GetParentDatabaseID env page" m]
    by (simp add: cacheWithin_def)
  note walk = walkParents_ancestors [OF assms(1), of _ 0 "GetParentPageID env page", simplified]
  show ?thesis
  proof (cases "GetParentDatabaseID env page = []")
    case True
    with walk [OF assms(2), of "[]"] show ?thesis
      by (simp add: getParentTagsCached_def collectionTags_def)
  next
    case False
    obtain r m1 where db: "?db = (r, m1)" by (cases ?db)
    with c have c1: "cacheWithin m1 docs" by simp
    show ?thesis
    proof (cases r)
      case (Inl e)
      with False db walk [OF c1, of "[]"] show ?thesis
        by (simp add: getParentTagsCached_def collectionTags_def)
    next
      case (Inr database)
      with False db walk [OF c1, of "[GetDatabaseTitle env database]"] show ?thesis
        by (simp add: getParentTagsCached_def collectionTags_def)
    qed
  qed
qed

lemma exampleEnv_servesDocs: "servesDocs exampleEnv exampleDocs"
  by (simp add: servesDocs_def exampleEnv_def exampleDocs_def)

lemma GetParentPageID_example:
  "GetParentPageID exampleEnv pageChild = ''p1''"
  "GetParentPageID exampleEnv pageParent = ''p0''"
  "GetParentPageID exampleEnv pageRoot = []"
  "GetParentDatabaseID exampleEnv pageChild = ''db1''"
  by (simp_all add: exampleEnv_def parentRef_def pageChild_def pageParent_def pageRoot_def titled_def)

lemma ancestors_example:
  "ancestors exampleEnv exampleDocs 10 ''p1'' = [pageParent, pageRoot]"
  by (simp add: eval_nat_numeral exampleDocs_def GetParentPageID_example)

lemma collectionTags_example: "collectionTags exampleEnv pageChild freshMigrator = [''Journal'']"
  by (simp add: collectionTags_def GetParentPageID_example getDatabaseCached_def RetrieveDatabase_def
      freshMigrator_def) (simp add: exampleEnv_def)

theorem getParentTagsCached_order_witness:
  "fst (getParentTagsCached exampleEnv pageChild freshMigrator) = [''Root'', ''Parent'', ''Journal'']"
proof -
  have "cacheWithin freshMigrator exampleDocs"
    by (simp add: cacheWithin_def freshMigrator_def)
  from getParentTagsCached_order [OF exampleEnv_servesDocs this, of pageChild]
  show ?thesis
    by (simp add: GetParentPageID_example ancestors_example collectionTags_example
        pageParent_def pageRoot_def GetPageTitle_titled)
qed

lemma getParentTagsCached_example:
  "fst (getParentTagsCached exampleEnv pageChild freshMigrator) = [''Root'', ''Parent'', ''Journal'']"
proof -
  let ?m1 = "freshMigrator\<lparr>Migrator_world := Suc 0, Migrator_databaseCache := [''db1'' \<mapsto> ''Journal'']\<rparr>"
  have db: "getDatabaseCached exampleEnv ''db1'' freshMigrator = (Inr ''Journal'', ?m1)"
    by (simp add: getDatabaseCached_def RetrieveDatabase_def freshMigrator_def) (simp add: exampleEnv_def)
  have "cacheWithin ?m1 exampleDocs"
    by (simp add: cacheWithin_def freshMigrator_def)
  from walkParents_ancestors [OF exampleEnv_servesDocs this, of 0 "''p1''" "[''Journal'']"]
  have "fst (walkParents exampleEnv 0 ''p1'' [''Journal''] ?m1) = [''Root'', ''Parent'', ''Journal'']"
    by (simp add: ancestors_example pageParent_def pageRoot_def GetPageTitle_titled)
  moreover have "GetDatabaseTitle exampleEnv ''Journal'' = ''Journal''"
    by (simp add: exampleEnv_def)
  ultimately show ?thesis
    by (simp add: getParentTagsCached_def GetParentPageID_example db)
qed

text \<open>
  C1 as stated fails: the parent of this document is a collection, titled \<open>Journal\<close>, and it
  has two ancestor documents; the first of its tags is the title of the outermost
  ancestor, and the collection's title is the last.
\<close>

theorem collection_tag_last_counterexample:
  "GetParentDatabaseID exampleEnv pageChild = ''db1'' \<and>
   fst (httpGetDatabase exampleEnv ''db1'' 0) = Inr ''Journal'' \<and>
   GetParentPageID exampleEnv pageChild = ''p1'' \<and>
   fst (getParentTagsCached exampleEnv pageChild freshMigrator) = [''Root'', ''Parent'', ''Journal''] \<and>
   hd (fst (getParentTagsCached exampleEnv pageChild freshMigrator)) \<noteq> ''Journal''"
  by (simp add: getParentTagsCached_example GetParentPageID_example) (simp add: exampleEnv_def)

section \<open>Properties of the orchestrator\<close>

lemma getPageCached_tracker:
  "getPageCached env pageID m = (r, m') \<Longrightarrow>
   Migrator_state m' = Migrator_state m \<and> Migrator_stateFile m' = Migrator_stateFile m \<and>
   Migrator_created m' = Migrator_created m \<and> Migrator_dryRun m' = Migrator_dryRun m"
  by (auto simp: getPageCached_def split: option.splits prod.splits sum.splits)

lemma getDatabaseCached_tracker:
  "getDatabaseCached env databaseID m = (r, m') \<Longrightarrow>
   Migrator_state m' = Migrator_state m \<and> Migrator_stateFile m' = Migrator_stateFile m \<and>
   Migrator_created m' = Migrator_created m \<and> Migrator_dryRun m' = Migrator_dryRun m"
  by (auto simp: getDatabaseCached_def split: option.splits prod.splits sum.splits)

lemma walkParents_tracker:
  "walkParents env i currentPageID tags m = (tags', m') \<Longrightarrow>
   Migrator_state m' = Migrator_state m \<and> Migrator_stateFile m' = Migrator_stateFile m \<and>
   Migrator_created m' = Migrator_created m \<and> Migrator_dryRun m' = Migrator_dryRun m"
proof (induction env i currentPageID tags m rule: walkParents.induct)
  case (1 env i currentPageID tags m)
  show ?case
  proof (cases "i < 10 \<and> currentPageID \<noteq> []")
    case False
    with "1.prems" show ?thesis
      by (subst (asm) walkParents.simps) auto
  next
    case True
    obtain r m1 where get: "getPageCached env currentPageID m = (r, m1)"
      by (cases "getPageCached env currentPageID m")
    note keep = getPageCached_tracker [OF get]
    show ?thesis
    proof (cases r)
      case (Inl e)
      with True get "1.prems" have "m' = m1"
        by (subst (asm) walkParents.simps) simp
      with keep show ?thesis by simp
    next
      case (Inr parentPage)
      with True get "1.prems"
      have "walkParents env (Suc i) (GetParentPageID env parentPage) (GetPageTitle parentPage # tags) m1
          = (tags', m')"
        by (subst (asm) walkParents.simps) simp
      from "1.IH" [OF True get [symmetric] Inr this] keep show ?thesis by simp
    qed
  qed
qed

lemma getParentTagsCached_tracker:
  assumes "getParentTagsCached env page m = (tags, m')"
  shows "Migrator_state m' = Migrator_state m \<and> Migrator_stateFile m' = Migrator_stateFile m \<and>
   Migrator_created m' = Migrator_created m \<and> Migrator_dryRun m' = Migrator_dryRun m"
proof (cases "GetParentDatabaseID env page = []")
  case True
  with assms have "walkParents env 0 (GetParentPageID env page) [] m = (tags, m')"
    by (simp add: getParentTagsCached_def)
  then show ?thesis by (rule walkParents_tracker)
next
  case False
  obtain r m1 where db: "getDatabaseCached env (GetParentDatabaseID env page) m = (r, m1)"
    by (cases "getDatabaseCached env (GetParentDatabaseID env page) m")
  from False db assms obtain tags0 where
    "walkParents env 0 (GetParentPageID env page) tags0 m1 = (tags, m')"
    by (cases r) (auto simp: getParentTagsCached_def)
  from walkParents_tracker [OF this] getDatabaseCached_tracker [OF db] show ?thesis by simp
qed

lemma createParts_tracker:
  "createParts env pageTitle createdTime n i parts m = (r, m') \<Longrightarrow>
   Migrator_state m' = Migrator_state m \<and> Migrator_stateFile m' = Migrator_stateFile m"
proof (induction parts arbitrary: i m)
  case Nil
  then show ?case by simp
next
  case (Cons part parts)
  obtain r1 m1 where cm: "CreateMemo env (memoContent pageTitle i n part) (partCreatedTime createdTime i)
       (Migrator_dryRun m) m = (r1, m1)"
    by (cases "CreateMemo env (memoContent pageTitle i n part) (partCreatedTime createdTime i)
       (Migrator_dryRun m) m")
  note c1 = CreateMemo_created [OF cm]
  show ?case
  proof (cases r1)
    case (Some e)
    with Cons.prems cm c1 show ?thesis by auto
  next
    case None
    with Cons.prems cm have "createParts env pageTitle createdTime n (Suc i) parts m1 = (r, m')"
      by simp
    from Cons.IH [OF this] c1 show ?thesis by simp
  qed
qed

lemma dispatch_tracker:
  assumes "dispatch env markdown pageTitle createdTime m = (r, m')"
  shows "Migrator_state m' = Migrator_state m \<and> Migrator_stateFile m' = Migrator_stateFile m"
proof (cases "length markdown > memosMaxLength")
  case True
  obtain r1 m1 where sp: "createSplitMemos env markdown pageTitle createdTime m = (r1, m1)"
    by (cases "createSplitMemos env markdown pageTitle createdTime m")
  then have "createParts env pageTitle createdTime (length (splitChunks [] markdown)) 0
      (splitChunks [] markdown) m = (r1, m1)"
    by (simp add: createSplitMemos_def Let_def)
  from createParts_tracker [OF this] True sp assms show ?thesis
    by (cases r1) (auto simp: dispatch_def)
next
  case False
  obtain r1 m1 where cm: "CreateMemo env markdown createdTime (Migrator_dryRun m) m = (r1, m1)"
    by (cases "CreateMemo env markdown createdTime (Migrator_dryRun m) m")
  from CreateMemo_created [OF cm] False cm assms show ?thesis
    by (cases r1) (auto simp: dispatch_def)
qed

text \<open>The shape of \<open>migratePage\<close> once the blocks are retrieved.\<close>

lemma migratePage_fetch_error:
  "RetrieveBlocks env (Page_ID page) (Migrator_world m) = Some (Inl err, w') \<Longrightarrow>
   migratePage env page m
     = Some (Some (wrap ''failed to retrieve blocks: '' err), m\<lparr>Migrator_world := w'\<rparr>)"
  by (simp add: migratePage_def)

lemma migratePage_no_blocks:
  "RetrieveBlocks env (Page_ID page) (Migrator_world m) = Some (Inr [], w') \<Longrightarrow>
   migratePage env page m = Some (None, m\<lparr>Migrator_world := w'\<rparr>)"
  by (simp add: migratePage_def)

lemma migratePage_blocks:
  assumes "RetrieveBlocks env (Page_ID page) (Migrator_world m) = Some (Inr blocks, w')"
    and "blocks \<noteq> []"
    and "getParentTagsCached env page (m\<lparr>Migrator_world := w'\<rparr>) = (tags, m1)"
    and "BlocksToMarkdown env blocks (Page_CreatedTime page) (GetPageTitle page) (replaceTagebuch tags)
           = Inr markdown"
  shows "migratePage env page m =
     (if markdown = [] then Some (None, m1)
      else Some (dispatch env markdown (GetPageTitle page)
                   (case ParseRFC3339 env (Page_CreatedTime page) of
                      Some t \<Rightarrow> t | None \<Rightarrow> Now env (Migrator_world m1)) m1))"
  using assms by (simp add: migratePage_def Let_def)

lemma BlocksToMarkdown_Inr: "\<exists>markdown. BlocksToMarkdown env blocks createdTime pageTitle tags = Inr markdown"
  by (simp add: BlocksToMarkdown_def Let_def)

lemma migratePage_tracker:
  assumes "migratePage env page m = Some (r, m')"
  shows "Migrator_state m' = Migrator_state m \<and> Migrator_stateFile m' = Migrator_stateFile m"
proof -
  from assms obtain res w' where rb: "RetrieveBlocks env (Page_ID page) (Migrator_world m) = Some (res, w')"
    by (cases "RetrieveBlocks env (Page_ID page) (Migrator_world m)") (auto simp: migratePage_def)
  show ?thesis
  proof (cases res)
    case (Inl err)
    with rb assms show ?thesis by (auto simp: migratePage_fetch_error)
  next
    case (Inr blocks)
    show ?thesis
    proof (cases "blocks = []")
      case True
      with rb Inr assms show ?thesis by (auto simp: migratePage_no_blocks)
    next
      case False
      obtain tags m1 where tg: "getParentTagsCached env page (m\<lparr>Migrator_world := w'\<rparr>) = (tags, m1)"
        by (cases "getParentTagsCached env page (m\<lparr>Migrator_world := w'\<rparr>)")
      obtain markdown where md: "BlocksToMarkdown env blocks (Page_CreatedTime page) (GetPageTitle page)
          (replaceTagebuch tags) = Inr markdown"
        using BlocksToMarkdown_Inr by blast
      note keep = getParentTagsCached_tracker [OF tg]
      from rb Inr have rb': "RetrieveBlocks env (Page_ID page) (Migrator_world m) = Some (Inr blocks, w')"
        by simp
      note shape = migratePage_blocks [OF rb' False tg md]
      show ?thesis
      proof (cases "markdown = []")
        case True
        with shape assms keep show ?thesis by simp
      next
        case nonempty: False
        with shape assms have "dispatch env markdown (GetPageTitle page)
            (case ParseRFC3339 env (Page_CreatedTime page) of
               Some t \<Rightarrow> t | None \<Rightarrow> Now env (Migrator_world m1)) m1 = (r, m')"
          by simp
        from dispatch_tracker [OF this] keep show ?thesis by simp
      qed
    qed
  qed
qed


lemma SaveState_result:
  "SaveState env m = (r, m') \<Longrightarrow>
   Migrator_state m' = Migrator_state m \<and> Migrator_created m' = Migrator_created m \<and>
   (case r of None \<Rightarrow> Migrator_stateFile m' = Some (Migrator_state m)
            | Some err \<Rightarrow> Migrator_stateFile m' = Migrator_stateFile m)"
  by (auto simp: SaveState_def split: prod.splits option.splits)

lemma migrateStep_error:
  "migratePage env page m = Some (Some err, m') \<Longrightarrow>
   migrateStep env page m
     = Some (Some (Error (''failed to migrate page '' @ GetPageTitle page @ '' ('' @ Page_ID page @ ''): '' @ msg err)), m')"
  by (simp add: migrateStep_def wrap_def)

lemma migrateStep_saved:
  assumes "migratePage env page m = Some (None, m1)"
    and "SaveState env (MarkProcessed (Page_ID page) m1) = (None, m2)"
  shows "migrateStep env page m = Some (None, m2)"
    and "Migrator_state m2 = (Migrator_state m)(Page_ID page \<mapsto> True)"
    and "Migrator_stateFile m2 = Some (Migrator_state m2)"
  using assms migratePage_tracker [OF assms(1)] SaveState_result [OF assms(2)]
  by (simp_all add: migrateStep_def MarkProcessed_def)

lemma migrateStep_save_error:
  assumes "migratePage env page m = Some (None, m1)"
    and "SaveState env (MarkProcessed (Page_ID page) m1) = (Some err, m2)"
  shows "migrateStep env page m = Some (Some (wrap ''failed to save state: '' err), m2)"
  using assms by (simp add: migrateStep_def)

lemma migrateStep_ok:
  assumes "migrateStep env page m = Some (None, m')"
  shows "Migrator_state m' = (Migrator_state m)(Page_ID page \<mapsto> True) \<and>
     Migrator_stateFile m' = Some (Migrator_state m')"
proof -
  from assms obtain m1 where mp: "migratePage env page m = Some (None, m1)"
    by (auto simp: migrateStep_def split: option.splits prod.splits)
  with assms have "SaveState env (MarkProcessed (Page_ID page) m1) = (None, m')"
    by (auto simp: migrateStep_def Let_def split: option.splits prod.splits)
  from migrateStep_saved(2,3) [OF mp this] show ?thesis by simp
qed

lemma migratePages_append:
  "migratePages env finished m = Some (None, m1) \<Longrightarrow>
   migratePages env (finished @ rest) m = migratePages env rest m1"
proof (induction finished arbitrary: m)
  case Nil
  then show ?case by simp
next
  case (Cons page finished)
  from Cons.prems obtain m' where step: "migrateStep env page m = Some (None, m')"
    and "migratePages env finished m' = Some (None, m1)"
    by (auto split: option.splits prod.splits)
  from Cons.IH [OF this(2)] step show ?case by simp
qed

lemma migratePages_done:
  "migratePages env finished m = Some (None, m1) \<Longrightarrow>
   Migrator_state m1 = foldl (\<lambda>s p. s(Page_ID p \<mapsto> True)) (Migrator_state m) finished \<and>
   (finished \<noteq> [] \<longrightarrow> Migrator_stateFile m1 = Some (Migrator_state m1)) \<and>
   (finished = [] \<longrightarrow> m1 = m)"
proof (induction finished arbitrary: m)
  case Nil
  then show ?case by simp
next
  case (Cons page finished)
  from Cons.prems obtain m' where step: "migrateStep env page m = Some (None, m')"
    and rest: "migratePages env finished m' = Some (None, m1)"
    by (auto split: option.splits prod.splits)
  from Cons.IH [OF rest] migrateStep_ok [OF step] show ?case
    by (cases "finished = []") (auto simp: fun_upd_def)
qed

lemma foldl_mark_other:
  "foldl (\<lambda>s p. s(Page_ID p \<mapsto> True)) s ps k = (if k \<in> Page_ID ` set ps then Some True else s k)"
  by (induction ps arbitrary: s) auto

lemma Migrate_found:
  "SearchPages env [] (Migrator_world m) = Some (Inr found, w) \<Longrightarrow>
   Migrate env opts m
     = migratePages env (selectPages opts (m\<lparr>Migrator_world := w\<rparr>) found) (m\<lparr>Migrator_world := w\<rparr>)"
  by (cases "selectPages opts (m\<lparr>Migrator_world := w\<rparr>) found") (simp_all add: Migrate_def Let_def)

lemma migratePage_dispatch_error:
  assumes "RetrieveBlocks env (Page_ID page) (Migrator_world m) = Some (Inr blocks, w')"
    and "blocks \<noteq> []"
    and "getParentTagsCached env page (m\<lparr>Migrator_world := w'\<rparr>) = (tags, m1)"
    and "BlocksToMarkdown env blocks (Page_CreatedTime page) (GetPageTitle page) (replaceTagebuch tags)
           = Inr markdown"
    and "markdown \<noteq> []"
    and "dispatch env markdown (GetPageTitle page)
           (case ParseRFC3339 env (Page_CreatedTime page) of
              Some t \<Rightarrow> t | None \<Rightarrow> Now env (Migrator_world m1)) m1 = (Some err, m2)"
  shows "migratePage env page m = Some (Some err, m2)"
  using migratePage_blocks [OF assms(1-4)] assms(5,6) by simp

lemma msg_wrap: "msg (wrap prefix err) = prefix @ msg err"
  by (simp add: wrap_def)

lemma readyToDispatch_migratePage:
  assumes "readyToDispatch env page m = Some (markdown, createdTime, m')"
  shows "migratePage env page m = Some (dispatch env markdown (GetPageTitle page) createdTime m')"
    and "Migrator_state m' = Migrator_state m" and "Migrator_stateFile m' = Migrator_stateFile m"
    and "Migrator_created m' = Migrator_created m" and "Migrator_dryRun m' = Migrator_dryRun m"
proof -
  from assms obtain blocks w' where
    rb: "RetrieveBlocks env (Page_ID page) (Migrator_world m) = Some (Inr blocks, w')"
    and nonempty: "blocks \<noteq> []"
    by (auto simp: readyToDispatch_def split: option.splits prod.splits sum.splits if_splits)
  obtain tags m1 where tg: "getParentTagsCached env page (m\<lparr>Migrator_world := w'\<rparr>) = (tags, m1)"
    by (cases "getParentTagsCached env page (m\<lparr>Migrator_world := w'\<rparr>)")
  from assms rb nonempty tg have
    md: "BlocksToMarkdown env blocks (Page_CreatedTime page) (GetPageTitle page) (replaceTagebuch tags)
      = Inr markdown"
    and nonblank: "markdown \<noteq> []"
    and created_at: "createdTime = (case ParseRFC3339 env (Page_CreatedTime page) of
        Some t \<Rightarrow> t | None \<Rightarrow> Now env (Migrator_world m1))"
    and same: "m' = m1"
    by (auto simp: readyToDispatch_def split: sum.splits if_splits)
  from migratePage_blocks [OF rb nonempty tg md] nonblank created_at same
  show "migratePage env page m = Some (dispatch env markdown (GetPageTitle page) createdTime m')"
    by simp
  from getParentTagsCached_tracker [OF tg] same
  show "Migrator_state m' = Migrator_state m" and "Migrator_stateFile m' = Migrator_stateFile m"
    and "Migrator_created m' = Migrator_created m" and "Migrator_dryRun m' = Migrator_dryRun m"
    by simp_all
qed

lemma createParts_append:
  "createParts env pageTitle createdTime n i pre m = (None, mk) \<Longrightarrow>
   createParts env pageTitle createdTime n i (pre @ rest) m
     = createParts env pageTitle createdTime n (i + length pre) rest mk"
proof (induction pre arbitrary: i m)
  case Nil
  then show ?case by simp
next
  case (Cons part pre)
  obtain r1 m1 where cm: "CreateMemo env (memoContent pageTitle i n part) (partCreatedTime createdTime i)
       (Migrator_dryRun m) m = (r1, m1)"
    by (cases "CreateMemo env (memoContent pageTitle i n part) (partCreatedTime createdTime i)
       (Migrator_dryRun m) m")
  with Cons.prems have r1: "r1 = None"
    and rest: "createParts env pageTitle createdTime n (Suc i) pre m1 = (None, mk)"
    by (cases r1; simp)+
  from Cons.IH [OF rest] cm r1 show ?case by simp
qed

lemma createSplitMemos_part_error:
  assumes "splitChunks [] content = pre @ part # post"
    and "createParts env pageTitle createdTime (length (pre @ part # post)) 0 pre m = (None, mk)"
    and "CreateMemo env (memoContent pageTitle (length pre) (length (pre @ part # post)) part)
           (partCreatedTime createdTime (length pre)) (Migrator_dryRun mk) mk = (Some err, m2)"
  shows "createSplitMemos env content pageTitle createdTime m
     = (Some (wrap (''failed to create memo part '' @ itoa (length pre + 1) @ '': '') err), m2)"
  using createParts_append [OF assms(2), of "part # post"] assms(1,3)
  by (simp add: createSplitMemos_def Let_def)

lemma createSplitMemos_all_created:
  assumes "createSplitMemos env content pageTitle createdTime m = (None, m')"
  shows "Migrator_created m' = Migrator_created m
     @ map (\<lambda>i. (memoContent pageTitle i (length (splitChunks [] content)) (splitChunks [] content ! i),
                partCreatedTime createdTime i)) [0..<length (splitChunks [] content)]"
proof -
  from assms have "createParts env pageTitle createdTime (length (splitChunks [] content)) 0
      (splitChunks [] content) m = (None, m')"
    by (simp add: createSplitMemos_def Let_def)
  from createParts_created [OF this] show ?thesis by auto
qed

lemma dispatch_cases:
  "length markdown \<le> memosMaxLength \<Longrightarrow>
   CreateMemo env markdown createdTime (Migrator_dryRun m) m = (Some err, m2) \<Longrightarrow>
   dispatch env markdown pageTitle createdTime m = (Some (wrap ''failed to create memo: '' err), m2)"
  "length markdown \<le> memosMaxLength \<Longrightarrow>
   CreateMemo env markdown createdTime (Migrator_dryRun m) m = (None, m2) \<Longrightarrow>
   dispatch env markdown pageTitle createdTime m = (None, m2)"
  "memosMaxLength < length markdown \<Longrightarrow>
   createSplitMemos env markdown pageTitle createdTime m = (Some err, m2) \<Longrightarrow>
   dispatch env markdown pageTitle createdTime m = (Some (wrap ''failed to create split memos: '' err), m2)"
  "memosMaxLength < length markdown \<Longrightarrow>
   createSplitMemos env markdown pageTitle createdTime m = (None, m2) \<Longrightarrow>
   dispatch env markdown pageTitle createdTime m = (None, m2)"
  by (simp_all add: dispatch_def)

lemma migrateStep_pageError:
  "migratePage env page m = Some (Some err, m') \<Longrightarrow>
   migrateStep env page m = Some (Some (pageError page (msg err)), m')"
  by (simp add: migrateStep_def wrap_def pageError_def)


text \<open>
  C4. In a run that has found its documents and completed those before \<open>page\<close> in the
  list left by the filters, the identifiers of the completed documents, and no others,
  have been added to the processed set, and the state file holds that set. Then:
  \<^item> if \<open>migratePage\<close> fails for \<open>page\<close>, the run ends at once with an error that names the
    title and the identifier of \<open>page\<close>, and neither the processed set nor the state file
    has changed: the identifier of \<open>page\<close> is not added, and those of the completed
    documents stay persisted;
  \<^item> if \<open>page\<close> succeeds and the state is saved, its identifier is in the processed set
    and the state file holds the set before the run goes on with the next document; if
    the state cannot be saved, the run ends there and attempts no further document;
  \<^item> \<open>migratePage\<close> fails, and so the run, with the error of the failing step: when the
    blocks cannot be retrieved; when the rendered text fits one memo and \<open>CreateMemo\<close>
    fails; when the text is split and \<open>createSplitMemos\<close> fails, which it does at the first
    part that \<open>CreateMemo\<close> fails to create, after the parts before it were created;
  \<^item> \<open>migratePage\<close> succeeds for a document that is ready to be dispatched only when the
    memo, or every part, was handed to \<open>CreateMemo\<close> without an error, and \<open>CreateMemo\<close>
    returns the error of the target service.
  Rendering returns no error on any path.
\<close>

theorem Migrate_no_partial_success:
  assumes "SearchPages env [] (Migrator_world m) = Some (Inr found, w)"
    and "selectPages opts (m\<lparr>Migrator_world := w\<rparr>) found = finished @ page # rest"
    and "migratePages env finished (m\<lparr>Migrator_world := w\<rparr>) = Some (None, m1)"
  shows "Migrator_state m1 = foldl (\<lambda>s p. s(Page_ID p \<mapsto> True)) (Migrator_state m) finished \<and>
     (\<forall>p \<in> set finished. Migrator_state m1 (Page_ID p) = Some True) \<and>
     (finished \<noteq> [] \<longrightarrow> Migrator_stateFile m1 = Some (Migrator_state m1)) \<and>
     (\<forall>err m2. migratePage env page m1 = Some (Some err, m2) \<longrightarrow>
        Migrate env opts m = Some (Some (pageError page (msg err)), m2) \<and>
        Migrator_state m2 = Migrator_state m1 \<and> Migrator_stateFile m2 = Migrator_stateFile m1) \<and>
     (\<forall>m2 m3. migratePage env page m1 = Some (None, m2) \<and>
          SaveState env (MarkProcessed (Page_ID page) m2) = (None, m3) \<longrightarrow>
        Migrate env opts m = migratePages env rest m3 \<and>
        Migrator_state m3 = (Migrator_state m1)(Page_ID page \<mapsto> True) \<and>
        Migrator_stateFile m3 = Some (Migrator_state m3)) \<and>
     (\<forall>m2 err m3. migratePage env page m1 = Some (None, m2) \<and>
          SaveState env (MarkProcessed (Page_ID page) m2) = (Some err, m3) \<longrightarrow>
        Migrate env opts m = Some (Some (wrap ''failed to save state: '' err), m3)) \<and>
     (\<forall>err w'. RetrieveBlocks env (Page_ID page) (Migrator_world m1) = Some (Inl err, w') \<longrightarrow>
        migratePage env page m1
          = Some (Some (wrap ''failed to retrieve blocks: '' err), m1\<lparr>Migrator_world := w'\<rparr>) \<and>
        Migrate env opts m
          = Some (Some (pageError page (''failed to retrieve blocks: '' @ msg err)),
                  m1\<lparr>Migrator_world := w'\<rparr>)) \<and>
     (\<forall>markdown createdTime m'. readyToDispatch env page m1 = Some (markdown, createdTime, m') \<longrightarrow>
        Migrator_state m' = Migrator_state m1 \<and> Migrator_stateFile m' = Migrator_stateFile m1 \<and>
        Migrator_created m' = Migrator_created m1 \<and>
        (length markdown \<le> memosMaxLength \<longrightarrow>
           (\<forall>err m2. CreateMemo env markdown createdTime (Migrator_dryRun m') m' = (Some err, m2) \<longrightarrow>
              Migrate env opts m
                = Some (Some (pageError page (''failed to create memo: '' @ msg err)), m2) \<and>
              Migrator_state m2 = Migrator_state m1 \<and> Migrator_stateFile m2 = Migrator_stateFile m1) \<and>
           (\<forall>m2. CreateMemo env markdown createdTime (Migrator_dryRun m') m' = (None, m2) \<longrightarrow>
              migratePage env page m1 = Some (None, m2) \<and>
              Migrator_created m2 = Migrator_created m1 @ [(markdown, createdTime)])) \<and>
        (memosMaxLength < length markdown \<longrightarrow>
           (\<forall>err m2. createSplitMemos env markdown (GetPageTitle page) createdTime m' = (Some err, m2) \<longrightarrow>
              Migrate env opts m
                = Some (Some (pageError page (''failed to create split memos: '' @ msg err)), m2) \<and>
              Migrator_state m2 = Migrator_state m1 \<and> Migrator_stateFile m2 = Migrator_stateFile m1) \<and>
           (\<forall>pre part post mk err m2.
              splitChunks [] markdown = pre @ part # post \<and>
              createParts env (GetPageTitle page) createdTime (length (pre @ part # post)) 0 pre m' = (None, mk) \<and>
              CreateMemo env (memoContent (GetPageTitle page) (length pre) (length (pre @ part # post)) part)
                  (partCreatedTime createdTime (length pre)) (Migrator_dryRun mk) mk = (Some err, m2) \<longrightarrow>
              Migrate env opts m
                = Some (Some (pageError page (''failed to create split memos: failed to create memo part ''
                                @ itoa (length pre + 1) @ '': '' @ msg err)), m2) \<and>
              Migrator_state m2 = Migrator_state m1 \<and> Migrator_stateFile m2 = Migrator_stateFile m1) \<and>
           (\<forall>m2. createSplitMemos env markdown (GetPageTitle page) createdTime m' = (None, m2) \<longrightarrow>
              migratePage env page m1 = Some (None, m2) \<and>
              Migrator_created m2 = Migrator_created m1
                @ map (\<lambda>i. (memoContent (GetPageTitle page) i (length (splitChunks [] markdown))
                             (splitChunks [] markdown ! i),
                           partCreatedTime createdTime i)) [0..<length (splitChunks [] markdown)]))) \<and>
     (\<forall>content createdTime dryRun mm.
        fst (CreateMemo env content createdTime dryRun mm)
          = fst (httpCreateMemo env content createdTime dryRun (Migrator_world mm)) \<and>
        Migrator_created (snd (CreateMemo env content createdTime dryRun mm))
          = Migrator_created mm @ [(content, createdTime)]) \<and>
     (\<forall>blocks createdTime pageTitle tags.
        \<exists>markdown. BlocksToMarkdown env blocks createdTime pageTitle tags = Inr markdown)"
proof -
  note fin = migratePages_done [OF assms(3)]
  have run: "Migrate env opts m = migratePages env (page # rest) m1"
    using Migrate_found [OF assms(1), of opts] assms(2) migratePages_append [OF assms(3), of "page # rest"]
    by simp
  have st: "Migrator_state m1 = foldl (\<lambda>s p. s(Page_ID p \<mapsto> True)) (Migrator_state m) finished"
    using fin by simp
  have marked: "\<forall>p \<in> set finished. Migrator_state m1 (Page_ID p) = Some True"
    unfolding st by (simp add: foldl_mark_other)
  have saved: "finished \<noteq> [] \<longrightarrow> Migrator_stateFile m1 = Some (Migrator_state m1)"
    using fin by simp
  have failure: "Migrate env opts m = Some (Some (pageError page (msg err)), m2) \<and>
        Migrator_state m2 = Migrator_state m1 \<and> Migrator_stateFile m2 = Migrator_stateFile m1"
    if "migratePage env page m1 = Some (Some err, m2)" for err m2
    using run migrateStep_pageError [OF that] migratePage_tracker [OF that] by simp
  have success: "Migrate env opts m = migratePages env rest m3 \<and>
        Migrator_state m3 = (Migrator_state m1)(Page_ID page \<mapsto> True) \<and>
        Migrator_stateFile m3 = Some (Migrator_state m3)"
    if "migratePage env page m1 = Some (None, m2)"
      and "SaveState env (MarkProcessed (Page_ID page) m2) = (None, m3)" for m2 m3
    using run migrateStep_saved [OF that] by simp
  have unsaved: "Migrate env opts m = Some (Some (wrap ''failed to save state: '' err), m3)"
    if "migratePage env page m1 = Some (None, m2)"
      and "SaveState env (MarkProcessed (Page_ID page) m2) = (Some err, m3)" for m2 err m3
    using run migrateStep_save_error [OF that] by simp
  have fetch: "migratePage env page m1
      = Some (Some (wrap ''failed to retrieve blocks: '' err), m1\<lparr>Migrator_world := w'\<rparr>) \<and>
      Migrate env opts m
      = Some (Some (pageError page (''failed to retrieve blocks: '' @ msg err)), m1\<lparr>Migrator_world := w'\<rparr>)"
    if "RetrieveBlocks env (Page_ID page) (Migrator_world m1) = Some (Inl err, w')" for err w'
    using failure [OF migratePage_fetch_error [OF that]] migratePage_fetch_error [OF that]
    by (simp add: msg_wrap)
  have ready: "Migrator_state m' = Migrator_state m1 \<and> Migrator_stateFile m' = Migrator_stateFile m1 \<and>
        Migrator_created m' = Migrator_created m1 \<and>
        (length markdown \<le> memosMaxLength \<longrightarrow>
           (\<forall>err m2. CreateMemo env markdown createdTime (Migrator_dryRun m') m' = (Some err, m2) \<longrightarrow>
              Migrate env opts m
                = Some (Some (pageError page (''failed to create memo: '' @ msg err)), m2) \<and>
              Migrator_state m2 = Migrator_state m1 \<and> Migrator_stateFile m2 = Migrator_stateFile m1) \<and>
           (\<forall>m2. CreateMemo env markdown createdTime (Migrator_dryRun m') m' = (None, m2) \<longrightarrow>
              migratePage env page m1 = Some (None, m2) \<and>
              Migrator_created m2 = Migrator_created m1 @ [(markdown, createdTime)])) \<and>
        (memosMaxLength < length markdown \<longrightarrow>
           (\<forall>err m2. createSplitMemos env markdown (GetPageTitle page) createdTime m' = (Some err, m2) \<longrightarrow>
              Migrate env opts m
                = Some (Some (pageError page (''failed to create split memos: '' @ msg err)), m2) \<and>
              Migrator_state m2 = Migrator_state m1 \<and> Migrator_stateFile m2 = Migrator_stateFile m1) \<and>
           (\<forall>pre part post mk err m2.
              splitChunks [] markdown = pre @ part # post \<and>
              createParts env (GetPageTitle page) createdTime (length (pre @ part # post)) 0 pre m' = (None, mk) \<and>
              CreateMemo env (memoContent (GetPageTitle page) (length pre) (length (pre @ part # post)) part)
                  (partCreatedTime createdTime (length pre)) (Migrator_dryRun mk) mk = (Some err, m2) \<longrightarrow>
              Migrate env opts m
                = Some (Some (pageError page (''failed to create split memos: failed to create memo part ''
                                @ itoa (length pre + 1) @ '': '' @ msg err)), m2) \<and>
              Migrator_state m2 = Migrator_state m1 \<and> Migrator_stateFile m2 = Migrator_stateFile m1) \<and>
           (\<forall>m2. createSplitMemos env markdown (GetPageTitle page) createdTime m' = (None, m2) \<longrightarrow>
              migratePage env page m1 = Some (None, m2) \<and>
              Migrator_created m2 = Migrator_created m1
                @ map (\<lambda>i. (memoContent (GetPageTitle page) i (length (splitChunks [] markdown))
                             (splitChunks [] markdown ! i),
                           partCreatedTime createdTime i)) [0..<length (splitChunks [] markdown)]))"
    if rd: "readyToDispatch env page m1 = Some (markdown, createdTime, m')" for markdown createdTime m'
  proof -
    note shape = readyToDispatch_migratePage [OF rd]
    have one_error: "Migrate env opts m
          = Some (Some (pageError page (''failed to create memo: '' @ msg err)), m2) \<and>
        Migrator_state m2 = Migrator_state m1 \<and> Migrator_stateFile m2 = Migrator_stateFile m1"
      if "length markdown \<le> memosMaxLength"
        and "CreateMemo env markdown createdTime (Migrator_dryRun m') m' = (Some err, m2)" for err m2
      using failure [of "wrap ''failed to create memo: '' err" m2] shape(1) dispatch_cases(1) [OF that]
      by (simp add: msg_wrap)
    have one_ok: "migratePage env page m1 = Some (None, m2) \<and>
        Migrator_created m2 = Migrator_created m1 @ [(markdown, createdTime)]"
      if "length markdown \<le> memosMaxLength"
        and "CreateMemo env markdown createdTime (Migrator_dryRun m') m' = (None, m2)" for m2
      using shape(1,4) dispatch_cases(2) [OF that] CreateMemo_created [OF that(2)] by simp
    have split_error: "Migrate env opts m
          = Some (Some (pageError page (''failed to create split memos: '' @ msg err)), m2) \<and>
        Migrator_state m2 = Migrator_state m1 \<and> Migrator_stateFile m2 = Migrator_stateFile m1"
      if "memosMaxLength < length markdown"
        and "createSplitMemos env markdown (GetPageTitle page) createdTime m' = (Some err, m2)" for err m2
      using failure [of "wrap ''failed to create split memos: '' err" m2] shape(1) dispatch_cases(3) [OF that]
      by (simp add: msg_wrap)
    have part_error: "Migrate env opts m
          = Some (Some (pageError page (''failed to create split memos: failed to create memo part ''
                          @ itoa (length pre + 1) @ '': '' @ msg err)), m2) \<and>
        Migrator_state m2 = Migrator_state m1 \<and> Migrator_stateFile m2 = Migrator_stateFile m1"
      if "memosMaxLength < length markdown"
        and "splitChunks [] markdown = pre @ part # post"
        and "createParts env (GetPageTitle page) createdTime (length (pre @ part # post)) 0 pre m' = (None, mk)"
        and "CreateMemo env (memoContent (GetPageTitle page) (length pre) (length (pre @ part # post)) part)
            (partCreatedTime createdTime (length pre)) (Migrator_dryRun mk) mk = (Some err, m2)"
      for pre part post mk err m2
      using split_error [OF that(1) createSplitMemos_part_error [OF that(2,3,4)]]
      by (simp add: msg_wrap)
    have split_ok: "migratePage env page m1 = Some (None, m2) \<and>
        Migrator_created m2 = Migrator_created m1
          @ map (\<lambda>i. (memoContent (GetPageTitle page) i (length (splitChunks [] markdown))
                       (splitChunks [] markdown ! i),
                     partCreatedTime createdTime i)) [0..<length (splitChunks [] markdown)]"
      if "memosMaxLength < length markdown"
        and "createSplitMemos env markdown (GetPageTitle page) createdTime m' = (None, m2)" for m2
      using shape(1,4) dispatch_cases(4) [OF that] createSplitMemos_all_created [OF that(2)] by simp
    from shape(2,3,4) one_error one_ok split_error part_error split_ok show ?thesis
      by blast
  qed
  have target: "fst (CreateMemo env content createdTime dryRun mm)
          = fst (httpCreateMemo env content createdTime dryRun (Migrator_world mm)) \<and>
        Migrator_created (snd (CreateMemo env content createdTime dryRun mm))
          = Migrator_created mm @ [(content, createdTime)]" for content createdTime dryRun mm
    by (cases "httpCreateMemo env content createdTime dryRun (Migrator_world mm)")
      (simp add: CreateMemo_def)
  from st marked saved failure success unsaved fetch ready target BlocksToMarkdown_Inr [of env]
  show ?thesis
    by blast
qed

text \<open>Runs in which nothing fails.\<close>

lemma dispatch_no_failure:
  assumes "\<And>c t d w. fst (httpCreateMemo env c t d w) = None"
  shows "fst (dispatch env markdown pageTitle createdTime m) = None"
proof (cases "length markdown > memosMaxLength")
  case True
  have "fst (createSplitMemos env markdown pageTitle createdTime m) = None"
    unfolding createSplitMemos_def Let_def by (rule createParts_no_failure) (rule assms)
  with True show ?thesis
    by (cases "createSplitMemos env markdown pageTitle createdTime m") (simp add: dispatch_def)
next
  case False
  have "fst (httpCreateMemo env markdown createdTime (Migrator_dryRun m) (Migrator_world m)) = None"
    by (rule assms)
  with False show ?thesis
    by (cases "httpCreateMemo env markdown createdTime (Migrator_dryRun m) (Migrator_world m)")
      (simp add: dispatch_def CreateMemo_def)
qed

lemma migratePage_no_failure:
  assumes "RetrieveBlocks env (Page_ID page) (Migrator_world m) = Some (Inr blocks, w')"
    and "\<And>c t d w. fst (httpCreateMemo env c t d w) = None"
  shows "\<exists>m'. migratePage env page m = Some (None, m')"
proof (cases "blocks = []")
  case True
  with assms(1) show ?thesis by (simp add: migratePage_no_blocks)
next
  case False
  obtain tags m1 where tg: "getParentTagsCached env page (m\<lparr>Migrator_world := w'\<rparr>) = (tags, m1)"
    by (cases "getParentTagsCached env page (m\<lparr>Migrator_world := w'\<rparr>)")
  obtain markdown where md: "BlocksToMarkdown env blocks (Page_CreatedTime page) (GetPageTitle page)
      (replaceTagebuch tags) = Inr markdown"
    using BlocksToMarkdown_Inr by blast
  let ?t = "case ParseRFC3339 env (Page_CreatedTime page) of
      Some t \<Rightarrow> t | None \<Rightarrow> Now env (Migrator_world m1)"
  have "fst (dispatch env markdown (GetPageTitle page) ?t m1) = None"
    by (rule dispatch_no_failure) (rule assms(2))
  then obtain m2 where "dispatch env markdown (GetPageTitle page) ?t m1 = (None, m2)"
    by (cases "dispatch env markdown (GetPageTitle page) ?t m1") simp
  with migratePage_blocks [OF assms(1) False tg md] show ?thesis
    by (cases "markdown = []") simp_all
qed

lemma migratePages_no_failure:
  assumes "\<And>p w. p \<in> set ps \<Longrightarrow> \<exists>blocks w'. RetrieveBlocks env (Page_ID p) w = Some (Inr blocks, w')"
    and "\<And>c t d w. fst (httpCreateMemo env c t d w) = None"
    and "\<And>w. fst (writeStateFile env w) = None"
  shows "\<exists>m'. migratePages env ps m = Some (None, m')"
  using assms(1)
proof (induction ps arbitrary: m)
  case Nil
  show ?case by simp
next
  case (Cons page ps)
  from Cons.prems [of page "Migrator_world m"] obtain blocks w' where
    "RetrieveBlocks env (Page_ID page) (Migrator_world m) = Some (Inr blocks, w')"
    by auto
  from migratePage_no_failure [OF this assms(2)] obtain m1 where
    mp: "migratePage env page m = Some (None, m1)" by blast
  let ?m1 = "MarkProcessed (Page_ID page) m1"
  from assms(3) [of "Migrator_world ?m1"] obtain m2 where "SaveState env ?m1 = (None, m2)"
    by (cases "writeStateFile env (Migrator_world ?m1)") (simp add: SaveState_def)
  from migrateStep_saved(1) [OF mp this] have step: "migrateStep env page m = Some (None, m2)" .
  from Cons.IH [of m2] Cons.prems obtain m' where "migratePages env ps m2 = Some (None, m')"
    by auto
  with step show ?case by simp
qed

text \<open>The example source.\<close>

lemma example_ids:
  "Page_ID pageGroceries = ''A''" "Page_ID pageEmpty = ''E''" "Page_ID pageBroken = ''B''"
  "GetPageTitle pageGroceries = ''Groceries''" "GetPageTitle pageEmpty = ''Empty''"
  "GetPageTitle pageBroken = ''Broken''"
  by (simp_all add: pageGroceries_def pageEmpty_def pageBroken_def titled_def GetPageTitle_def plainText_def)

lemma exampleEnv_SearchPages:
  "SearchPages exampleEnv [] w = Some (Inr [pageGroceries, pageEmpty, pageBroken], Suc (Suc w))"
  unfolding SearchPages_def
  by (subst SearchPages_loop.simps, subst SearchPages_loop.simps)
    (simp add: exampleEnv_def searchResponse_def)

lemma exampleEnv_RetrieveBlocks:
  "RetrieveBlocks exampleEnv ''A'' w = Some (Inr [paragraphBlock ''Milk'', paragraphBlock ''Eggs''], Suc (Suc w))"
  "RetrieveBlocks exampleEnv ''E'' w = Some (Inr [], Suc w)"
  "RetrieveBlocks exampleEnv ''B'' w = Some (Inl (Error ''API request failed with status 429: ''), Suc w)"
proof -
  show "RetrieveBlocks exampleEnv ''A'' w = Some (Inr [paragraphBlock ''Milk'', paragraphBlock ''Eggs''], Suc (Suc w))"
    unfolding RetrieveBlocks_def
    by (subst RetrieveBlocks_loop.simps, subst RetrieveBlocks_loop.simps)
      (simp add: exampleEnv_def blockResponse_def)
  show "RetrieveBlocks exampleEnv ''E'' w = Some (Inr [], Suc w)"
    unfolding RetrieveBlocks_def
    by (subst RetrieveBlocks_loop.simps) (simp add: exampleEnv_def blockResponse_def)
  show "RetrieveBlocks exampleEnv ''B'' w = Some (Inl (Error ''API request failed with status 429: ''), Suc w)"
    unfolding RetrieveBlocks_def
    by (subst RetrieveBlocks_loop.simps) (simp add: exampleEnv_def blockResponse_def)
qed

lemma exampleEnv_reliable:
  "fst (httpCreateMemo exampleEnv c t d w) = None" "fst (writeStateFile exampleEnv w') = None"
  "fst (readStateFile exampleEnv w') = None"
  by (simp_all add: exampleEnv_def)

lemma example_first_two:
  "\<exists>m1. migratePages exampleEnv [pageGroceries, pageEmpty] m = Some (None, m1)"
proof (rule migratePages_no_failure)
  fix p :: "string Page" and w :: nat
  assume "p \<in> set [pageGroceries, pageEmpty]"
  then show "\<exists>blocks w'. RetrieveBlocks exampleEnv (Page_ID p) w = Some (Inr blocks, w')"
    by (auto simp: example_ids exampleEnv_RetrieveBlocks)
qed (simp_all add: exampleEnv_reliable)

subsection \<open>Documents skipped as empty\<close>

lemma migratePage_skip:
  assumes "rendersEmpty env page m"
  shows "\<exists>m1. migratePage env page m = Some (None, m1) \<and> Migrator_created m1 = Migrator_created m"
proof -
  from assms obtain blocks w' where
    rb: "RetrieveBlocks env (Page_ID page) (Migrator_world m) = Some (Inr blocks, w')"
    and empty: "blocks = [] \<or>
      BlocksToMarkdown env blocks (Page_CreatedTime page) (GetPageTitle page)
          (replaceTagebuch (fst (getParentTagsCached env page (m\<lparr>Migrator_world := w'\<rparr>))))
        = Inr []"
    by (auto simp: rendersEmpty_def split: option.splits prod.splits sum.splits)
  show ?thesis
  proof (cases "blocks = []")
    case True
    with rb show ?thesis by (simp add: migratePage_no_blocks)
  next
    case False
    obtain tags m1 where tg: "getParentTagsCached env page (m\<lparr>Migrator_world := w'\<rparr>) = (tags, m1)"
      by (cases "getParentTagsCached env page (m\<lparr>Migrator_world := w'\<rparr>)")
    with False empty have md: "BlocksToMarkdown env blocks (Page_CreatedTime page) (GetPageTitle page)
        (replaceTagebuch tags) = Inr []"
      by simp
    from migratePage_blocks [OF rb False tg md] getParentTagsCached_tracker [OF tg]
    show ?thesis by simp
  qed
qed

lemma migrateStep_tracker:
  assumes "migrateStep env page m = Some (r, m')"
  shows "(Migrator_state m' = Migrator_state m \<or> Migrator_state m' = (Migrator_state m)(Page_ID page \<mapsto> True)) \<and>
     (Migrator_stateFile m' = Migrator_stateFile m \<or> Migrator_stateFile m' = Some (Migrator_state m'))"
proof -
  from assms obtain r1 m1 where mp: "migratePage env page m = Some (r1, m1)"
    by (cases "migratePage env page m") (auto simp: migrateStep_def)
  note keep = migratePage_tracker [OF mp]
  show ?thesis
  proof (cases r1)
    case (Some err)
    with mp assms keep show ?thesis by (auto simp: migrateStep_def)
  next
    case None
    obtain r2 m2 where sv: "SaveState env (MarkProcessed (Page_ID page) m1) = (r2, m2)"
      by (cases "SaveState env (MarkProcessed (Page_ID page) m1)")
    with None mp assms have "m' = m2"
      by (cases r2) (auto simp: migrateStep_def)
    with SaveState_result [OF sv] keep show ?thesis
      by (cases r2) (auto simp: MarkProcessed_def)
  qed
qed

lemma migratePages_keeps_saved:
  "migratePages env rest m = Some (r, mf) \<Longrightarrow>
   Migrator_state m k = Some True \<Longrightarrow>
   \<exists>file. Migrator_stateFile m = Some file \<and> file k = Some True \<Longrightarrow>
   Migrator_state mf k = Some True \<and> (\<exists>file. Migrator_stateFile mf = Some file \<and> file k = Some True)"
proof (induction rest arbitrary: m)
  case Nil
  then show ?case by simp
next
  case (Cons page rest)
  from Cons.prems(1) obtain r1 m1 where step: "migrateStep env page m = Some (r1, m1)"
    by (cases "migrateStep env page m") auto
  from migrateStep_tracker [OF step] Cons.prems(2,3)
  have inv: "Migrator_state m1 k = Some True"
    "\<exists>file. Migrator_stateFile m1 = Some file \<and> file k = Some True"
    by auto
  show ?case
  proof (cases r1)
    case (Some err)
    with step Cons.prems(1) have "mf = m1" by simp
    with inv show ?thesis by simp
  next
    case None
    with step Cons.prems(1) have "migratePages env rest m1 = Some (r, mf)" by simp
    from Cons.IH [OF this inv] show ?thesis .
  qed
qed

lemma NewMigrator_state:
  "NewMigrator env dryRun w file created = Inr m \<Longrightarrow>
   Migrator_state m = (case file of None \<Rightarrow> Map.empty | Some processedPages \<Rightarrow> processedPages) \<and>
   Migrator_created m = created \<and> Migrator_stateFile m = file"
  by (auto simp: NewMigrator_def LoadState_def split: option.splits prod.splits sum.splits)

lemma selectPages_resume:
  "MigrateOptions_Resume opts \<Longrightarrow> IsProcessed m (Page_ID page) \<Longrightarrow>
   page \<notin> set (selectPages opts m pages)"
  by (simp add: selectPages_def filterProcessedPages_def)

lemma IsProcessed_world [simp]: "IsProcessed (m\<lparr>Migrator_world := w\<rparr>) k = IsProcessed m k"
  by (simp add: IsProcessed_def)

text \<open>
  C10. When the blocks of a document are retrieved and there is none, or they render to
  the empty text, \<open>migratePage\<close> succeeds and hands no memo to \<open>CreateMemo\<close>. Once the state
  is saved, the step of the run has succeeded, still with no memo, the identifier is in
  the processed set and the state file holds that set; whatever the run does with the
  documents that follow, the state file keeps the identifier, and a later run that
  loads this state file and resumes does not select the document.
\<close>

theorem empty_page_skipped_and_recorded:
  assumes "rendersEmpty env page m"
  shows "\<exists>m1. migratePage env page m = Some (None, m1) \<and> Migrator_created m1 = Migrator_created m \<and>
     (\<forall>m2. SaveState env (MarkProcessed (Page_ID page) m1) = (None, m2) \<longrightarrow>
        migrateStep env page m = Some (None, m2) \<and> Migrator_created m2 = Migrator_created m \<and>
        IsProcessed m2 (Page_ID page) \<and> Migrator_stateFile m2 = Some (Migrator_state m2) \<and>
        (\<forall>rest r mf. migratePages env rest m2 = Some (r, mf) \<longrightarrow>
           (\<exists>file. Migrator_stateFile mf = Some file \<and> lookupBool file (Page_ID page)) \<and>
           (\<forall>dryRun w created m' opts w' pages.
              NewMigrator env dryRun w (Migrator_stateFile mf) created = Inr m' \<and>
              MigrateOptions_Resume opts \<longrightarrow>
              page \<notin> set (selectPages opts (m'\<lparr>Migrator_world := w'\<rparr>) pages))))"
proof -
  from migratePage_skip [OF assms] obtain m1 where
    mp: "migratePage env page m = Some (None, m1)" and cr: "Migrator_created m1 = Migrator_created m"
    by blast
  have saved: "migrateStep env page m = Some (None, m2) \<and> Migrator_created m2 = Migrator_created m \<and>
        IsProcessed m2 (Page_ID page) \<and> Migrator_stateFile m2 = Some (Migrator_state m2) \<and>
        (\<forall>rest r mf. migratePages env rest m2 = Some (r, mf) \<longrightarrow>
           (\<exists>file. Migrator_stateFile mf = Some file \<and> lookupBool file (Page_ID page)) \<and>
           (\<forall>dryRun w created m' opts w' pages.
              NewMigrator env dryRun w (Migrator_stateFile mf) created = Inr m' \<and>
              MigrateOptions_Resume opts \<longrightarrow>
              page \<notin> set (selectPages opts (m'\<lparr>Migrator_world := w'\<rparr>) pages)))"
    if sv: "SaveState env (MarkProcessed (Page_ID page) m1) = (None, m2)" for m2
  proof -
    note step = migrateStep_saved [OF mp sv]
    have c2: "Migrator_created m2 = Migrator_created m"
      using SaveState_result [OF sv] cr by (simp add: MarkProcessed_def)
    have st: "Migrator_state m2 (Page_ID page) = Some True"
      using step(2) by simp
    then have ip: "IsProcessed m2 (Page_ID page)"
      by (simp add: IsProcessed_def lookupBool_def)
    have later: "(\<exists>file. Migrator_stateFile mf = Some file \<and> lookupBool file (Page_ID page)) \<and>
           (\<forall>dryRun w created m' opts w' pages.
              NewMigrator env dryRun w (Migrator_stateFile mf) created = Inr m' \<and>
              MigrateOptions_Resume opts \<longrightarrow>
              page \<notin> set (selectPages opts (m'\<lparr>Migrator_world := w'\<rparr>) pages))"
      if run: "migratePages env rest m2 = Some (r, mf)" for rest r mf
    proof -
      from migratePages_keeps_saved [OF run st] step(3) st
      obtain f where sf: "Migrator_stateFile mf = Some f" "f (Page_ID page) = Some True"
        by auto
      have "page \<notin> set (selectPages opts (m'\<lparr>Migrator_world := w'\<rparr>) pages)"
        if "NewMigrator env dryRun w (Migrator_stateFile mf) created = Inr m'"
          and "MigrateOptions_Resume opts" for dryRun w created m' opts w' pages
      proof -
        from NewMigrator_state [OF that(1)] sf have "IsProcessed m' (Page_ID page)"
          by (simp add: IsProcessed_def lookupBool_def)
        then show ?thesis
          by (intro selectPages_resume that(2)) simp
      qed
      with sf show ?thesis
        by (auto simp: lookupBool_def)
    qed
    from step(1) c2 ip step(3) later show ?thesis by blast
  qed
  from mp cr saved show ?thesis by blast
qed


lemma SaveState_reliable:
  "fst (writeStateFile env (Migrator_world m)) = None \<Longrightarrow> \<exists>m'. SaveState env m = (None, m')"
  by (cases "writeStateFile env (Migrator_world m)") (simp add: SaveState_def)

lemma exampleEnv_RetrieveBlocks_N:
  "RetrieveBlocks exampleEnv ''N'' w = Some (Inr [paragraphBlock []], Suc w)"
  unfolding RetrieveBlocks_def
  by (subst RetrieveBlocks_loop.simps) (simp add: exampleEnv_def blockResponse_def)

lemma rendersEmpty_pageEmpty: "rendersEmpty exampleEnv pageEmpty m"
  by (simp add: rendersEmpty_def example_ids exampleEnv_RetrieveBlocks)

lemma blockToMarkdown_empty_paragraph: "blockToMarkdown (paragraphBlock []) = []"
  by (simp add: blockToMarkdown_def paragraphBlock_def bareBlock_def richTextToMarkdown_def
      richTextPiece_def plainText_def)

lemma getParentTagsCached_pageBlank: "fst (getParentTagsCached exampleEnv pageBlank m) = []"
proof -
  have "GetParentDatabaseID exampleEnv pageBlank = []" "GetParentPageID exampleEnv pageBlank = []"
    by (simp_all add: exampleEnv_def parentRef_def pageBlank_def titled_def)
  then show ?thesis
    by (simp add: getParentTagsCached_def walkParents.simps)
qed

lemma rendersEmpty_pageBlank: "rendersEmpty exampleEnv pageBlank m"
proof -
  have "Page_ID pageBlank = ''N''" "GetPageTitle pageBlank = []" "Page_CreatedTime pageBlank = []"
    by (simp_all add: pageBlank_def titled_def GetPageTitle_def plainText_def)
  moreover have "BlocksToMarkdown exampleEnv [paragraphBlock []] [] [] [] = Inr []"
    by (simp add: BlocksToMarkdown_def blockLines_def blockToMarkdown_empty_paragraph)
      (simp add: exampleEnv_def asciiTrimSpace_def)
  ultimately show ?thesis
    by (simp add: rendersEmpty_def exampleEnv_RetrieveBlocks_N getParentTagsCached_pageBlank)
qed

theorem empty_page_skipped_and_recorded_witness:
  "(\<exists>m1 m2. migratePage exampleEnv pageEmpty freshMigrator = Some (None, m1) \<and>
      Migrator_created m1 = [] \<and>
      migrateStep exampleEnv pageEmpty freshMigrator = Some (None, m2) \<and>
      Migrator_created m2 = [] \<and> IsProcessed m2 ''E'' \<and>
      Migrator_stateFile m2 = Some (Migrator_state m2)) \<and>
   (\<exists>m1. migratePage exampleEnv pageBlank freshMigrator = Some (None, m1) \<and> Migrator_created m1 = [])"
proof -
  from empty_page_skipped_and_recorded [OF rendersEmpty_pageEmpty, of freshMigrator]
  obtain m1 where m1: "migratePage exampleEnv pageEmpty freshMigrator = Some (None, m1)"
    "Migrator_created m1 = Migrator_created freshMigrator"
    and later: "\<forall>m2. SaveState exampleEnv (MarkProcessed (Page_ID pageEmpty) m1) = (None, m2) \<longrightarrow>
        migrateStep exampleEnv pageEmpty freshMigrator = Some (None, m2) \<and>
        Migrator_created m2 = Migrator_created freshMigrator \<and>
        IsProcessed m2 (Page_ID pageEmpty) \<and> Migrator_stateFile m2 = Some (Migrator_state m2)"
    by blast
  obtain m2 where "SaveState exampleEnv (MarkProcessed (Page_ID pageEmpty) m1) = (None, m2)"
    using SaveState_reliable [of exampleEnv "MarkProcessed (Page_ID pageEmpty) m1"]
    by (auto simp: exampleEnv_reliable)
  with later have m2: "migrateStep exampleEnv pageEmpty freshMigrator = Some (None, m2)"
    "Migrator_created m2 = Migrator_created freshMigrator"
    "IsProcessed m2 (Page_ID pageEmpty)" "Migrator_stateFile m2 = Some (Migrator_state m2)"
    by blast+
  from empty_page_skipped_and_recorded [OF rendersEmpty_pageBlank, of freshMigrator]
  obtain m3 where m3: "migratePage exampleEnv pageBlank freshMigrator = Some (None, m3)"
    "Migrator_created m3 = Migrator_created freshMigrator"
    by blast
  have c0: "Migrator_created freshMigrator = []"
    by (simp add: freshMigrator_def)
  from m1 m2 have "\<exists>m1 m2. migratePage exampleEnv pageEmpty freshMigrator = Some (None, m1) \<and>
      Migrator_created m1 = [] \<and>
      migrateStep exampleEnv pageEmpty freshMigrator = Some (None, m2) \<and>
      Migrator_created m2 = [] \<and> IsProcessed m2 ''E'' \<and>
      Migrator_stateFile m2 = Some (Migrator_state m2)"
    unfolding c0 example_ids by blast
  moreover from m3 have "\<exists>m1. migratePage exampleEnv pageBlank freshMigrator = Some (None, m1) \<and>
      Migrator_created m1 = []"
    unfolding c0 by blast
  ultimately show ?thesis by blast
qed

subsection \<open>Runs that resume\<close>

lemma selectPages_no_resume:
  "\<not> MigrateOptions_Resume opts \<Longrightarrow>
   selectPages opts m pages =
     (if MigrateOptions_FilterTitles opts = [] then pages
      else filterPagesByTitle pages (MigrateOptions_FilterTitles opts))"
  by (simp add: selectPages_def)

lemma selectPages_with_resume:
  "MigrateOptions_Resume opts \<Longrightarrow>
   selectPages opts m pages =
     filterProcessedPages m
       (if MigrateOptions_FilterTitles opts = [] then pages
        else filterPagesByTitle pages (MigrateOptions_FilterTitles opts))"
  by (simp add: selectPages_def)

lemma filterProcessedPages_all:
  "(\<And>p. p \<in> set ps \<Longrightarrow> Migrator_state m (Page_ID p) = Some True) \<Longrightarrow> filterProcessedPages m ps = []"
  by (simp add: filterProcessedPages_def IsProcessed_def lookupBool_def filter_empty_conv)

text \<open>
  C3. A first run without resume finds \<open>pages\<close> and completes; a second run starts where
  the first ended, from the state file it left, finds the same \<open>pages\<close> and resumes under
  the same title filter. Then every document the first run selected is in the processed
  set after the first run and in the set the second run loads, the second run selects no
  document, and it ends successfully having created no memo and changed nothing but the
  state of the services read by its search.
\<close>

theorem resume_after_complete_run:
  assumes "NewMigrator env dryRun w0 file0 created0 = Inr m0"
    and "SearchPages env [] (Migrator_world m0) = Some (Inr pages, w1)"
    and "Migrate env \<lparr>MigrateOptions_Resume = False, MigrateOptions_FilterTitles = titles\<rparr> m0 = Some (None, m1)"
    and "NewMigrator env dryRun' (Migrator_world m1) (Migrator_stateFile m1) (Migrator_created m1) = Inr m2"
    and "SearchPages env [] (Migrator_world m2) = Some (Inr pages, w2)"
  shows "(\<forall>p \<in> set (selectPages \<lparr>MigrateOptions_Resume = False, MigrateOptions_FilterTitles = titles\<rparr>
                         (m0\<lparr>Migrator_world := w1\<rparr>) pages).
            IsProcessed m1 (Page_ID p) \<and> IsProcessed m2 (Page_ID p)) \<and>
     selectPages \<lparr>MigrateOptions_Resume = True, MigrateOptions_FilterTitles = titles\<rparr>
        (m2\<lparr>Migrator_world := w2\<rparr>) pages = [] \<and>
     Migrate env \<lparr>MigrateOptions_Resume = True, MigrateOptions_FilterTitles = titles\<rparr> m2
       = Some (None, m2\<lparr>Migrator_world := w2\<rparr>) \<and>
     Migrator_created (m2\<lparr>Migrator_world := w2\<rparr>) = Migrator_created m1"
proof -
  let ?first = "\<lparr>MigrateOptions_Resume = False, MigrateOptions_FilterTitles = titles\<rparr>"
  let ?second = "\<lparr>MigrateOptions_Resume = True, MigrateOptions_FilterTitles = titles\<rparr>"
  let ?selected = "if titles = [] then pages else filterPagesByTitle pages titles"
  have sel1: "selectPages ?first (m0\<lparr>Migrator_world := w1\<rparr>) pages = ?selected"
    by (simp add: selectPages_no_resume)
  from Migrate_found [OF assms(2), of ?first] assms(3) sel1
  have run: "migratePages env ?selected (m0\<lparr>Migrator_world := w1\<rparr>) = Some (None, m1)"
    by simp
  note fin = migratePages_done [OF run]
  have marked1: "Migrator_state m1 (Page_ID p) = Some True" if "p \<in> set ?selected" for p
    using fin that by (simp add: foldl_mark_other)
  note new = NewMigrator_state [OF assms(4)]
  have marked2: "Migrator_state m2 (Page_ID p) = Some True" if "p \<in> set ?selected" for p
  proof -
    from that have "?selected \<noteq> []" by auto
    with fin have "Migrator_stateFile m1 = Some (Migrator_state m1)" by blast
    with new marked1 [OF that] show ?thesis by simp
  qed
  have processed: "\<forall>p \<in> set (selectPages ?first (m0\<lparr>Migrator_world := w1\<rparr>) pages).
      IsProcessed m1 (Page_ID p) \<and> IsProcessed m2 (Page_ID p)"
    unfolding sel1 using marked1 marked2 by (simp add: IsProcessed_def lookupBool_def)
  have "filterProcessedPages (m2\<lparr>Migrator_world := w2\<rparr>) ?selected = []"
    by (rule filterProcessedPages_all) (simp add: marked2)
  then have sel2: "selectPages ?second (m2\<lparr>Migrator_world := w2\<rparr>) pages = []"
    by (simp add: selectPages_with_resume split: if_splits)
  from Migrate_found [OF assms(5), of ?second] sel2
  have "Migrate env ?second m2 = Some (None, m2\<lparr>Migrator_world := w2\<rparr>)"
    by simp
  with processed sel2 new show ?thesis by simp
qed


lemma NewMigrator_reliable:
  "(\<And>w. fst (readStateFile env w) = None) \<Longrightarrow> \<exists>m. NewMigrator env dryRun w file created = Inr m"
proof -
  assume "\<And>w. fst (readStateFile env w) = None"
  then have "fst (readStateFile env w) = None" .
  then show ?thesis
    by (cases "readStateFile env w"; cases "file") (simp_all add: NewMigrator_def LoadState_def)
qed

lemma NewMigrator_fresh: "NewMigrator exampleEnv False 0 None [] = Inr freshMigrator"
  by (simp add: NewMigrator_def LoadState_def freshMigrator_def exampleEnv_def)

lemma example_selected:
  "selectPages \<lparr>MigrateOptions_Resume = False, MigrateOptions_FilterTitles = [''Groceries'', ''Empty'']\<rparr> m
      [pageGroceries, pageEmpty, pageBroken] = [pageGroceries, pageEmpty]"
  by (simp add: selectPages_def filterPagesByTitle_def lookupBool_def example_ids)

theorem resume_after_complete_run_witness:
  "\<exists>m1 m2.
     Migrate exampleEnv \<lparr>MigrateOptions_Resume = False, MigrateOptions_FilterTitles = [''Groceries'', ''Empty'']\<rparr>
       freshMigrator = Some (None, m1) \<and>
     NewMigrator exampleEnv False (Migrator_world m1) (Migrator_stateFile m1) (Migrator_created m1) = Inr m2 \<and>
     IsProcessed m2 ''A'' \<and> IsProcessed m2 ''E'' \<and>
     Migrate exampleEnv \<lparr>MigrateOptions_Resume = True, MigrateOptions_FilterTitles = [''Groceries'', ''Empty'']\<rparr>
       m2 = Some (None, m2\<lparr>Migrator_world := Suc (Suc (Migrator_world m2))\<rparr>) \<and>
     Migrator_created (m2\<lparr>Migrator_world := Suc (Suc (Migrator_world m2))\<rparr>) = Migrator_created m1"
proof -
  let ?first = "\<lparr>MigrateOptions_Resume = False, MigrateOptions_FilterTitles = [''Groceries'', ''Empty'']\<rparr>"
  let ?second = "\<lparr>MigrateOptions_Resume = True, MigrateOptions_FilterTitles = [''Groceries'', ''Empty'']\<rparr>"
  let ?found = "[pageGroceries, pageEmpty, pageBroken]"
  have search1: "SearchPages exampleEnv [] (Migrator_world freshMigrator)
      = Some (Inr ?found, Suc (Suc (Migrator_world freshMigrator)))"
    by (rule exampleEnv_SearchPages)
  obtain m1 where "migratePages exampleEnv [pageGroceries, pageEmpty]
      (freshMigrator\<lparr>Migrator_world := Suc (Suc (Migrator_world freshMigrator))\<rparr>) = Some (None, m1)"
    using example_first_two by blast
  with Migrate_found [OF search1, of ?first]
  have run1: "Migrate exampleEnv ?first freshMigrator = Some (None, m1)"
    by (simp add: example_selected)
  obtain m2 where new2: "NewMigrator exampleEnv False (Migrator_world m1) (Migrator_stateFile m1)
      (Migrator_created m1) = Inr m2"
    using NewMigrator_reliable [of exampleEnv] exampleEnv_reliable(3) by blast
  have search2: "SearchPages exampleEnv [] (Migrator_world m2)
      = Some (Inr ?found, Suc (Suc (Migrator_world m2)))"
    by (rule exampleEnv_SearchPages)
  note spec = resume_after_complete_run [OF NewMigrator_fresh search1 run1 new2 search2]
  from spec have all: "\<forall>p \<in> set (selectPages ?first
        (freshMigrator\<lparr>Migrator_world := Suc (Suc (Migrator_world freshMigrator))\<rparr>) ?found).
      IsProcessed m1 (Page_ID p) \<and> IsProcessed m2 (Page_ID p)"
    by (rule conjunct1)
  have "IsProcessed m2 (Page_ID pageGroceries)" "IsProcessed m2 (Page_ID pageEmpty)"
    using all unfolding example_selected by simp_all
  then have ip: "IsProcessed m2 ''A''" "IsProcessed m2 ''E''"
    by (simp_all add: example_ids)
  from spec have "Migrate exampleEnv ?second m2
      = Some (None, m2\<lparr>Migrator_world := Suc (Suc (Migrator_world m2))\<rparr>)"
    and "Migrator_created (m2\<lparr>Migrator_world := Suc (Suc (Migrator_world m2))\<rparr>) = Migrator_created m1"
    by blast+
  with run1 new2 ip show ?thesis by blast
qed

subsection \<open>A document rendered and dispatched\<close>

lemma blockToMarkdown_paragraph: "s \<noteq> [] \<Longrightarrow> blockToMarkdown (paragraphBlock s) = s @ ''\<newline>''"
  by (simp add: blockToMarkdown_def paragraphBlock_def bareBlock_def richTextToMarkdown_plainText)

text \<open>
  The first scenario of the specification: a document titled \<open>Groceries\<close> with the
  paragraphs \<open>Milk\<close> and \<open>Eggs\<close>, created at \<open>2024-03-01T10:00:00Z\<close>, and no tag.
\<close>

lemma render_groceries:
  "BlocksToMarkdown exampleEnv [paragraphBlock ''Milk'', paragraphBlock ''Eggs'']
      ''2024-03-01T10:00:00Z'' ''Groceries'' []
   = Inr ''# Groceries\<newline>\<newline><!-- Created: 2024-03-01 10:00:00 -->\<newline>\<newline>Milk\<newline>\<newline>Eggs''"
  by (simp add: BlocksToMarkdown_def blockLines_def blockToMarkdown_paragraph)
    (simp add: exampleEnv_def asciiTrimSpace_def asciiSpace_def)

lemma migratePage_groceries:
  "migratePage exampleEnv pageGroceries freshMigrator
   = Some (None, freshMigrator\<lparr>Migrator_world := 3,
        Migrator_created := [(''# Groceries\<newline>\<newline><!-- Created: 2024-03-01 10:00:00 -->\<newline>\<newline>Milk\<newline>\<newline>Eggs'',
           1709287200000000000)]\<rparr>)"
proof -
  have tags: "getParentTagsCached exampleEnv pageGroceries m = ([], m)" for m
  proof -
    have "GetParentDatabaseID exampleEnv pageGroceries = []" "GetParentPageID exampleEnv pageGroceries = []"
      by (simp_all add: exampleEnv_def parentRef_def pageGroceries_def titled_def)
    then show ?thesis
      by (simp add: getParentTagsCached_def walkParents.simps)
  qed
  have time: "Page_CreatedTime pageGroceries = ''2024-03-01T10:00:00Z''"
    by (simp add: pageGroceries_def titled_def)
  have rb: "RetrieveBlocks exampleEnv (Page_ID pageGroceries) (Migrator_world freshMigrator)
      = Some (Inr [paragraphBlock ''Milk'', paragraphBlock ''Eggs''], Suc (Suc (Migrator_world freshMigrator)))"
    by (simp add: example_ids exampleEnv_RetrieveBlocks)
  have md: "BlocksToMarkdown exampleEnv [paragraphBlock ''Milk'', paragraphBlock ''Eggs'']
      (Page_CreatedTime pageGroceries) (GetPageTitle pageGroceries) (replaceTagebuch [])
    = Inr ''# Groceries\<newline>\<newline><!-- Created: 2024-03-01 10:00:00 -->\<newline>\<newline>Milk\<newline>\<newline>Eggs''"
    by (simp add: time example_ids render_groceries)
  show ?thesis
    unfolding migratePage_blocks [OF rb _ tags md, simplified]
    by (simp add: dispatch_def memosMaxLength_def CreateMemo_def time freshMigrator_def)
      (simp add: exampleEnv_def)
qed

subsection \<open>Runs that fail at a document\<close>

text \<open>
  Four runs on the example documents: one that cannot retrieve the blocks of its third
  document, one whose target service refuses the only memo of its first document, one
  whose target service refuses the second part of a long document, and one whose first
  document is created and recorded before the run goes on.
\<close>

lemma asciiTrimSpace_core:
  assumes "s \<noteq> []" and "\<not> asciiSpace (hd s)" and "\<not> asciiSpace (last s)"
    and "\<And>c. c \<in> set ws \<Longrightarrow> asciiSpace c"
  shows "asciiTrimSpace (s @ ws) = s"
proof -
  have front: "dropWhile asciiSpace (s @ ws) = s @ ws"
    using assms(1,2) by (cases s) simp_all
  have "dropWhile asciiSpace (rev ws @ rev s) = dropWhile asciiSpace (rev s)"
    using assms(4) by (intro dropWhile_append2) simp
  also have "\<dots> = rev s"
    using assms(1,3) by (cases "rev s") (auto simp: last_rev [symmetric] simp del: last_rev)
  finally show ?thesis
    by (simp add: asciiTrimSpace_def front)
qed

lemma render_long:
  "BlocksToMarkdown exampleEnv [paragraphBlock (replicate 7987 (CHR ''a'')), paragraphBlock longTail]
      [] ''T'' [] = Inr longText"
proof -
  have a: "blockToMarkdown (paragraphBlock (replicate 7987 (CHR ''a''))) = replicate 7987 (CHR ''a'') @ ''\<newline>''"
    by (rule blockToMarkdown_paragraph) simp
  have b: "blockToMarkdown (paragraphBlock longTail) = longTail @ ''\<newline>''"
    by (rule blockToMarkdown_paragraph) (simp add: longTail_def)
  have md: "''# T\<newline>\<newline>'' @ blockLines [paragraphBlock (replicate 7987 (CHR ''a'')), paragraphBlock longTail]
      = longText @ ''\<newline>\<newline>''"
    by (simp add: blockLines_def a b longText_def longHead_def)
  have "asciiTrimSpace (longText @ ''\<newline>\<newline>'') = longText"
  proof (rule asciiTrimSpace_core)
    show "longText \<noteq> []" by (simp add: longText_def longHead_def)
    show "\<not> asciiSpace (hd longText)" by (simp add: longText_def longHead_def asciiSpace_def)
    show "\<not> asciiSpace (last longText)" by (simp add: longText_def longTail_def asciiSpace_def)
    show "asciiSpace c" if "c \<in> set ''\<newline>\<newline>''" for c
      using that by (auto simp: asciiSpace_def)
  qed
  with md show ?thesis
    by (simp add: BlocksToMarkdown_def) (simp add: exampleEnv_def)
qed

lemma no_parent_tags:
  "GetParentDatabaseID env page = [] \<Longrightarrow> GetParentPageID env page = [] \<Longrightarrow>
   getParentTagsCached env page m = ([], m)"
  by (simp add: getParentTagsCached_def walkParents.simps)

lemma refusingEnv_SearchPages:
  "SearchPages refusingEnv [] w = Some (Inr [pageGroceries, pageEmpty, pageBroken], Suc (Suc w))"
  unfolding SearchPages_def
  by (subst SearchPages_loop.simps, subst SearchPages_loop.simps)
    (simp add: refusingEnv_def exampleEnv_def searchResponse_def)

lemma refusingEnv_RetrieveBlocks:
  "RetrieveBlocks refusingEnv ''A'' w
     = Some (Inr [paragraphBlock ''Milk'', paragraphBlock ''Eggs''], Suc (Suc w))"
  unfolding RetrieveBlocks_def
  by (subst RetrieveBlocks_loop.simps, subst RetrieveBlocks_loop.simps)
    (simp add: refusingEnv_def exampleEnv_def blockResponse_def)

lemma refusingEnv_render:
  "BlocksToMarkdown refusingEnv blocks createdTime pageTitle tags
     = BlocksToMarkdown exampleEnv blocks createdTime pageTitle tags"
proof -
  have "ParseRFC3339 refusingEnv = ParseRFC3339 exampleEnv" "FormatTime refusingEnv = FormatTime exampleEnv"
    "TrimSpace refusingEnv = TrimSpace exampleEnv"
    by (simp_all add: refusingEnv_def)
  then show ?thesis
    by (simp only: BlocksToMarkdown_def)
qed

lemma readyToDispatch_groceries:
  "readyToDispatch refusingEnv pageGroceries m
     = Some (''# Groceries\<newline>\<newline><!-- Created: 2024-03-01 10:00:00 -->\<newline>\<newline>Milk\<newline>\<newline>Eggs'',
             1709287200000000000, m\<lparr>Migrator_world := Suc (Suc (Migrator_world m))\<rparr>)"
proof -
  have "GetParentDatabaseID refusingEnv pageGroceries = []" "GetParentPageID refusingEnv pageGroceries = []"
    by (simp_all add: refusingEnv_def exampleEnv_def parentRef_def pageGroceries_def titled_def)
  then have tags: "getParentTagsCached refusingEnv pageGroceries m' = ([], m')" for m'
    by (rule no_parent_tags)
  have created_at: "Page_CreatedTime pageGroceries = ''2024-03-01T10:00:00Z''"
    by (simp add: pageGroceries_def titled_def)
  have parsed: "ParseRFC3339 refusingEnv ''2024-03-01T10:00:00Z'' = Some 1709287200000000000"
    by (simp add: refusingEnv_def exampleEnv_def)
  show ?thesis
    by (simp add: readyToDispatch_def example_ids refusingEnv_RetrieveBlocks tags created_at parsed
        refusingEnv_render render_groceries)
qed

lemma pageLong_fields:
  "Page_ID pageLong = ''L''" "GetPageTitle pageLong = ''T''" "Page_CreatedTime pageLong = []"
  by (simp_all add: pageLong_def titled_def GetPageTitle_def plainText_def)

lemma longEnv_SearchPages: "SearchPages longEnv [] w = Some (Inr [pageLong], Suc w)"
  unfolding SearchPages_def
  by (subst SearchPages_loop.simps) (simp add: longEnv_def searchResponse_def)

lemma longEnv_RetrieveBlocks:
  "RetrieveBlocks longEnv blockID w
     = Some (Inr [paragraphBlock (replicate 7987 (CHR ''a'')), paragraphBlock longTail], Suc w)"
  unfolding RetrieveBlocks_def
  by (subst RetrieveBlocks_loop.simps) (simp add: longEnv_def blockResponse_def)

lemma longEnv_render:
  "BlocksToMarkdown longEnv blocks createdTime pageTitle tags
     = BlocksToMarkdown exampleEnv blocks createdTime pageTitle tags"
proof -
  have "ParseRFC3339 longEnv = ParseRFC3339 exampleEnv" "FormatTime longEnv = FormatTime exampleEnv"
    "TrimSpace longEnv = TrimSpace exampleEnv"
    by (simp_all add: longEnv_def)
  then show ?thesis
    by (simp only: BlocksToMarkdown_def)
qed

lemma longText_not_Nil: "longText \<noteq> []"
  by (simp add: longText_def longHead_def)

lemma readyToDispatch_long:
  "readyToDispatch longEnv pageLong m = Some (longText, 0, m\<lparr>Migrator_world := Suc (Migrator_world m)\<rparr>)"
proof -
  have "GetParentDatabaseID longEnv pageLong = []" "GetParentPageID longEnv pageLong = []"
    by (simp_all add: longEnv_def exampleEnv_def parentRef_def pageLong_def titled_def)
  then have tags: "getParentTagsCached longEnv pageLong m' = ([], m')" for m'
    by (rule no_parent_tags)
  have clock: "ParseRFC3339 longEnv [] = None" "Now longEnv w = 0" for w
    by (simp_all add: longEnv_def exampleEnv_def)
  show ?thesis
    by (simp add: readyToDispatch_def pageLong_fields longEnv_RetrieveBlocks tags clock
        longEnv_render render_long longText_not_Nil)
qed

lemma readyToDispatch_groceries_example:
  "readyToDispatch exampleEnv pageGroceries m
     = Some (''# Groceries\<newline>\<newline><!-- Created: 2024-03-01 10:00:00 -->\<newline>\<newline>Milk\<newline>\<newline>Eggs'',
             1709287200000000000, m\<lparr>Migrator_world := Suc (Suc (Migrator_world m))\<rparr>)"
proof -
  have "GetParentDatabaseID exampleEnv pageGroceries = []" "GetParentPageID exampleEnv pageGroceries = []"
    by (simp_all add: exampleEnv_def parentRef_def pageGroceries_def titled_def)
  then have tags: "getParentTagsCached exampleEnv pageGroceries m' = ([], m')" for m'
    by (rule no_parent_tags)
  have created_at: "Page_CreatedTime pageGroceries = ''2024-03-01T10:00:00Z''"
    by (simp add: pageGroceries_def titled_def)
  have parsed: "ParseRFC3339 exampleEnv ''2024-03-01T10:00:00Z'' = Some 1709287200000000000"
    by (simp add: exampleEnv_def)
  show ?thesis
    by (simp add: readyToDispatch_def example_ids exampleEnv_RetrieveBlocks tags created_at parsed
        render_groceries)
qed

theorem Migrate_no_partial_success_witness:
  "(\<exists>m2. Migrate exampleEnv \<lparr>MigrateOptions_Resume = False, MigrateOptions_FilterTitles = []\<rparr> freshMigrator
       = Some (Some (Error ''failed to migrate page Broken (B): failed to retrieve blocks: API request failed with status 429: ''), m2) \<and>
     Migrator_state m2 ''A'' = Some True \<and> Migrator_state m2 ''E'' = Some True \<and>
     Migrator_state m2 ''B'' = None \<and> Migrator_stateFile m2 = Some (Migrator_state m2)) \<and>
   (\<exists>m2. Migrate refusingEnv \<lparr>MigrateOptions_Resume = False, MigrateOptions_FilterTitles = []\<rparr> freshMigrator
       = Some (Some (Error ''failed to migrate page Groceries (A): failed to create memo: API request failed with status 500: ''), m2) \<and>
     Migrator_state m2 ''A'' = None \<and> Migrator_stateFile m2 = None) \<and>
   (\<exists>m2. Migrate longEnv \<lparr>MigrateOptions_Resume = False, MigrateOptions_FilterTitles = []\<rparr> freshMigrator
       = Some (Some (Error ''failed to migrate page T (L): failed to create split memos: failed to create memo part 2: API request failed with status 500: ''), m2) \<and>
     Migrator_state m2 ''L'' = None \<and> Migrator_stateFile m2 = None) \<and>
   (\<exists>m2 m3. migratePage exampleEnv pageGroceries (freshMigrator\<lparr>Migrator_world := Suc (Suc 0)\<rparr>) = Some (None, m2) \<and>
     Migrator_created m2
       = [(''# Groceries\<newline>\<newline><!-- Created: 2024-03-01 10:00:00 -->\<newline>\<newline>Milk\<newline>\<newline>Eggs'', 1709287200000000000)] \<and>
     Migrate exampleEnv \<lparr>MigrateOptions_Resume = False, MigrateOptions_FilterTitles = []\<rparr> freshMigrator
       = migratePages exampleEnv [pageEmpty, pageBroken] m3 \<and>
     Migrator_state m3 ''A'' = Some True \<and> Migrator_state m3 ''E'' = None \<and>
     Migrator_stateFile m3 = Some (Migrator_state m3))"
proof -
  have fetch_fails:
    "\<exists>m2. Migrate exampleEnv \<lparr>MigrateOptions_Resume = False, MigrateOptions_FilterTitles = []\<rparr> freshMigrator
         = Some (Some (Error ''failed to migrate page Broken (B): failed to retrieve blocks: API request failed with status 429: ''), m2) \<and>
       Migrator_state m2 ''A'' = Some True \<and> Migrator_state m2 ''E'' = Some True \<and>
       Migrator_state m2 ''B'' = None \<and> Migrator_stateFile m2 = Some (Migrator_state m2)"
  proof -
    let ?opts = "\<lparr>MigrateOptions_Resume = False, MigrateOptions_FilterTitles = []\<rparr>"
    let ?m0 = "freshMigrator\<lparr>Migrator_world := Suc (Suc 0)\<rparr>"
    have search: "SearchPages exampleEnv [] (Migrator_world freshMigrator)
        = Some (Inr [pageGroceries, pageEmpty, pageBroken], Suc (Suc 0))"
      by (simp add: exampleEnv_SearchPages freshMigrator_def)
    have sel: "selectPages ?opts ?m0 [pageGroceries, pageEmpty, pageBroken]
        = [pageGroceries, pageEmpty] @ pageBroken # []"
      by (simp add: selectPages_def)
    obtain m1 where first: "migratePages exampleEnv [pageGroceries, pageEmpty] ?m0 = Some (None, m1)"
      using example_first_two by blast
    let ?m2 = "m1\<lparr>Migrator_world := Suc (Migrator_world m1)\<rparr>"
    have broken: "RetrieveBlocks exampleEnv (Page_ID pageBroken) (Migrator_world m1)
        = Some (Inl (Error ''API request failed with status 429: ''), Suc (Migrator_world m1))"
      by (simp add: example_ids exampleEnv_RetrieveBlocks)
    have two: "[pageGroceries, pageEmpty] \<noteq> []"
      by simp
    note spec = Migrate_no_partial_success [OF search sel first]
    note st = spec [THEN conjunct1]
    note saved = spec [THEN conjunct2, THEN conjunct2, THEN conjunct1, rule_format, OF two]
    note res = spec [THEN conjunct2, THEN conjunct2, THEN conjunct2, THEN conjunct2, THEN conjunct2,
        THEN conjunct2, THEN conjunct1, rule_format, OF broken]
    have run: "Migrate exampleEnv ?opts freshMigrator
        = Some (Some (pageError pageBroken (''failed to retrieve blocks: ''
              @ msg (Error ''API request failed with status 429: ''))), ?m2)"
      using res by (rule conjunct2)
    have wording: "pageError pageBroken (''failed to retrieve blocks: ''
          @ msg (Error ''API request failed with status 429: ''))
        = Error ''failed to migrate page Broken (B): failed to retrieve blocks: API request failed with status 429: ''"
      by (simp add: pageError_def example_ids)
    have marks: "Migrator_state m1 ''A'' = Some True" "Migrator_state m1 ''E'' = Some True"
      "Migrator_state m1 ''B'' = None"
      unfolding st by (simp_all add: example_ids freshMigrator_def)
    show ?thesis
    proof (intro exI [of _ ?m2] conjI)
      show "Migrate exampleEnv ?opts freshMigrator
         = Some (Some (Error ''failed to migrate page Broken (B): failed to retrieve blocks: API request failed with status 429: ''), ?m2)"
        using run unfolding wording .
      show "Migrator_state ?m2 ''A'' = Some True" "Migrator_state ?m2 ''E'' = Some True"
        "Migrator_state ?m2 ''B'' = None"
        using marks by simp_all
      show "Migrator_stateFile ?m2 = Some (Migrator_state ?m2)"
        using saved by simp
    qed
  qed
  have memo_refused:
    "\<exists>m2. Migrate refusingEnv \<lparr>MigrateOptions_Resume = False, MigrateOptions_FilterTitles = []\<rparr> freshMigrator
         = Some (Some (Error ''failed to migrate page Groceries (A): failed to create memo: API request failed with status 500: ''), m2) \<and>
       Migrator_state m2 ''A'' = None \<and> Migrator_stateFile m2 = None"
  proof -
    let ?opts = "\<lparr>MigrateOptions_Resume = False, MigrateOptions_FilterTitles = []\<rparr>"
    let ?m0 = "freshMigrator\<lparr>Migrator_world := Suc (Suc 0)\<rparr>"
    let ?text = "''# Groceries\<newline>\<newline><!-- Created: 2024-03-01 10:00:00 -->\<newline>\<newline>Milk\<newline>\<newline>Eggs''"
    let ?m' = "?m0\<lparr>Migrator_world := Suc (Suc (Migrator_world ?m0))\<rparr>"
    let ?m2 = "?m'\<lparr>Migrator_world := Suc (Migrator_world ?m'),
        Migrator_created := Migrator_created ?m' @ [(?text, 1709287200000000000)]\<rparr>"
    have search: "SearchPages refusingEnv [] (Migrator_world freshMigrator)
        = Some (Inr [pageGroceries, pageEmpty, pageBroken], Suc (Suc 0))"
      by (simp add: refusingEnv_SearchPages freshMigrator_def)
    have sel: "selectPages ?opts ?m0 [pageGroceries, pageEmpty, pageBroken]
        = [] @ pageGroceries # [pageEmpty, pageBroken]"
      by (simp add: selectPages_def)
    have first: "migratePages refusingEnv [] ?m0 = Some (None, ?m0)"
      by simp
    have ready: "readyToDispatch refusingEnv pageGroceries ?m0 = Some (?text, 1709287200000000000, ?m')"
      by (rule readyToDispatch_groceries)
    have short: "length ?text \<le> memosMaxLength"
      by (simp add: memosMaxLength_def)
    have refused: "CreateMemo refusingEnv ?text 1709287200000000000 (Migrator_dryRun ?m') ?m'
        = (Some (Error ''API request failed with status 500: ''), ?m2)"
      by (simp add: CreateMemo_def refusingEnv_def refuse_def)
    note spec = Migrate_no_partial_success [OF search sel first]
    note disp = spec [THEN conjunct2, THEN conjunct2, THEN conjunct2, THEN conjunct2, THEN conjunct2,
        THEN conjunct2, THEN conjunct2, THEN conjunct1, rule_format, OF ready]
    note one = disp [THEN conjunct2, THEN conjunct2, THEN conjunct2, THEN conjunct1, rule_format, OF short]
    note res = one [THEN conjunct1, rule_format, OF refused]
    have run: "Migrate refusingEnv ?opts freshMigrator
        = Some (Some (pageError pageGroceries (''failed to create memo: ''
              @ msg (Error ''API request failed with status 500: ''))), ?m2)"
      and s2: "Migrator_state ?m2 = Migrator_state ?m0"
      and f2: "Migrator_stateFile ?m2 = Migrator_stateFile ?m0"
      using res by (rule conjunct1, rule conjunct2 [THEN conjunct1], rule conjunct2 [THEN conjunct2])
    have wording: "pageError pageGroceries (''failed to create memo: ''
          @ msg (Error ''API request failed with status 500: ''))
        = Error ''failed to migrate page Groceries (A): failed to create memo: API request failed with status 500: ''"
      by (simp add: pageError_def example_ids)
    show ?thesis
    proof (intro exI [of _ ?m2] conjI)
      show "Migrate refusingEnv ?opts freshMigrator
         = Some (Some (Error ''failed to migrate page Groceries (A): failed to create memo: API request failed with status 500: ''), ?m2)"
        using run unfolding wording .
      show "Migrator_state ?m2 ''A'' = None"
        unfolding s2 by (simp add: freshMigrator_def)
      show "Migrator_stateFile ?m2 = None"
        unfolding f2 by (simp add: freshMigrator_def)
    qed
  qed
  have part_refused:
    "\<exists>m2. Migrate longEnv \<lparr>MigrateOptions_Resume = False, MigrateOptions_FilterTitles = []\<rparr> freshMigrator
         = Some (Some (Error ''failed to migrate page T (L): failed to create split memos: failed to create memo part 2: API request failed with status 500: ''), m2) \<and>
       Migrator_state m2 ''L'' = None \<and> Migrator_stateFile m2 = None"
  proof -
    let ?opts = "\<lparr>MigrateOptions_Resume = False, MigrateOptions_FilterTitles = []\<rparr>"
    let ?m0 = "freshMigrator\<lparr>Migrator_world := Suc 0\<rparr>"
    let ?m' = "?m0\<lparr>Migrator_world := Suc (Migrator_world ?m0)\<rparr>"
    let ?n = "length ([longHead] @ longTail # [])"
    let ?c1 = "memoContent (GetPageTitle pageLong) 0 ?n longHead"
    let ?c2 = "memoContent (GetPageTitle pageLong) (length [longHead]) ?n longTail"
    let ?mk = "?m'\<lparr>Migrator_world := Suc (Migrator_world ?m'),
        Migrator_created := Migrator_created ?m' @ [(?c1, 0)]\<rparr>"
    let ?m2 = "?mk\<lparr>Migrator_world := Suc (Migrator_world ?mk),
        Migrator_created := Migrator_created ?mk @ [(?c2, partCreatedTime 0 (length [longHead]))]\<rparr>"
    have search: "SearchPages longEnv [] (Migrator_world freshMigrator) = Some (Inr [pageLong], Suc 0)"
      by (simp add: longEnv_SearchPages freshMigrator_def)
    have sel: "selectPages ?opts ?m0 [pageLong] = [] @ pageLong # []"
      by (simp add: selectPages_def)
    have first: "migratePages longEnv [] ?m0 = Some (None, ?m0)"
      by simp
    have ready: "readyToDispatch longEnv pageLong ?m0 = Some (longText, 0, ?m')"
      by (rule readyToDispatch_long)
    have long: "memosMaxLength < length longText"
      by (simp add: memosMaxLength_def length_longText)
    have chunks: "splitChunks [] longText = [longHead] @ longTail # []"
      by (simp add: splitChunks_longText)
    have accepted: "createParts longEnv (GetPageTitle pageLong) 0 ?n 0 [longHead] ?m' = (None, ?mk)"
      by (simp add: CreateMemo_def partCreatedTime_def Add_def Second_def longEnv_def)
    have refused: "CreateMemo longEnv ?c2 (partCreatedTime 0 (length [longHead])) (Migrator_dryRun ?mk) ?mk
        = (Some (Error ''API request failed with status 500: ''), ?m2)"
      by (simp add: CreateMemo_def partCreatedTime_def Add_def Second_def longEnv_def refuse_def)
    note spec = Migrate_no_partial_success [OF search sel first]
    note disp = spec [THEN conjunct2, THEN conjunct2, THEN conjunct2, THEN conjunct2, THEN conjunct2,
        THEN conjunct2, THEN conjunct2, THEN conjunct1, rule_format, OF ready]
    note parts = disp [THEN conjunct2, THEN conjunct2, THEN conjunct2, THEN conjunct2, rule_format, OF long]
    note res = parts [THEN conjunct2, THEN conjunct1, rule_format, OF conjI [OF chunks conjI [OF accepted refused]]]
    have run: "Migrate longEnv ?opts freshMigrator
        = Some (Some (pageError pageLong (''failed to create split memos: failed to create memo part ''
              @ itoa (length [longHead] + 1) @ '': '' @ msg (Error ''API request failed with status 500: ''))), ?m2)"
      and s2: "Migrator_state ?m2 = Migrator_state ?m0"
      and f2: "Migrator_stateFile ?m2 = Migrator_stateFile ?m0"
      using res by (rule conjunct1, rule conjunct2 [THEN conjunct1], rule conjunct2 [THEN conjunct2])
    have wording: "pageError pageLong (''failed to create split memos: failed to create memo part ''
          @ itoa (length [longHead] + 1) @ '': '' @ msg (Error ''API request failed with status 500: ''))
        = Error ''failed to migrate page T (L): failed to create split memos: failed to create memo part 2: API request failed with status 500: ''"
      by (simp add: pageError_def pageLong_fields itoa_Suc_Suc_0)
    show ?thesis
    proof (intro exI [of _ ?m2] conjI)
      show "Migrate longEnv ?opts freshMigrator
         = Some (Some (Error ''failed to migrate page T (L): failed to create split memos: failed to create memo part 2: API request failed with status 500: ''), ?m2)"
        using run unfolding wording .
      show "Migrator_state ?m2 ''L'' = None"
        unfolding s2 by (simp add: freshMigrator_def)
      show "Migrator_stateFile ?m2 = None"
        unfolding f2 by (simp add: freshMigrator_def)
    qed
  qed
  have memo_accepted:
    "\<exists>m2 m3. migratePage exampleEnv pageGroceries (freshMigrator\<lparr>Migrator_world := Suc (Suc 0)\<rparr>) = Some (None, m2) \<and>
       Migrator_created m2
         = [(''# Groceries\<newline>\<newline><!-- Created: 2024-03-01 10:00:00 -->\<newline>\<newline>Milk\<newline>\<newline>Eggs'', 1709287200000000000)] \<and>
       Migrate exampleEnv \<lparr>MigrateOptions_Resume = False, MigrateOptions_FilterTitles = []\<rparr> freshMigrator
         = migratePages exampleEnv [pageEmpty, pageBroken] m3 \<and>
       Migrator_state m3 ''A'' = Some True \<and> Migrator_state m3 ''E'' = None \<and>
       Migrator_stateFile m3 = Some (Migrator_state m3)"
  proof -
    let ?opts = "\<lparr>MigrateOptions_Resume = False, MigrateOptions_FilterTitles = []\<rparr>"
    let ?m0 = "freshMigrator\<lparr>Migrator_world := Suc (Suc 0)\<rparr>"
    let ?body = "''# Groceries\<newline>\<newline><!-- Created: 2024-03-01 10:00:00 -->\<newline>\<newline>Milk\<newline>\<newline>Eggs''"
    let ?m' = "?m0\<lparr>Migrator_world := Suc (Suc (Migrator_world ?m0))\<rparr>"
    let ?m2 = "?m'\<lparr>Migrator_world := Suc (Migrator_world ?m'),
        Migrator_created := Migrator_created ?m' @ [(?body, 1709287200000000000)]\<rparr>"
    let ?m3 = "(MarkProcessed (Page_ID pageGroceries) ?m2)
        \<lparr>Migrator_world := Migrator_world (MarkProcessed (Page_ID pageGroceries) ?m2),
         Migrator_stateFile := Some (Migrator_state (MarkProcessed (Page_ID pageGroceries) ?m2))\<rparr>"
    have search: "SearchPages exampleEnv [] (Migrator_world freshMigrator)
        = Some (Inr [pageGroceries, pageEmpty, pageBroken], Suc (Suc 0))"
      by (simp add: exampleEnv_SearchPages freshMigrator_def)
    have sel: "selectPages ?opts ?m0 [pageGroceries, pageEmpty, pageBroken]
        = [] @ pageGroceries # [pageEmpty, pageBroken]"
      by (simp add: selectPages_def)
    have first: "migratePages exampleEnv [] ?m0 = Some (None, ?m0)"
      by simp
    have ready: "readyToDispatch exampleEnv pageGroceries ?m0 = Some (?body, 1709287200000000000, ?m')"
      by (rule readyToDispatch_groceries_example)
    have short: "length ?body \<le> memosMaxLength"
      by (simp add: memosMaxLength_def)
    have accepted: "CreateMemo exampleEnv ?body 1709287200000000000 (Migrator_dryRun ?m') ?m' = (None, ?m2)"
      by (simp add: CreateMemo_def exampleEnv_def)
    have saved: "SaveState exampleEnv (MarkProcessed (Page_ID pageGroceries) ?m2) = (None, ?m3)"
      by (simp add: SaveState_def exampleEnv_def)
    note spec = Migrate_no_partial_success [OF search sel first]
    note disp = spec [THEN conjunct2, THEN conjunct2, THEN conjunct2, THEN conjunct2, THEN conjunct2,
        THEN conjunct2, THEN conjunct2, THEN conjunct1, rule_format, OF ready]
    note one = disp [THEN conjunct2, THEN conjunct2, THEN conjunct2, THEN conjunct1, rule_format, OF short]
    note res = one [THEN conjunct2, rule_format, OF accepted]
    have page: "migratePage exampleEnv pageGroceries ?m0 = Some (None, ?m2)"
      and created: "Migrator_created ?m2 = Migrator_created ?m0 @ [(?body, 1709287200000000000)]"
      using res by (rule conjunct1, rule conjunct2)
    note next_step = spec [THEN conjunct2, THEN conjunct2, THEN conjunct2, THEN conjunct2, THEN conjunct1,
        rule_format, OF conjI [OF page saved]]
    have run: "Migrate exampleEnv ?opts freshMigrator = migratePages exampleEnv [pageEmpty, pageBroken] ?m3"
      and s3: "Migrator_state ?m3 = (Migrator_state ?m0)(Page_ID pageGroceries \<mapsto> True)"
      and f3: "Migrator_stateFile ?m3 = Some (Migrator_state ?m3)"
      using next_step by (rule conjunct1, rule conjunct2 [THEN conjunct1], rule conjunct2 [THEN conjunct2])
    show ?thesis
    proof (rule exI [of _ ?m2], rule exI [of _ ?m3], intro conjI)
      show "migratePage exampleEnv pageGroceries ?m0 = Some (None, ?m2)"
        by (rule page)
      show "Migrator_created ?m2 = [(?body, 1709287200000000000)]"
        unfolding created by (simp add: freshMigrator_def)
      show "Migrate exampleEnv ?opts freshMigrator = migratePages exampleEnv [pageEmpty, pageBroken] ?m3"
        by (rule run)
      show "Migrator_state ?m3 ''A'' = Some True" "Migrator_state ?m3 ''E'' = None"
        unfolding s3 by (simp_all add: example_ids freshMigrator_def)
      show "Migrator_stateFile ?m3 = Some (Migrator_state ?m3)"
        by (rule f3)
    qed
  qed
  show ?thesis
    by (intro conjI) (rule fetch_fails, rule memo_refused, rule part_refused, rule memo_accepted)
qed

end
